theory Spec2Isabelle
  imports Complex_Main "HOL-Library.List_Lexorder" "HOL-Library.Char_ord" "HOL-Library.AList"
begin

section \<open>Python strings\<close>

text \<open>
  Zone codes, street names and field names are Python \<open>str\<close> values, sequences of Unicode
  code points. A \<open>str\<close> is modelled as the \<open>string\<close> of its UTF-8 bytes. On well formed
  UTF-8 the order of \<open>sorted\<close> on strings is the lexicographic order on the bytes
  (\<open>List_Lexorder\<close> over \<open>Char_ord\<close>), and \<open>startswith\<close> and \<open>in\<close> are the prefix and the
  infix tests on the bytes. The methods that depend on the character database
  (\<open>upper\<close>, \<open>lower\<close>, \<open>strip\<close>, \<open>unicodedata.normalize\<close>, \<open>unicodedata.category\<close>) decode
  the bytes to code points, work on the code points and encode the result. Their tables
  are those of Unicode 14.0.0, the version of the character database of CPython 3.11.
  A \<open>str\<close> with a lone surrogate has no UTF-8 form and is outside the model. Floats are
  modelled as reals: comparisons of finite floats are comparisons of the reals they
  denote.
\<close>

subsection \<open>UTF-8\<close>

definition byte :: "char \<Rightarrow> int" where
  "byte c = of_char c"

text \<open>The payload of the byte at position \<open>j\<close> when it is a continuation byte.\<close>

definition continuacao :: "string \<Rightarrow> nat \<Rightarrow> int option" where
  "continuacao bs j =
     (if j < length bs \<and> 128 \<le> byte (bs ! j) \<and> byte (bs ! j) < 192
      then Some (byte (bs ! j) - 128) else None)"

text \<open>
  The code point that starts with the byte \<open>b\<close>, followed by \<open>bs\<close>, and the number of bytes
  of \<open>bs\<close> it takes. A byte that starts no well formed sequence stands for itself, as a
  number above the last code point, so that encoding gives the byte back.
\<close>

definition primeiro_caractere :: "char \<Rightarrow> string \<Rightarrow> int \<times> nat" where
  "primeiro_caractere b bs =
     (let n = byte b in
      if n < 128 then (n, 0)
      else if 194 \<le> n \<and> n < 224 then
        (case continuacao bs 0 of
           Some c1 \<Rightarrow> ((n - 192) * 64 + c1, 1)
         | None \<Rightarrow> (1114112 + n, 0))
      else if 224 \<le> n \<and> n < 240 then
        (case (continuacao bs 0, continuacao bs 1) of
           (Some c1, Some c2) \<Rightarrow>
             (let x = (n - 224) * 4096 + c1 * 64 + c2 in
              if 2048 \<le> x \<and> \<not> (55296 \<le> x \<and> x < 57344) then (x, 2) else (1114112 + n, 0))
         | _ \<Rightarrow> (1114112 + n, 0))
      else if 240 \<le> n \<and> n < 245 then
        (case (continuacao bs 0, continuacao bs 1, continuacao bs 2) of
           (Some c1, Some c2, Some c3) \<Rightarrow>
             (let x = (n - 240) * 262144 + c1 * 4096 + c2 * 64 + c3 in
              if 65536 \<le> x \<and> x < 1114112 then (x, 3) else (1114112 + n, 0))
         | _ \<Rightarrow> (1114112 + n, 0))
      else (1114112 + n, 0))"

function decodifica :: "string \<Rightarrow> int list" where
  "decodifica [] = []"
| "decodifica (b # bs) =
     fst (primeiro_caractere b bs) # decodifica (drop (snd (primeiro_caractere b bs)) bs)"
  by pat_completeness auto

termination decodifica
  by (relation "measure length") auto

definition codifica_cp :: "int \<Rightarrow> string" where
  "codifica_cp c =
     (if c < 128 then [char_of c]
      else if c < 2048 then [char_of (192 + c div 64), char_of (128 + c mod 64)]
      else if c < 65536 then
        [char_of (224 + c div 4096), char_of (128 + c div 64 mod 64), char_of (128 + c mod 64)]
      else if c < 1114112 then
        [char_of (240 + c div 262144), char_of (128 + c div 4096 mod 64),
         char_of (128 + c div 64 mod 64), char_of (128 + c mod 64)]
      else [char_of (c - 1114112)])"

definition codifica :: "int list \<Rightarrow> string" where
  "codifica cs = concat (map codifica_cp cs)"

subsection \<open>The character database\<close>

text \<open>
  The tables are sorted by code point and cut in blocks; a table is the function that
  gives, for a code point, the block where its entry would be. \<open>busca\<close> reads a block of
  single code points, \<open>na_faixa\<close> a block of ranges (both ends included).
\<close>

fun busca :: "int \<Rightarrow> (int \<times> 'a) list \<Rightarrow> 'a option" where
  "busca c [] = None"
| "busca c ((k, v) # tab) = (if c = k then Some v else if c < k then None else busca c tab)"

fun na_faixa :: "int \<Rightarrow> (int \<times> int) list \<Rightarrow> bool" where
  "na_faixa c [] = False"
| "na_faixa c ((a, b) # tab) = (if c < a then False else if c \<le> b then True else na_faixa c tab)"

text \<open>The code points for which \<open>str.isspace\<close> holds.\<close>

definition ESPACOS :: "(int \<times> int) list" where
  "ESPACOS =
     [
      (9, 13), (28, 32), (133, 133), (160, 160), (5760, 5760), (8192, 8202), (8232, 8233),
      (8239, 8239), (8287, 8287), (12288, 12288)
     ]"

text \<open>
  The full upper case and lower case mappings of the code points above ASCII that have
  one (\<open>str.upper\<close> and \<open>str.lower\<close> of the one-character string).
\<close>

definition TABELA_UPPER_0 :: "(int \<times> int list) list" where
  "TABELA_UPPER_0 =
     [
      (181, [924]), (223, [83, 83]), (224, [192]), (225, [193]), (226, [194]), (227, [195]),
      (228, [196]), (229, [197]), (230, [198]), (231, [199]), (232, [200]), (233, [201]),
      (234, [202]), (235, [203]), (236, [204]), (237, [205]), (238, [206]), (239, [207]),
      (240, [208]), (241, [209]), (242, [210]), (243, [211]), (244, [212]), (245, [213]),
      (246, [214]), (248, [216]), (249, [217]), (250, [218]), (251, [219]), (252, [220]),
      (253, [221]), (254, [222]), (255, [376]), (257, [256]), (259, [258]), (261, [260]),
      (263, [262]), (265, [264]), (267, [266]), (269, [268]), (271, [270]), (273, [272]),
      (275, [274]), (277, [276]), (279, [278]), (281, [280]), (283, [282]), (285, [284]),
      (287, [286]), (289, [288]), (291, [290]), (293, [292]), (295, [294]), (297, [296]),
      (299, [298]), (301, [300]), (303, [302]), (305, [73]), (307, [306]), (309, [308]),
      (311, [310]), (314, [313]), (316, [315]), (318, [317])
     ]"

definition TABELA_UPPER_1 :: "(int \<times> int list) list" where
  "TABELA_UPPER_1 =
     [
      (320, [319]), (322, [321]), (324, [323]), (326, [325]), (328, [327]), (329, [700, 78]),
      (331, [330]), (333, [332]), (335, [334]), (337, [336]), (339, [338]), (341, [340]),
      (343, [342]), (345, [344]), (347, [346]), (349, [348]), (351, [350]), (353, [352]),
      (355, [354]), (357, [356]), (359, [358]), (361, [360]), (363, [362]), (365, [364]),
      (367, [366]), (369, [368]), (371, [370]), (373, [372]), (375, [374]), (378, [377]),
      (380, [379]), (382, [381]), (383, [83]), (384, [579]), (387, [386]), (389, [388]),
      (392, [391]), (396, [395]), (402, [401]), (405, [502]), (409, [408]), (410, [573]),
      (414, [544]), (417, [416]), (419, [418]), (421, [420]), (424, [423]), (429, [428]),
      (432, [431]), (436, [435]), (438, [437]), (441, [440]), (445, [444]), (447, [503]),
      (453, [452]), (454, [452]), (456, [455]), (457, [455]), (459, [458]), (460, [458]),
      (462, [461]), (464, [463]), (466, [465]), (468, [467])
     ]"

definition TABELA_UPPER_2 :: "(int \<times> int list) list" where
  "TABELA_UPPER_2 =
     [
      (470, [469]), (472, [471]), (474, [473]), (476, [475]), (477, [398]), (479, [478]),
      (481, [480]), (483, [482]), (485, [484]), (487, [486]), (489, [488]), (491, [490]),
      (493, [492]), (495, [494]), (496, [74, 780]), (498, [497]), (499, [497]), (501, [500]),
      (505, [504]), (507, [506]), (509, [508]), (511, [510]), (513, [512]), (515, [514]),
      (517, [516]), (519, [518]), (521, [520]), (523, [522]), (525, [524]), (527, [526]),
      (529, [528]), (531, [530]), (533, [532]), (535, [534]), (537, [536]), (539, [538]),
      (541, [540]), (543, [542]), (547, [546]), (549, [548]), (551, [550]), (553, [552]),
      (555, [554]), (557, [556]), (559, [558]), (561, [560]), (563, [562]), (572, [571]),
      (575, [11390]), (576, [11391]), (578, [577]), (583, [582]), (585, [584]), (587, [586]),
      (589, [588]), (591, [590]), (592, [11375]), (593, [11373]), (594, [11376]), (595, [385]),
      (596, [390]), (598, [393]), (599, [394]), (601, [399])
     ]"

definition TABELA_UPPER_3 :: "(int \<times> int list) list" where
  "TABELA_UPPER_3 =
     [
      (603, [400]), (604, [42923]), (608, [403]), (609, [42924]), (611, [404]), (613, [42893]),
      (614, [42922]), (616, [407]), (617, [406]), (618, [42926]), (619, [11362]), (620, [42925]),
      (623, [412]), (625, [11374]), (626, [413]), (629, [415]), (637, [11364]), (640, [422]),
      (642, [42949]), (643, [425]), (647, [42929]), (648, [430]), (649, [580]), (650, [433]),
      (651, [434]), (652, [581]), (658, [439]), (669, [42930]), (670, [42928]), (837, [921]),
      (881, [880]), (883, [882]), (887, [886]), (891, [1021]), (892, [1022]), (893, [1023]),
      (912, [921, 776, 769]), (940, [902]), (941, [904]), (942, [905]), (943, [906]),
      (944, [933, 776, 769]), (945, [913]), (946, [914]), (947, [915]), (948, [916]),
      (949, [917]), (950, [918]), (951, [919]), (952, [920]), (953, [921]), (954, [922]),
      (955, [923]), (956, [924]), (957, [925]), (958, [926]), (959, [927]), (960, [928]),
      (961, [929]), (962, [931]), (963, [931]), (964, [932]), (965, [933]), (966, [934])
     ]"

definition TABELA_UPPER_4 :: "(int \<times> int list) list" where
  "TABELA_UPPER_4 =
     [
      (967, [935]), (968, [936]), (969, [937]), (970, [938]), (971, [939]), (972, [908]),
      (973, [910]), (974, [911]), (976, [914]), (977, [920]), (981, [934]), (982, [928]),
      (983, [975]), (985, [984]), (987, [986]), (989, [988]), (991, [990]), (993, [992]),
      (995, [994]), (997, [996]), (999, [998]), (1001, [1000]), (1003, [1002]), (1005, [1004]),
      (1007, [1006]), (1008, [922]), (1009, [929]), (1010, [1017]), (1011, [895]), (1013, [917]),
      (1016, [1015]), (1019, [1018]), (1072, [1040]), (1073, [1041]), (1074, [1042]),
      (1075, [1043]), (1076, [1044]), (1077, [1045]), (1078, [1046]), (1079, [1047]),
      (1080, [1048]), (1081, [1049]), (1082, [1050]), (1083, [1051]), (1084, [1052]),
      (1085, [1053]), (1086, [1054]), (1087, [1055]), (1088, [1056]), (1089, [1057]),
      (1090, [1058]), (1091, [1059]), (1092, [1060]), (1093, [1061]), (1094, [1062]),
      (1095, [1063]), (1096, [1064]), (1097, [1065]), (1098, [1066]), (1099, [1067]),
      (1100, [1068]), (1101, [1069]), (1102, [1070]), (1103, [1071])
     ]"

definition TABELA_UPPER_5 :: "(int \<times> int list) list" where
  "TABELA_UPPER_5 =
     [
      (1104, [1024]), (1105, [1025]), (1106, [1026]), (1107, [1027]), (1108, [1028]),
      (1109, [1029]), (1110, [1030]), (1111, [1031]), (1112, [1032]), (1113, [1033]),
      (1114, [1034]), (1115, [1035]), (1116, [1036]), (1117, [1037]), (1118, [1038]),
      (1119, [1039]), (1121, [1120]), (1123, [1122]), (1125, [1124]), (1127, [1126]),
      (1129, [1128]), (1131, [1130]), (1133, [1132]), (1135, [1134]), (1137, [1136]),
      (1139, [1138]), (1141, [1140]), (1143, [1142]), (1145, [1144]), (1147, [1146]),
      (1149, [1148]), (1151, [1150]), (1153, [1152]), (1163, [1162]), (1165, [1164]),
      (1167, [1166]), (1169, [1168]), (1171, [1170]), (1173, [1172]), (1175, [1174]),
      (1177, [1176]), (1179, [1178]), (1181, [1180]), (1183, [1182]), (1185, [1184]),
      (1187, [1186]), (1189, [1188]), (1191, [1190]), (1193, [1192]), (1195, [1194]),
      (1197, [1196]), (1199, [1198]), (1201, [1200]), (1203, [1202]), (1205, [1204]),
      (1207, [1206]), (1209, [1208]), (1211, [1210]), (1213, [1212]), (1215, [1214]),
      (1218, [1217]), (1220, [1219]), (1222, [1221]), (1224, [1223])
     ]"

definition TABELA_UPPER_6 :: "(int \<times> int list) list" where
  "TABELA_UPPER_6 =
     [
      (1226, [1225]), (1228, [1227]), (1230, [1229]), (1231, [1216]), (1233, [1232]),
      (1235, [1234]), (1237, [1236]), (1239, [1238]), (1241, [1240]), (1243, [1242]),
      (1245, [1244]), (1247, [1246]), (1249, [1248]), (1251, [1250]), (1253, [1252]),
      (1255, [1254]), (1257, [1256]), (1259, [1258]), (1261, [1260]), (1263, [1262]),
      (1265, [1264]), (1267, [1266]), (1269, [1268]), (1271, [1270]), (1273, [1272]),
      (1275, [1274]), (1277, [1276]), (1279, [1278]), (1281, [1280]), (1283, [1282]),
      (1285, [1284]), (1287, [1286]), (1289, [1288]), (1291, [1290]), (1293, [1292]),
      (1295, [1294]), (1297, [1296]), (1299, [1298]), (1301, [1300]), (1303, [1302]),
      (1305, [1304]), (1307, [1306]), (1309, [1308]), (1311, [1310]), (1313, [1312]),
      (1315, [1314]), (1317, [1316]), (1319, [1318]), (1321, [1320]), (1323, [1322]),
      (1325, [1324]), (1327, [1326]), (1377, [1329]), (1378, [1330]), (1379, [1331]),
      (1380, [1332]), (1381, [1333]), (1382, [1334]), (1383, [1335]), (1384, [1336]),
      (1385, [1337]), (1386, [1338]), (1387, [1339]), (1388, [1340])
     ]"

definition TABELA_UPPER_7 :: "(int \<times> int list) list" where
  "TABELA_UPPER_7 =
     [
      (1389, [1341]), (1390, [1342]), (1391, [1343]), (1392, [1344]), (1393, [1345]),
      (1394, [1346]), (1395, [1347]), (1396, [1348]), (1397, [1349]), (1398, [1350]),
      (1399, [1351]), (1400, [1352]), (1401, [1353]), (1402, [1354]), (1403, [1355]),
      (1404, [1356]), (1405, [1357]), (1406, [1358]), (1407, [1359]), (1408, [1360]),
      (1409, [1361]), (1410, [1362]), (1411, [1363]), (1412, [1364]), (1413, [1365]),
      (1414, [1366]), (1415, [1333, 1362]), (4304, [7312]), (4305, [7313]), (4306, [7314]),
      (4307, [7315]), (4308, [7316]), (4309, [7317]), (4310, [7318]), (4311, [7319]),
      (4312, [7320]), (4313, [7321]), (4314, [7322]), (4315, [7323]), (4316, [7324]),
      (4317, [7325]), (4318, [7326]), (4319, [7327]), (4320, [7328]), (4321, [7329]),
      (4322, [7330]), (4323, [7331]), (4324, [7332]), (4325, [7333]), (4326, [7334]),
      (4327, [7335]), (4328, [7336]), (4329, [7337]), (4330, [7338]), (4331, [7339]),
      (4332, [7340]), (4333, [7341]), (4334, [7342]), (4335, [7343]), (4336, [7344]),
      (4337, [7345]), (4338, [7346]), (4339, [7347]), (4340, [7348])
     ]"

definition TABELA_UPPER_8 :: "(int \<times> int list) list" where
  "TABELA_UPPER_8 =
     [
      (4341, [7349]), (4342, [7350]), (4343, [7351]), (4344, [7352]), (4345, [7353]),
      (4346, [7354]), (4349, [7357]), (4350, [7358]), (4351, [7359]), (5112, [5104]),
      (5113, [5105]), (5114, [5106]), (5115, [5107]), (5116, [5108]), (5117, [5109]),
      (7296, [1042]), (7297, [1044]), (7298, [1054]), (7299, [1057]), (7300, [1058]),
      (7301, [1058]), (7302, [1066]), (7303, [1122]), (7304, [42570]), (7545, [42877]),
      (7549, [11363]), (7566, [42950]), (7681, [7680]), (7683, [7682]), (7685, [7684]),
      (7687, [7686]), (7689, [7688]), (7691, [7690]), (7693, [7692]), (7695, [7694]),
      (7697, [7696]), (7699, [7698]), (7701, [7700]), (7703, [7702]), (7705, [7704]),
      (7707, [7706]), (7709, [7708]), (7711, [7710]), (7713, [7712]), (7715, [7714]),
      (7717, [7716]), (7719, [7718]), (7721, [7720]), (7723, [7722]), (7725, [7724]),
      (7727, [7726]), (7729, [7728]), (7731, [7730]), (7733, [7732]), (7735, [7734]),
      (7737, [7736]), (7739, [7738]), (7741, [7740]), (7743, [7742]), (7745, [7744]),
      (7747, [7746]), (7749, [7748]), (7751, [7750]), (7753, [7752])
     ]"

definition TABELA_UPPER_9 :: "(int \<times> int list) list" where
  "TABELA_UPPER_9 =
     [
      (7755, [7754]), (7757, [7756]), (7759, [7758]), (7761, [7760]), (7763, [7762]),
      (7765, [7764]), (7767, [7766]), (7769, [7768]), (7771, [7770]), (7773, [7772]),
      (7775, [7774]), (7777, [7776]), (7779, [7778]), (7781, [7780]), (7783, [7782]),
      (7785, [7784]), (7787, [7786]), (7789, [7788]), (7791, [7790]), (7793, [7792]),
      (7795, [7794]), (7797, [7796]), (7799, [7798]), (7801, [7800]), (7803, [7802]),
      (7805, [7804]), (7807, [7806]), (7809, [7808]), (7811, [7810]), (7813, [7812]),
      (7815, [7814]), (7817, [7816]), (7819, [7818]), (7821, [7820]), (7823, [7822]),
      (7825, [7824]), (7827, [7826]), (7829, [7828]), (7830, [72, 817]), (7831, [84, 776]),
      (7832, [87, 778]), (7833, [89, 778]), (7834, [65, 702]), (7835, [7776]), (7841, [7840]),
      (7843, [7842]), (7845, [7844]), (7847, [7846]), (7849, [7848]), (7851, [7850]),
      (7853, [7852]), (7855, [7854]), (7857, [7856]), (7859, [7858]), (7861, [7860]),
      (7863, [7862]), (7865, [7864]), (7867, [7866]), (7869, [7868]), (7871, [7870]),
      (7873, [7872]), (7875, [7874]), (7877, [7876]), (7879, [7878])
     ]"

definition TABELA_UPPER_10 :: "(int \<times> int list) list" where
  "TABELA_UPPER_10 =
     [
      (7881, [7880]), (7883, [7882]), (7885, [7884]), (7887, [7886]), (7889, [7888]),
      (7891, [7890]), (7893, [7892]), (7895, [7894]), (7897, [7896]), (7899, [7898]),
      (7901, [7900]), (7903, [7902]), (7905, [7904]), (7907, [7906]), (7909, [7908]),
      (7911, [7910]), (7913, [7912]), (7915, [7914]), (7917, [7916]), (7919, [7918]),
      (7921, [7920]), (7923, [7922]), (7925, [7924]), (7927, [7926]), (7929, [7928]),
      (7931, [7930]), (7933, [7932]), (7935, [7934]), (7936, [7944]), (7937, [7945]),
      (7938, [7946]), (7939, [7947]), (7940, [7948]), (7941, [7949]), (7942, [7950]),
      (7943, [7951]), (7952, [7960]), (7953, [7961]), (7954, [7962]), (7955, [7963]),
      (7956, [7964]), (7957, [7965]), (7968, [7976]), (7969, [7977]), (7970, [7978]),
      (7971, [7979]), (7972, [7980]), (7973, [7981]), (7974, [7982]), (7975, [7983]),
      (7984, [7992]), (7985, [7993]), (7986, [7994]), (7987, [7995]), (7988, [7996]),
      (7989, [7997]), (7990, [7998]), (7991, [7999]), (8000, [8008]), (8001, [8009]),
      (8002, [8010]), (8003, [8011]), (8004, [8012]), (8005, [8013])
     ]"

definition TABELA_UPPER_11 :: "(int \<times> int list) list" where
  "TABELA_UPPER_11 =
     [
      (8016, [933, 787]), (8017, [8025]), (8018, [933, 787, 768]), (8019, [8027]),
      (8020, [933, 787, 769]), (8021, [8029]), (8022, [933, 787, 834]), (8023, [8031]),
      (8032, [8040]), (8033, [8041]), (8034, [8042]), (8035, [8043]), (8036, [8044]),
      (8037, [8045]), (8038, [8046]), (8039, [8047]), (8048, [8122]), (8049, [8123]),
      (8050, [8136]), (8051, [8137]), (8052, [8138]), (8053, [8139]), (8054, [8154]),
      (8055, [8155]), (8056, [8184]), (8057, [8185]), (8058, [8170]), (8059, [8171]),
      (8060, [8186]), (8061, [8187]), (8064, [7944, 921]), (8065, [7945, 921]),
      (8066, [7946, 921]), (8067, [7947, 921]), (8068, [7948, 921]), (8069, [7949, 921]),
      (8070, [7950, 921]), (8071, [7951, 921]), (8072, [7944, 921]), (8073, [7945, 921]),
      (8074, [7946, 921]), (8075, [7947, 921]), (8076, [7948, 921]), (8077, [7949, 921]),
      (8078, [7950, 921]), (8079, [7951, 921]), (8080, [7976, 921]), (8081, [7977, 921]),
      (8082, [7978, 921]), (8083, [7979, 921]), (8084, [7980, 921]), (8085, [7981, 921]),
      (8086, [7982, 921]), (8087, [7983, 921]), (8088, [7976, 921]), (8089, [7977, 921]),
      (8090, [7978, 921]), (8091, [7979, 921]), (8092, [7980, 921]), (8093, [7981, 921]),
      (8094, [7982, 921]), (8095, [7983, 921]), (8096, [8040, 921]), (8097, [8041, 921])
     ]"

definition TABELA_UPPER_12 :: "(int \<times> int list) list" where
  "TABELA_UPPER_12 =
     [
      (8098, [8042, 921]), (8099, [8043, 921]), (8100, [8044, 921]), (8101, [8045, 921]),
      (8102, [8046, 921]), (8103, [8047, 921]), (8104, [8040, 921]), (8105, [8041, 921]),
      (8106, [8042, 921]), (8107, [8043, 921]), (8108, [8044, 921]), (8109, [8045, 921]),
      (8110, [8046, 921]), (8111, [8047, 921]), (8112, [8120]), (8113, [8121]),
      (8114, [8122, 921]), (8115, [913, 921]), (8116, [902, 921]), (8118, [913, 834]),
      (8119, [913, 834, 921]), (8124, [913, 921]), (8126, [921]), (8130, [8138, 921]),
      (8131, [919, 921]), (8132, [905, 921]), (8134, [919, 834]), (8135, [919, 834, 921]),
      (8140, [919, 921]), (8144, [8152]), (8145, [8153]), (8146, [921, 776, 768]),
      (8147, [921, 776, 769]), (8150, [921, 834]), (8151, [921, 776, 834]), (8160, [8168]),
      (8161, [8169]), (8162, [933, 776, 768]), (8163, [933, 776, 769]), (8164, [929, 787]),
      (8165, [8172]), (8166, [933, 834]), (8167, [933, 776, 834]), (8178, [8186, 921]),
      (8179, [937, 921]), (8180, [911, 921]), (8182, [937, 834]), (8183, [937, 834, 921]),
      (8188, [937, 921]), (8526, [8498]), (8560, [8544]), (8561, [8545]), (8562, [8546]),
      (8563, [8547]), (8564, [8548]), (8565, [8549]), (8566, [8550]), (8567, [8551]),
      (8568, [8552]), (8569, [8553]), (8570, [8554]), (8571, [8555]), (8572, [8556]),
      (8573, [8557])
     ]"

definition TABELA_UPPER_13 :: "(int \<times> int list) list" where
  "TABELA_UPPER_13 =
     [
      (8574, [8558]), (8575, [8559]), (8580, [8579]), (9424, [9398]), (9425, [9399]),
      (9426, [9400]), (9427, [9401]), (9428, [9402]), (9429, [9403]), (9430, [9404]),
      (9431, [9405]), (9432, [9406]), (9433, [9407]), (9434, [9408]), (9435, [9409]),
      (9436, [9410]), (9437, [9411]), (9438, [9412]), (9439, [9413]), (9440, [9414]),
      (9441, [9415]), (9442, [9416]), (9443, [9417]), (9444, [9418]), (9445, [9419]),
      (9446, [9420]), (9447, [9421]), (9448, [9422]), (9449, [9423]), (11312, [11264]),
      (11313, [11265]), (11314, [11266]), (11315, [11267]), (11316, [11268]), (11317, [11269]),
      (11318, [11270]), (11319, [11271]), (11320, [11272]), (11321, [11273]), (11322, [11274]),
      (11323, [11275]), (11324, [11276]), (11325, [11277]), (11326, [11278]), (11327, [11279]),
      (11328, [11280]), (11329, [11281]), (11330, [11282]), (11331, [11283]), (11332, [11284]),
      (11333, [11285]), (11334, [11286]), (11335, [11287]), (11336, [11288]), (11337, [11289]),
      (11338, [11290]), (11339, [11291]), (11340, [11292]), (11341, [11293]), (11342, [11294]),
      (11343, [11295]), (11344, [11296]), (11345, [11297]), (11346, [11298])
     ]"

definition TABELA_UPPER_14 :: "(int \<times> int list) list" where
  "TABELA_UPPER_14 =
     [
      (11347, [11299]), (11348, [11300]), (11349, [11301]), (11350, [11302]), (11351, [11303]),
      (11352, [11304]), (11353, [11305]), (11354, [11306]), (11355, [11307]), (11356, [11308]),
      (11357, [11309]), (11358, [11310]), (11359, [11311]), (11361, [11360]), (11365, [570]),
      (11366, [574]), (11368, [11367]), (11370, [11369]), (11372, [11371]), (11379, [11378]),
      (11382, [11381]), (11393, [11392]), (11395, [11394]), (11397, [11396]), (11399, [11398]),
      (11401, [11400]), (11403, [11402]), (11405, [11404]), (11407, [11406]), (11409, [11408]),
      (11411, [11410]), (11413, [11412]), (11415, [11414]), (11417, [11416]), (11419, [11418]),
      (11421, [11420]), (11423, [11422]), (11425, [11424]), (11427, [11426]), (11429, [11428]),
      (11431, [11430]), (11433, [11432]), (11435, [11434]), (11437, [11436]), (11439, [11438]),
      (11441, [11440]), (11443, [11442]), (11445, [11444]), (11447, [11446]), (11449, [11448]),
      (11451, [11450]), (11453, [11452]), (11455, [11454]), (11457, [11456]), (11459, [11458]),
      (11461, [11460]), (11463, [11462]), (11465, [11464]), (11467, [11466]), (11469, [11468]),
      (11471, [11470]), (11473, [11472]), (11475, [11474]), (11477, [11476])
     ]"

definition TABELA_UPPER_15 :: "(int \<times> int list) list" where
  "TABELA_UPPER_15 =
     [
      (11479, [11478]), (11481, [11480]), (11483, [11482]), (11485, [11484]), (11487, [11486]),
      (11489, [11488]), (11491, [11490]), (11500, [11499]), (11502, [11501]), (11507, [11506]),
      (11520, [4256]), (11521, [4257]), (11522, [4258]), (11523, [4259]), (11524, [4260]),
      (11525, [4261]), (11526, [4262]), (11527, [4263]), (11528, [4264]), (11529, [4265]),
      (11530, [4266]), (11531, [4267]), (11532, [4268]), (11533, [4269]), (11534, [4270]),
      (11535, [4271]), (11536, [4272]), (11537, [4273]), (11538, [4274]), (11539, [4275]),
      (11540, [4276]), (11541, [4277]), (11542, [4278]), (11543, [4279]), (11544, [4280]),
      (11545, [4281]), (11546, [4282]), (11547, [4283]), (11548, [4284]), (11549, [4285]),
      (11550, [4286]), (11551, [4287]), (11552, [4288]), (11553, [4289]), (11554, [4290]),
      (11555, [4291]), (11556, [4292]), (11557, [4293]), (11559, [4295]), (11565, [4301]),
      (42561, [42560]), (42563, [42562]), (42565, [42564]), (42567, [42566]), (42569, [42568]),
      (42571, [42570]), (42573, [42572]), (42575, [42574]), (42577, [42576]), (42579, [42578]),
      (42581, [42580]), (42583, [42582]), (42585, [42584]), (42587, [42586])
     ]"

definition TABELA_UPPER_16 :: "(int \<times> int list) list" where
  "TABELA_UPPER_16 =
     [
      (42589, [42588]), (42591, [42590]), (42593, [42592]), (42595, [42594]), (42597, [42596]),
      (42599, [42598]), (42601, [42600]), (42603, [42602]), (42605, [42604]), (42625, [42624]),
      (42627, [42626]), (42629, [42628]), (42631, [42630]), (42633, [42632]), (42635, [42634]),
      (42637, [42636]), (42639, [42638]), (42641, [42640]), (42643, [42642]), (42645, [42644]),
      (42647, [42646]), (42649, [42648]), (42651, [42650]), (42787, [42786]), (42789, [42788]),
      (42791, [42790]), (42793, [42792]), (42795, [42794]), (42797, [42796]), (42799, [42798]),
      (42803, [42802]), (42805, [42804]), (42807, [42806]), (42809, [42808]), (42811, [42810]),
      (42813, [42812]), (42815, [42814]), (42817, [42816]), (42819, [42818]), (42821, [42820]),
      (42823, [42822]), (42825, [42824]), (42827, [42826]), (42829, [42828]), (42831, [42830]),
      (42833, [42832]), (42835, [42834]), (42837, [42836]), (42839, [42838]), (42841, [42840]),
      (42843, [42842]), (42845, [42844]), (42847, [42846]), (42849, [42848]), (42851, [42850]),
      (42853, [42852]), (42855, [42854]), (42857, [42856]), (42859, [42858]), (42861, [42860]),
      (42863, [42862]), (42874, [42873]), (42876, [42875]), (42879, [42878])
     ]"

definition TABELA_UPPER_17 :: "(int \<times> int list) list" where
  "TABELA_UPPER_17 =
     [
      (42881, [42880]), (42883, [42882]), (42885, [42884]), (42887, [42886]), (42892, [42891]),
      (42897, [42896]), (42899, [42898]), (42900, [42948]), (42903, [42902]), (42905, [42904]),
      (42907, [42906]), (42909, [42908]), (42911, [42910]), (42913, [42912]), (42915, [42914]),
      (42917, [42916]), (42919, [42918]), (42921, [42920]), (42933, [42932]), (42935, [42934]),
      (42937, [42936]), (42939, [42938]), (42941, [42940]), (42943, [42942]), (42945, [42944]),
      (42947, [42946]), (42952, [42951]), (42954, [42953]), (42961, [42960]), (42967, [42966]),
      (42969, [42968]), (42998, [42997]), (43859, [42931]), (43888, [5024]), (43889, [5025]),
      (43890, [5026]), (43891, [5027]), (43892, [5028]), (43893, [5029]), (43894, [5030]),
      (43895, [5031]), (43896, [5032]), (43897, [5033]), (43898, [5034]), (43899, [5035]),
      (43900, [5036]), (43901, [5037]), (43902, [5038]), (43903, [5039]), (43904, [5040]),
      (43905, [5041]), (43906, [5042]), (43907, [5043]), (43908, [5044]), (43909, [5045]),
      (43910, [5046]), (43911, [5047]), (43912, [5048]), (43913, [5049]), (43914, [5050]),
      (43915, [5051]), (43916, [5052]), (43917, [5053]), (43918, [5054])
     ]"

definition TABELA_UPPER_18 :: "(int \<times> int list) list" where
  "TABELA_UPPER_18 =
     [
      (43919, [5055]), (43920, [5056]), (43921, [5057]), (43922, [5058]), (43923, [5059]),
      (43924, [5060]), (43925, [5061]), (43926, [5062]), (43927, [5063]), (43928, [5064]),
      (43929, [5065]), (43930, [5066]), (43931, [5067]), (43932, [5068]), (43933, [5069]),
      (43934, [5070]), (43935, [5071]), (43936, [5072]), (43937, [5073]), (43938, [5074]),
      (43939, [5075]), (43940, [5076]), (43941, [5077]), (43942, [5078]), (43943, [5079]),
      (43944, [5080]), (43945, [5081]), (43946, [5082]), (43947, [5083]), (43948, [5084]),
      (43949, [5085]), (43950, [5086]), (43951, [5087]), (43952, [5088]), (43953, [5089]),
      (43954, [5090]), (43955, [5091]), (43956, [5092]), (43957, [5093]), (43958, [5094]),
      (43959, [5095]), (43960, [5096]), (43961, [5097]), (43962, [5098]), (43963, [5099]),
      (43964, [5100]), (43965, [5101]), (43966, [5102]), (43967, [5103]), (64256, [70, 70]),
      (64257, [70, 73]), (64258, [70, 76]), (64259, [70, 70, 73]), (64260, [70, 70, 76]),
      (64261, [83, 84]), (64262, [83, 84]), (64275, [1348, 1350]), (64276, [1348, 1333]),
      (64277, [1348, 1339]), (64278, [1358, 1350]), (64279, [1348, 1341]), (65345, [65313]),
      (65346, [65314]), (65347, [65315])
     ]"

definition TABELA_UPPER_19 :: "(int \<times> int list) list" where
  "TABELA_UPPER_19 =
     [
      (65348, [65316]), (65349, [65317]), (65350, [65318]), (65351, [65319]), (65352, [65320]),
      (65353, [65321]), (65354, [65322]), (65355, [65323]), (65356, [65324]), (65357, [65325]),
      (65358, [65326]), (65359, [65327]), (65360, [65328]), (65361, [65329]), (65362, [65330]),
      (65363, [65331]), (65364, [65332]), (65365, [65333]), (65366, [65334]), (65367, [65335]),
      (65368, [65336]), (65369, [65337]), (65370, [65338]), (66600, [66560]), (66601, [66561]),
      (66602, [66562]), (66603, [66563]), (66604, [66564]), (66605, [66565]), (66606, [66566]),
      (66607, [66567]), (66608, [66568]), (66609, [66569]), (66610, [66570]), (66611, [66571]),
      (66612, [66572]), (66613, [66573]), (66614, [66574]), (66615, [66575]), (66616, [66576]),
      (66617, [66577]), (66618, [66578]), (66619, [66579]), (66620, [66580]), (66621, [66581]),
      (66622, [66582]), (66623, [66583]), (66624, [66584]), (66625, [66585]), (66626, [66586]),
      (66627, [66587]), (66628, [66588]), (66629, [66589]), (66630, [66590]), (66631, [66591]),
      (66632, [66592]), (66633, [66593]), (66634, [66594]), (66635, [66595]), (66636, [66596]),
      (66637, [66597]), (66638, [66598]), (66639, [66599]), (66776, [66736])
     ]"

definition TABELA_UPPER_20 :: "(int \<times> int list) list" where
  "TABELA_UPPER_20 =
     [
      (66777, [66737]), (66778, [66738]), (66779, [66739]), (66780, [66740]), (66781, [66741]),
      (66782, [66742]), (66783, [66743]), (66784, [66744]), (66785, [66745]), (66786, [66746]),
      (66787, [66747]), (66788, [66748]), (66789, [66749]), (66790, [66750]), (66791, [66751]),
      (66792, [66752]), (66793, [66753]), (66794, [66754]), (66795, [66755]), (66796, [66756]),
      (66797, [66757]), (66798, [66758]), (66799, [66759]), (66800, [66760]), (66801, [66761]),
      (66802, [66762]), (66803, [66763]), (66804, [66764]), (66805, [66765]), (66806, [66766]),
      (66807, [66767]), (66808, [66768]), (66809, [66769]), (66810, [66770]), (66811, [66771]),
      (66967, [66928]), (66968, [66929]), (66969, [66930]), (66970, [66931]), (66971, [66932]),
      (66972, [66933]), (66973, [66934]), (66974, [66935]), (66975, [66936]), (66976, [66937]),
      (66977, [66938]), (66979, [66940]), (66980, [66941]), (66981, [66942]), (66982, [66943]),
      (66983, [66944]), (66984, [66945]), (66985, [66946]), (66986, [66947]), (66987, [66948]),
      (66988, [66949]), (66989, [66950]), (66990, [66951]), (66991, [66952]), (66992, [66953]),
      (66993, [66954]), (66995, [66956]), (66996, [66957]), (66997, [66958])
     ]"

definition TABELA_UPPER_21 :: "(int \<times> int list) list" where
  "TABELA_UPPER_21 =
     [
      (66998, [66959]), (66999, [66960]), (67000, [66961]), (67001, [66962]), (67003, [66964]),
      (67004, [66965]), (68800, [68736]), (68801, [68737]), (68802, [68738]), (68803, [68739]),
      (68804, [68740]), (68805, [68741]), (68806, [68742]), (68807, [68743]), (68808, [68744]),
      (68809, [68745]), (68810, [68746]), (68811, [68747]), (68812, [68748]), (68813, [68749]),
      (68814, [68750]), (68815, [68751]), (68816, [68752]), (68817, [68753]), (68818, [68754]),
      (68819, [68755]), (68820, [68756]), (68821, [68757]), (68822, [68758]), (68823, [68759]),
      (68824, [68760]), (68825, [68761]), (68826, [68762]), (68827, [68763]), (68828, [68764]),
      (68829, [68765]), (68830, [68766]), (68831, [68767]), (68832, [68768]), (68833, [68769]),
      (68834, [68770]), (68835, [68771]), (68836, [68772]), (68837, [68773]), (68838, [68774]),
      (68839, [68775]), (68840, [68776]), (68841, [68777]), (68842, [68778]), (68843, [68779]),
      (68844, [68780]), (68845, [68781]), (68846, [68782]), (68847, [68783]), (68848, [68784]),
      (68849, [68785]), (68850, [68786]), (71872, [71840]), (71873, [71841]), (71874, [71842]),
      (71875, [71843]), (71876, [71844]), (71877, [71845]), (71878, [71846])
     ]"

definition TABELA_UPPER_22 :: "(int \<times> int list) list" where
  "TABELA_UPPER_22 =
     [
      (71879, [71847]), (71880, [71848]), (71881, [71849]), (71882, [71850]), (71883, [71851]),
      (71884, [71852]), (71885, [71853]), (71886, [71854]), (71887, [71855]), (71888, [71856]),
      (71889, [71857]), (71890, [71858]), (71891, [71859]), (71892, [71860]), (71893, [71861]),
      (71894, [71862]), (71895, [71863]), (71896, [71864]), (71897, [71865]), (71898, [71866]),
      (71899, [71867]), (71900, [71868]), (71901, [71869]), (71902, [71870]), (71903, [71871]),
      (93792, [93760]), (93793, [93761]), (93794, [93762]), (93795, [93763]), (93796, [93764]),
      (93797, [93765]), (93798, [93766]), (93799, [93767]), (93800, [93768]), (93801, [93769]),
      (93802, [93770]), (93803, [93771]), (93804, [93772]), (93805, [93773]), (93806, [93774]),
      (93807, [93775]), (93808, [93776]), (93809, [93777]), (93810, [93778]), (93811, [93779]),
      (93812, [93780]), (93813, [93781]), (93814, [93782]), (93815, [93783]), (93816, [93784]),
      (93817, [93785]), (93818, [93786]), (93819, [93787]), (93820, [93788]), (93821, [93789]),
      (93822, [93790]), (93823, [93791]), (125218, [125184]), (125219, [125185]),
      (125220, [125186]), (125221, [125187]), (125222, [125188]), (125223, [125189]),
      (125224, [125190])
     ]"

definition TABELA_UPPER_23 :: "(int \<times> int list) list" where
  "TABELA_UPPER_23 =
     [
      (125225, [125191]), (125226, [125192]), (125227, [125193]), (125228, [125194]),
      (125229, [125195]), (125230, [125196]), (125231, [125197]), (125232, [125198]),
      (125233, [125199]), (125234, [125200]), (125235, [125201]), (125236, [125202]),
      (125237, [125203]), (125238, [125204]), (125239, [125205]), (125240, [125206]),
      (125241, [125207]), (125242, [125208]), (125243, [125209]), (125244, [125210]),
      (125245, [125211]), (125246, [125212]), (125247, [125213]), (125248, [125214]),
      (125249, [125215]), (125250, [125216]), (125251, [125217])
     ]"

definition TABELA_UPPER :: "int \<Rightarrow> (int \<times> int list) list" where
  "TABELA_UPPER c =
     (if c < 320 then TABELA_UPPER_0 else if c < 470 then TABELA_UPPER_1 else
      if c < 603 then TABELA_UPPER_2 else if c < 967 then TABELA_UPPER_3 else
      if c < 1104 then TABELA_UPPER_4 else if c < 1226 then TABELA_UPPER_5 else
      if c < 1389 then TABELA_UPPER_6 else if c < 4341 then TABELA_UPPER_7 else
      if c < 7755 then TABELA_UPPER_8 else if c < 7881 then TABELA_UPPER_9 else
      if c < 8016 then TABELA_UPPER_10 else if c < 8098 then TABELA_UPPER_11 else
      if c < 8574 then TABELA_UPPER_12 else if c < 11347 then TABELA_UPPER_13 else
      if c < 11479 then TABELA_UPPER_14 else if c < 42589 then TABELA_UPPER_15 else
      if c < 42881 then TABELA_UPPER_16 else if c < 43919 then TABELA_UPPER_17 else
      if c < 65348 then TABELA_UPPER_18 else if c < 66777 then TABELA_UPPER_19 else
      if c < 66998 then TABELA_UPPER_20 else if c < 71879 then TABELA_UPPER_21 else
      if c < 125225 then TABELA_UPPER_22 else TABELA_UPPER_23)"

definition TABELA_LOWER_0 :: "(int \<times> int list) list" where
  "TABELA_LOWER_0 =
     [
      (192, [224]), (193, [225]), (194, [226]), (195, [227]), (196, [228]), (197, [229]),
      (198, [230]), (199, [231]), (200, [232]), (201, [233]), (202, [234]), (203, [235]),
      (204, [236]), (205, [237]), (206, [238]), (207, [239]), (208, [240]), (209, [241]),
      (210, [242]), (211, [243]), (212, [244]), (213, [245]), (214, [246]), (216, [248]),
      (217, [249]), (218, [250]), (219, [251]), (220, [252]), (221, [253]), (222, [254]),
      (256, [257]), (258, [259]), (260, [261]), (262, [263]), (264, [265]), (266, [267]),
      (268, [269]), (270, [271]), (272, [273]), (274, [275]), (276, [277]), (278, [279]),
      (280, [281]), (282, [283]), (284, [285]), (286, [287]), (288, [289]), (290, [291]),
      (292, [293]), (294, [295]), (296, [297]), (298, [299]), (300, [301]), (302, [303]),
      (304, [105, 775]), (306, [307]), (308, [309]), (310, [311]), (313, [314]), (315, [316]),
      (317, [318]), (319, [320]), (321, [322]), (323, [324])
     ]"

definition TABELA_LOWER_1 :: "(int \<times> int list) list" where
  "TABELA_LOWER_1 =
     [
      (325, [326]), (327, [328]), (330, [331]), (332, [333]), (334, [335]), (336, [337]),
      (338, [339]), (340, [341]), (342, [343]), (344, [345]), (346, [347]), (348, [349]),
      (350, [351]), (352, [353]), (354, [355]), (356, [357]), (358, [359]), (360, [361]),
      (362, [363]), (364, [365]), (366, [367]), (368, [369]), (370, [371]), (372, [373]),
      (374, [375]), (376, [255]), (377, [378]), (379, [380]), (381, [382]), (385, [595]),
      (386, [387]), (388, [389]), (390, [596]), (391, [392]), (393, [598]), (394, [599]),
      (395, [396]), (398, [477]), (399, [601]), (400, [603]), (401, [402]), (403, [608]),
      (404, [611]), (406, [617]), (407, [616]), (408, [409]), (412, [623]), (413, [626]),
      (415, [629]), (416, [417]), (418, [419]), (420, [421]), (422, [640]), (423, [424]),
      (425, [643]), (428, [429]), (430, [648]), (431, [432]), (433, [650]), (434, [651]),
      (435, [436]), (437, [438]), (439, [658]), (440, [441])
     ]"

definition TABELA_LOWER_2 :: "(int \<times> int list) list" where
  "TABELA_LOWER_2 =
     [
      (444, [445]), (452, [454]), (453, [454]), (455, [457]), (456, [457]), (458, [460]),
      (459, [460]), (461, [462]), (463, [464]), (465, [466]), (467, [468]), (469, [470]),
      (471, [472]), (473, [474]), (475, [476]), (478, [479]), (480, [481]), (482, [483]),
      (484, [485]), (486, [487]), (488, [489]), (490, [491]), (492, [493]), (494, [495]),
      (497, [499]), (498, [499]), (500, [501]), (502, [405]), (503, [447]), (504, [505]),
      (506, [507]), (508, [509]), (510, [511]), (512, [513]), (514, [515]), (516, [517]),
      (518, [519]), (520, [521]), (522, [523]), (524, [525]), (526, [527]), (528, [529]),
      (530, [531]), (532, [533]), (534, [535]), (536, [537]), (538, [539]), (540, [541]),
      (542, [543]), (544, [414]), (546, [547]), (548, [549]), (550, [551]), (552, [553]),
      (554, [555]), (556, [557]), (558, [559]), (560, [561]), (562, [563]), (570, [11365]),
      (571, [572]), (573, [410]), (574, [11366]), (577, [578])
     ]"

definition TABELA_LOWER_3 :: "(int \<times> int list) list" where
  "TABELA_LOWER_3 =
     [
      (579, [384]), (580, [649]), (581, [652]), (582, [583]), (584, [585]), (586, [587]),
      (588, [589]), (590, [591]), (880, [881]), (882, [883]), (886, [887]), (895, [1011]),
      (902, [940]), (904, [941]), (905, [942]), (906, [943]), (908, [972]), (910, [973]),
      (911, [974]), (913, [945]), (914, [946]), (915, [947]), (916, [948]), (917, [949]),
      (918, [950]), (919, [951]), (920, [952]), (921, [953]), (922, [954]), (923, [955]),
      (924, [956]), (925, [957]), (926, [958]), (927, [959]), (928, [960]), (929, [961]),
      (931, [963]), (932, [964]), (933, [965]), (934, [966]), (935, [967]), (936, [968]),
      (937, [969]), (938, [970]), (939, [971]), (975, [983]), (984, [985]), (986, [987]),
      (988, [989]), (990, [991]), (992, [993]), (994, [995]), (996, [997]), (998, [999]),
      (1000, [1001]), (1002, [1003]), (1004, [1005]), (1006, [1007]), (1012, [952]),
      (1015, [1016]), (1017, [1010]), (1018, [1019]), (1021, [891]), (1022, [892])
     ]"

definition TABELA_LOWER_4 :: "(int \<times> int list) list" where
  "TABELA_LOWER_4 =
     [
      (1023, [893]), (1024, [1104]), (1025, [1105]), (1026, [1106]), (1027, [1107]),
      (1028, [1108]), (1029, [1109]), (1030, [1110]), (1031, [1111]), (1032, [1112]),
      (1033, [1113]), (1034, [1114]), (1035, [1115]), (1036, [1116]), (1037, [1117]),
      (1038, [1118]), (1039, [1119]), (1040, [1072]), (1041, [1073]), (1042, [1074]),
      (1043, [1075]), (1044, [1076]), (1045, [1077]), (1046, [1078]), (1047, [1079]),
      (1048, [1080]), (1049, [1081]), (1050, [1082]), (1051, [1083]), (1052, [1084]),
      (1053, [1085]), (1054, [1086]), (1055, [1087]), (1056, [1088]), (1057, [1089]),
      (1058, [1090]), (1059, [1091]), (1060, [1092]), (1061, [1093]), (1062, [1094]),
      (1063, [1095]), (1064, [1096]), (1065, [1097]), (1066, [1098]), (1067, [1099]),
      (1068, [1100]), (1069, [1101]), (1070, [1102]), (1071, [1103]), (1120, [1121]),
      (1122, [1123]), (1124, [1125]), (1126, [1127]), (1128, [1129]), (1130, [1131]),
      (1132, [1133]), (1134, [1135]), (1136, [1137]), (1138, [1139]), (1140, [1141]),
      (1142, [1143]), (1144, [1145]), (1146, [1147]), (1148, [1149])
     ]"

definition TABELA_LOWER_5 :: "(int \<times> int list) list" where
  "TABELA_LOWER_5 =
     [
      (1150, [1151]), (1152, [1153]), (1162, [1163]), (1164, [1165]), (1166, [1167]),
      (1168, [1169]), (1170, [1171]), (1172, [1173]), (1174, [1175]), (1176, [1177]),
      (1178, [1179]), (1180, [1181]), (1182, [1183]), (1184, [1185]), (1186, [1187]),
      (1188, [1189]), (1190, [1191]), (1192, [1193]), (1194, [1195]), (1196, [1197]),
      (1198, [1199]), (1200, [1201]), (1202, [1203]), (1204, [1205]), (1206, [1207]),
      (1208, [1209]), (1210, [1211]), (1212, [1213]), (1214, [1215]), (1216, [1231]),
      (1217, [1218]), (1219, [1220]), (1221, [1222]), (1223, [1224]), (1225, [1226]),
      (1227, [1228]), (1229, [1230]), (1232, [1233]), (1234, [1235]), (1236, [1237]),
      (1238, [1239]), (1240, [1241]), (1242, [1243]), (1244, [1245]), (1246, [1247]),
      (1248, [1249]), (1250, [1251]), (1252, [1253]), (1254, [1255]), (1256, [1257]),
      (1258, [1259]), (1260, [1261]), (1262, [1263]), (1264, [1265]), (1266, [1267]),
      (1268, [1269]), (1270, [1271]), (1272, [1273]), (1274, [1275]), (1276, [1277]),
      (1278, [1279]), (1280, [1281]), (1282, [1283]), (1284, [1285])
     ]"

definition TABELA_LOWER_6 :: "(int \<times> int list) list" where
  "TABELA_LOWER_6 =
     [
      (1286, [1287]), (1288, [1289]), (1290, [1291]), (1292, [1293]), (1294, [1295]),
      (1296, [1297]), (1298, [1299]), (1300, [1301]), (1302, [1303]), (1304, [1305]),
      (1306, [1307]), (1308, [1309]), (1310, [1311]), (1312, [1313]), (1314, [1315]),
      (1316, [1317]), (1318, [1319]), (1320, [1321]), (1322, [1323]), (1324, [1325]),
      (1326, [1327]), (1329, [1377]), (1330, [1378]), (1331, [1379]), (1332, [1380]),
      (1333, [1381]), (1334, [1382]), (1335, [1383]), (1336, [1384]), (1337, [1385]),
      (1338, [1386]), (1339, [1387]), (1340, [1388]), (1341, [1389]), (1342, [1390]),
      (1343, [1391]), (1344, [1392]), (1345, [1393]), (1346, [1394]), (1347, [1395]),
      (1348, [1396]), (1349, [1397]), (1350, [1398]), (1351, [1399]), (1352, [1400]),
      (1353, [1401]), (1354, [1402]), (1355, [1403]), (1356, [1404]), (1357, [1405]),
      (1358, [1406]), (1359, [1407]), (1360, [1408]), (1361, [1409]), (1362, [1410]),
      (1363, [1411]), (1364, [1412]), (1365, [1413]), (1366, [1414]), (4256, [11520]),
      (4257, [11521]), (4258, [11522]), (4259, [11523]), (4260, [11524])
     ]"

definition TABELA_LOWER_7 :: "(int \<times> int list) list" where
  "TABELA_LOWER_7 =
     [
      (4261, [11525]), (4262, [11526]), (4263, [11527]), (4264, [11528]), (4265, [11529]),
      (4266, [11530]), (4267, [11531]), (4268, [11532]), (4269, [11533]), (4270, [11534]),
      (4271, [11535]), (4272, [11536]), (4273, [11537]), (4274, [11538]), (4275, [11539]),
      (4276, [11540]), (4277, [11541]), (4278, [11542]), (4279, [11543]), (4280, [11544]),
      (4281, [11545]), (4282, [11546]), (4283, [11547]), (4284, [11548]), (4285, [11549]),
      (4286, [11550]), (4287, [11551]), (4288, [11552]), (4289, [11553]), (4290, [11554]),
      (4291, [11555]), (4292, [11556]), (4293, [11557]), (4295, [11559]), (4301, [11565]),
      (5024, [43888]), (5025, [43889]), (5026, [43890]), (5027, [43891]), (5028, [43892]),
      (5029, [43893]), (5030, [43894]), (5031, [43895]), (5032, [43896]), (5033, [43897]),
      (5034, [43898]), (5035, [43899]), (5036, [43900]), (5037, [43901]), (5038, [43902]),
      (5039, [43903]), (5040, [43904]), (5041, [43905]), (5042, [43906]), (5043, [43907]),
      (5044, [43908]), (5045, [43909]), (5046, [43910]), (5047, [43911]), (5048, [43912]),
      (5049, [43913]), (5050, [43914]), (5051, [43915]), (5052, [43916])
     ]"

definition TABELA_LOWER_8 :: "(int \<times> int list) list" where
  "TABELA_LOWER_8 =
     [
      (5053, [43917]), (5054, [43918]), (5055, [43919]), (5056, [43920]), (5057, [43921]),
      (5058, [43922]), (5059, [43923]), (5060, [43924]), (5061, [43925]), (5062, [43926]),
      (5063, [43927]), (5064, [43928]), (5065, [43929]), (5066, [43930]), (5067, [43931]),
      (5068, [43932]), (5069, [43933]), (5070, [43934]), (5071, [43935]), (5072, [43936]),
      (5073, [43937]), (5074, [43938]), (5075, [43939]), (5076, [43940]), (5077, [43941]),
      (5078, [43942]), (5079, [43943]), (5080, [43944]), (5081, [43945]), (5082, [43946]),
      (5083, [43947]), (5084, [43948]), (5085, [43949]), (5086, [43950]), (5087, [43951]),
      (5088, [43952]), (5089, [43953]), (5090, [43954]), (5091, [43955]), (5092, [43956]),
      (5093, [43957]), (5094, [43958]), (5095, [43959]), (5096, [43960]), (5097, [43961]),
      (5098, [43962]), (5099, [43963]), (5100, [43964]), (5101, [43965]), (5102, [43966]),
      (5103, [43967]), (5104, [5112]), (5105, [5113]), (5106, [5114]), (5107, [5115]),
      (5108, [5116]), (5109, [5117]), (7312, [4304]), (7313, [4305]), (7314, [4306]),
      (7315, [4307]), (7316, [4308]), (7317, [4309]), (7318, [4310])
     ]"

definition TABELA_LOWER_9 :: "(int \<times> int list) list" where
  "TABELA_LOWER_9 =
     [
      (7319, [4311]), (7320, [4312]), (7321, [4313]), (7322, [4314]), (7323, [4315]),
      (7324, [4316]), (7325, [4317]), (7326, [4318]), (7327, [4319]), (7328, [4320]),
      (7329, [4321]), (7330, [4322]), (7331, [4323]), (7332, [4324]), (7333, [4325]),
      (7334, [4326]), (7335, [4327]), (7336, [4328]), (7337, [4329]), (7338, [4330]),
      (7339, [4331]), (7340, [4332]), (7341, [4333]), (7342, [4334]), (7343, [4335]),
      (7344, [4336]), (7345, [4337]), (7346, [4338]), (7347, [4339]), (7348, [4340]),
      (7349, [4341]), (7350, [4342]), (7351, [4343]), (7352, [4344]), (7353, [4345]),
      (7354, [4346]), (7357, [4349]), (7358, [4350]), (7359, [4351]), (7680, [7681]),
      (7682, [7683]), (7684, [7685]), (7686, [7687]), (7688, [7689]), (7690, [7691]),
      (7692, [7693]), (7694, [7695]), (7696, [7697]), (7698, [7699]), (7700, [7701]),
      (7702, [7703]), (7704, [7705]), (7706, [7707]), (7708, [7709]), (7710, [7711]),
      (7712, [7713]), (7714, [7715]), (7716, [7717]), (7718, [7719]), (7720, [7721]),
      (7722, [7723]), (7724, [7725]), (7726, [7727]), (7728, [7729])
     ]"

definition TABELA_LOWER_10 :: "(int \<times> int list) list" where
  "TABELA_LOWER_10 =
     [
      (7730, [7731]), (7732, [7733]), (7734, [7735]), (7736, [7737]), (7738, [7739]),
      (7740, [7741]), (7742, [7743]), (7744, [7745]), (7746, [7747]), (7748, [7749]),
      (7750, [7751]), (7752, [7753]), (7754, [7755]), (7756, [7757]), (7758, [7759]),
      (7760, [7761]), (7762, [7763]), (7764, [7765]), (7766, [7767]), (7768, [7769]),
      (7770, [7771]), (7772, [7773]), (7774, [7775]), (7776, [7777]), (7778, [7779]),
      (7780, [7781]), (7782, [7783]), (7784, [7785]), (7786, [7787]), (7788, [7789]),
      (7790, [7791]), (7792, [7793]), (7794, [7795]), (7796, [7797]), (7798, [7799]),
      (7800, [7801]), (7802, [7803]), (7804, [7805]), (7806, [7807]), (7808, [7809]),
      (7810, [7811]), (7812, [7813]), (7814, [7815]), (7816, [7817]), (7818, [7819]),
      (7820, [7821]), (7822, [7823]), (7824, [7825]), (7826, [7827]), (7828, [7829]),
      (7838, [223]), (7840, [7841]), (7842, [7843]), (7844, [7845]), (7846, [7847]),
      (7848, [7849]), (7850, [7851]), (7852, [7853]), (7854, [7855]), (7856, [7857]),
      (7858, [7859]), (7860, [7861]), (7862, [7863]), (7864, [7865])
     ]"

definition TABELA_LOWER_11 :: "(int \<times> int list) list" where
  "TABELA_LOWER_11 =
     [
      (7866, [7867]), (7868, [7869]), (7870, [7871]), (7872, [7873]), (7874, [7875]),
      (7876, [7877]), (7878, [7879]), (7880, [7881]), (7882, [7883]), (7884, [7885]),
      (7886, [7887]), (7888, [7889]), (7890, [7891]), (7892, [7893]), (7894, [7895]),
      (7896, [7897]), (7898, [7899]), (7900, [7901]), (7902, [7903]), (7904, [7905]),
      (7906, [7907]), (7908, [7909]), (7910, [7911]), (7912, [7913]), (7914, [7915]),
      (7916, [7917]), (7918, [7919]), (7920, [7921]), (7922, [7923]), (7924, [7925]),
      (7926, [7927]), (7928, [7929]), (7930, [7931]), (7932, [7933]), (7934, [7935]),
      (7944, [7936]), (7945, [7937]), (7946, [7938]), (7947, [7939]), (7948, [7940]),
      (7949, [7941]), (7950, [7942]), (7951, [7943]), (7960, [7952]), (7961, [7953]),
      (7962, [7954]), (7963, [7955]), (7964, [7956]), (7965, [7957]), (7976, [7968]),
      (7977, [7969]), (7978, [7970]), (7979, [7971]), (7980, [7972]), (7981, [7973]),
      (7982, [7974]), (7983, [7975]), (7992, [7984]), (7993, [7985]), (7994, [7986]),
      (7995, [7987]), (7996, [7988]), (7997, [7989]), (7998, [7990])
     ]"

definition TABELA_LOWER_12 :: "(int \<times> int list) list" where
  "TABELA_LOWER_12 =
     [
      (7999, [7991]), (8008, [8000]), (8009, [8001]), (8010, [8002]), (8011, [8003]),
      (8012, [8004]), (8013, [8005]), (8025, [8017]), (8027, [8019]), (8029, [8021]),
      (8031, [8023]), (8040, [8032]), (8041, [8033]), (8042, [8034]), (8043, [8035]),
      (8044, [8036]), (8045, [8037]), (8046, [8038]), (8047, [8039]), (8072, [8064]),
      (8073, [8065]), (8074, [8066]), (8075, [8067]), (8076, [8068]), (8077, [8069]),
      (8078, [8070]), (8079, [8071]), (8088, [8080]), (8089, [8081]), (8090, [8082]),
      (8091, [8083]), (8092, [8084]), (8093, [8085]), (8094, [8086]), (8095, [8087]),
      (8104, [8096]), (8105, [8097]), (8106, [8098]), (8107, [8099]), (8108, [8100]),
      (8109, [8101]), (8110, [8102]), (8111, [8103]), (8120, [8112]), (8121, [8113]),
      (8122, [8048]), (8123, [8049]), (8124, [8115]), (8136, [8050]), (8137, [8051]),
      (8138, [8052]), (8139, [8053]), (8140, [8131]), (8152, [8144]), (8153, [8145]),
      (8154, [8054]), (8155, [8055]), (8168, [8160]), (8169, [8161]), (8170, [8058]),
      (8171, [8059]), (8172, [8165]), (8184, [8056]), (8185, [8057])
     ]"

definition TABELA_LOWER_13 :: "(int \<times> int list) list" where
  "TABELA_LOWER_13 =
     [
      (8186, [8060]), (8187, [8061]), (8188, [8179]), (8486, [969]), (8490, [107]),
      (8491, [229]), (8498, [8526]), (8544, [8560]), (8545, [8561]), (8546, [8562]),
      (8547, [8563]), (8548, [8564]), (8549, [8565]), (8550, [8566]), (8551, [8567]),
      (8552, [8568]), (8553, [8569]), (8554, [8570]), (8555, [8571]), (8556, [8572]),
      (8557, [8573]), (8558, [8574]), (8559, [8575]), (8579, [8580]), (9398, [9424]),
      (9399, [9425]), (9400, [9426]), (9401, [9427]), (9402, [9428]), (9403, [9429]),
      (9404, [9430]), (9405, [9431]), (9406, [9432]), (9407, [9433]), (9408, [9434]),
      (9409, [9435]), (9410, [9436]), (9411, [9437]), (9412, [9438]), (9413, [9439]),
      (9414, [9440]), (9415, [9441]), (9416, [9442]), (9417, [9443]), (9418, [9444]),
      (9419, [9445]), (9420, [9446]), (9421, [9447]), (9422, [9448]), (9423, [9449]),
      (11264, [11312]), (11265, [11313]), (11266, [11314]), (11267, [11315]), (11268, [11316]),
      (11269, [11317]), (11270, [11318]), (11271, [11319]), (11272, [11320]), (11273, [11321]),
      (11274, [11322]), (11275, [11323]), (11276, [11324]), (11277, [11325])
     ]"

definition TABELA_LOWER_14 :: "(int \<times> int list) list" where
  "TABELA_LOWER_14 =
     [
      (11278, [11326]), (11279, [11327]), (11280, [11328]), (11281, [11329]), (11282, [11330]),
      (11283, [11331]), (11284, [11332]), (11285, [11333]), (11286, [11334]), (11287, [11335]),
      (11288, [11336]), (11289, [11337]), (11290, [11338]), (11291, [11339]), (11292, [11340]),
      (11293, [11341]), (11294, [11342]), (11295, [11343]), (11296, [11344]), (11297, [11345]),
      (11298, [11346]), (11299, [11347]), (11300, [11348]), (11301, [11349]), (11302, [11350]),
      (11303, [11351]), (11304, [11352]), (11305, [11353]), (11306, [11354]), (11307, [11355]),
      (11308, [11356]), (11309, [11357]), (11310, [11358]), (11311, [11359]), (11360, [11361]),
      (11362, [619]), (11363, [7549]), (11364, [637]), (11367, [11368]), (11369, [11370]),
      (11371, [11372]), (11373, [593]), (11374, [625]), (11375, [592]), (11376, [594]),
      (11378, [11379]), (11381, [11382]), (11390, [575]), (11391, [576]), (11392, [11393]),
      (11394, [11395]), (11396, [11397]), (11398, [11399]), (11400, [11401]), (11402, [11403]),
      (11404, [11405]), (11406, [11407]), (11408, [11409]), (11410, [11411]), (11412, [11413]),
      (11414, [11415]), (11416, [11417]), (11418, [11419]), (11420, [11421])
     ]"

definition TABELA_LOWER_15 :: "(int \<times> int list) list" where
  "TABELA_LOWER_15 =
     [
      (11422, [11423]), (11424, [11425]), (11426, [11427]), (11428, [11429]), (11430, [11431]),
      (11432, [11433]), (11434, [11435]), (11436, [11437]), (11438, [11439]), (11440, [11441]),
      (11442, [11443]), (11444, [11445]), (11446, [11447]), (11448, [11449]), (11450, [11451]),
      (11452, [11453]), (11454, [11455]), (11456, [11457]), (11458, [11459]), (11460, [11461]),
      (11462, [11463]), (11464, [11465]), (11466, [11467]), (11468, [11469]), (11470, [11471]),
      (11472, [11473]), (11474, [11475]), (11476, [11477]), (11478, [11479]), (11480, [11481]),
      (11482, [11483]), (11484, [11485]), (11486, [11487]), (11488, [11489]), (11490, [11491]),
      (11499, [11500]), (11501, [11502]), (11506, [11507]), (42560, [42561]), (42562, [42563]),
      (42564, [42565]), (42566, [42567]), (42568, [42569]), (42570, [42571]), (42572, [42573]),
      (42574, [42575]), (42576, [42577]), (42578, [42579]), (42580, [42581]), (42582, [42583]),
      (42584, [42585]), (42586, [42587]), (42588, [42589]), (42590, [42591]), (42592, [42593]),
      (42594, [42595]), (42596, [42597]), (42598, [42599]), (42600, [42601]), (42602, [42603]),
      (42604, [42605]), (42624, [42625]), (42626, [42627]), (42628, [42629])
     ]"

definition TABELA_LOWER_16 :: "(int \<times> int list) list" where
  "TABELA_LOWER_16 =
     [
      (42630, [42631]), (42632, [42633]), (42634, [42635]), (42636, [42637]), (42638, [42639]),
      (42640, [42641]), (42642, [42643]), (42644, [42645]), (42646, [42647]), (42648, [42649]),
      (42650, [42651]), (42786, [42787]), (42788, [42789]), (42790, [42791]), (42792, [42793]),
      (42794, [42795]), (42796, [42797]), (42798, [42799]), (42802, [42803]), (42804, [42805]),
      (42806, [42807]), (42808, [42809]), (42810, [42811]), (42812, [42813]), (42814, [42815]),
      (42816, [42817]), (42818, [42819]), (42820, [42821]), (42822, [42823]), (42824, [42825]),
      (42826, [42827]), (42828, [42829]), (42830, [42831]), (42832, [42833]), (42834, [42835]),
      (42836, [42837]), (42838, [42839]), (42840, [42841]), (42842, [42843]), (42844, [42845]),
      (42846, [42847]), (42848, [42849]), (42850, [42851]), (42852, [42853]), (42854, [42855]),
      (42856, [42857]), (42858, [42859]), (42860, [42861]), (42862, [42863]), (42873, [42874]),
      (42875, [42876]), (42877, [7545]), (42878, [42879]), (42880, [42881]), (42882, [42883]),
      (42884, [42885]), (42886, [42887]), (42891, [42892]), (42893, [613]), (42896, [42897]),
      (42898, [42899]), (42902, [42903]), (42904, [42905]), (42906, [42907])
     ]"

definition TABELA_LOWER_17 :: "(int \<times> int list) list" where
  "TABELA_LOWER_17 =
     [
      (42908, [42909]), (42910, [42911]), (42912, [42913]), (42914, [42915]), (42916, [42917]),
      (42918, [42919]), (42920, [42921]), (42922, [614]), (42923, [604]), (42924, [609]),
      (42925, [620]), (42926, [618]), (42928, [670]), (42929, [647]), (42930, [669]),
      (42931, [43859]), (42932, [42933]), (42934, [42935]), (42936, [42937]), (42938, [42939]),
      (42940, [42941]), (42942, [42943]), (42944, [42945]), (42946, [42947]), (42948, [42900]),
      (42949, [642]), (42950, [7566]), (42951, [42952]), (42953, [42954]), (42960, [42961]),
      (42966, [42967]), (42968, [42969]), (42997, [42998]), (65313, [65345]), (65314, [65346]),
      (65315, [65347]), (65316, [65348]), (65317, [65349]), (65318, [65350]), (65319, [65351]),
      (65320, [65352]), (65321, [65353]), (65322, [65354]), (65323, [65355]), (65324, [65356]),
      (65325, [65357]), (65326, [65358]), (65327, [65359]), (65328, [65360]), (65329, [65361]),
      (65330, [65362]), (65331, [65363]), (65332, [65364]), (65333, [65365]), (65334, [65366]),
      (65335, [65367]), (65336, [65368]), (65337, [65369]), (65338, [65370]), (66560, [66600]),
      (66561, [66601]), (66562, [66602]), (66563, [66603]), (66564, [66604])
     ]"

definition TABELA_LOWER_18 :: "(int \<times> int list) list" where
  "TABELA_LOWER_18 =
     [
      (66565, [66605]), (66566, [66606]), (66567, [66607]), (66568, [66608]), (66569, [66609]),
      (66570, [66610]), (66571, [66611]), (66572, [66612]), (66573, [66613]), (66574, [66614]),
      (66575, [66615]), (66576, [66616]), (66577, [66617]), (66578, [66618]), (66579, [66619]),
      (66580, [66620]), (66581, [66621]), (66582, [66622]), (66583, [66623]), (66584, [66624]),
      (66585, [66625]), (66586, [66626]), (66587, [66627]), (66588, [66628]), (66589, [66629]),
      (66590, [66630]), (66591, [66631]), (66592, [66632]), (66593, [66633]), (66594, [66634]),
      (66595, [66635]), (66596, [66636]), (66597, [66637]), (66598, [66638]), (66599, [66639]),
      (66736, [66776]), (66737, [66777]), (66738, [66778]), (66739, [66779]), (66740, [66780]),
      (66741, [66781]), (66742, [66782]), (66743, [66783]), (66744, [66784]), (66745, [66785]),
      (66746, [66786]), (66747, [66787]), (66748, [66788]), (66749, [66789]), (66750, [66790]),
      (66751, [66791]), (66752, [66792]), (66753, [66793]), (66754, [66794]), (66755, [66795]),
      (66756, [66796]), (66757, [66797]), (66758, [66798]), (66759, [66799]), (66760, [66800]),
      (66761, [66801]), (66762, [66802]), (66763, [66803]), (66764, [66804])
     ]"

definition TABELA_LOWER_19 :: "(int \<times> int list) list" where
  "TABELA_LOWER_19 =
     [
      (66765, [66805]), (66766, [66806]), (66767, [66807]), (66768, [66808]), (66769, [66809]),
      (66770, [66810]), (66771, [66811]), (66928, [66967]), (66929, [66968]), (66930, [66969]),
      (66931, [66970]), (66932, [66971]), (66933, [66972]), (66934, [66973]), (66935, [66974]),
      (66936, [66975]), (66937, [66976]), (66938, [66977]), (66940, [66979]), (66941, [66980]),
      (66942, [66981]), (66943, [66982]), (66944, [66983]), (66945, [66984]), (66946, [66985]),
      (66947, [66986]), (66948, [66987]), (66949, [66988]), (66950, [66989]), (66951, [66990]),
      (66952, [66991]), (66953, [66992]), (66954, [66993]), (66956, [66995]), (66957, [66996]),
      (66958, [66997]), (66959, [66998]), (66960, [66999]), (66961, [67000]), (66962, [67001]),
      (66964, [67003]), (66965, [67004]), (68736, [68800]), (68737, [68801]), (68738, [68802]),
      (68739, [68803]), (68740, [68804]), (68741, [68805]), (68742, [68806]), (68743, [68807]),
      (68744, [68808]), (68745, [68809]), (68746, [68810]), (68747, [68811]), (68748, [68812]),
      (68749, [68813]), (68750, [68814]), (68751, [68815]), (68752, [68816]), (68753, [68817]),
      (68754, [68818]), (68755, [68819]), (68756, [68820]), (68757, [68821])
     ]"

definition TABELA_LOWER_20 :: "(int \<times> int list) list" where
  "TABELA_LOWER_20 =
     [
      (68758, [68822]), (68759, [68823]), (68760, [68824]), (68761, [68825]), (68762, [68826]),
      (68763, [68827]), (68764, [68828]), (68765, [68829]), (68766, [68830]), (68767, [68831]),
      (68768, [68832]), (68769, [68833]), (68770, [68834]), (68771, [68835]), (68772, [68836]),
      (68773, [68837]), (68774, [68838]), (68775, [68839]), (68776, [68840]), (68777, [68841]),
      (68778, [68842]), (68779, [68843]), (68780, [68844]), (68781, [68845]), (68782, [68846]),
      (68783, [68847]), (68784, [68848]), (68785, [68849]), (68786, [68850]), (71840, [71872]),
      (71841, [71873]), (71842, [71874]), (71843, [71875]), (71844, [71876]), (71845, [71877]),
      (71846, [71878]), (71847, [71879]), (71848, [71880]), (71849, [71881]), (71850, [71882]),
      (71851, [71883]), (71852, [71884]), (71853, [71885]), (71854, [71886]), (71855, [71887]),
      (71856, [71888]), (71857, [71889]), (71858, [71890]), (71859, [71891]), (71860, [71892]),
      (71861, [71893]), (71862, [71894]), (71863, [71895]), (71864, [71896]), (71865, [71897]),
      (71866, [71898]), (71867, [71899]), (71868, [71900]), (71869, [71901]), (71870, [71902]),
      (71871, [71903]), (93760, [93792]), (93761, [93793]), (93762, [93794])
     ]"

definition TABELA_LOWER_21 :: "(int \<times> int list) list" where
  "TABELA_LOWER_21 =
     [
      (93763, [93795]), (93764, [93796]), (93765, [93797]), (93766, [93798]), (93767, [93799]),
      (93768, [93800]), (93769, [93801]), (93770, [93802]), (93771, [93803]), (93772, [93804]),
      (93773, [93805]), (93774, [93806]), (93775, [93807]), (93776, [93808]), (93777, [93809]),
      (93778, [93810]), (93779, [93811]), (93780, [93812]), (93781, [93813]), (93782, [93814]),
      (93783, [93815]), (93784, [93816]), (93785, [93817]), (93786, [93818]), (93787, [93819]),
      (93788, [93820]), (93789, [93821]), (93790, [93822]), (93791, [93823]), (125184, [125218]),
      (125185, [125219]), (125186, [125220]), (125187, [125221]), (125188, [125222]),
      (125189, [125223]), (125190, [125224]), (125191, [125225]), (125192, [125226]),
      (125193, [125227]), (125194, [125228]), (125195, [125229]), (125196, [125230]),
      (125197, [125231]), (125198, [125232]), (125199, [125233]), (125200, [125234]),
      (125201, [125235]), (125202, [125236]), (125203, [125237]), (125204, [125238]),
      (125205, [125239]), (125206, [125240]), (125207, [125241]), (125208, [125242]),
      (125209, [125243]), (125210, [125244]), (125211, [125245]), (125212, [125246]),
      (125213, [125247]), (125214, [125248]), (125215, [125249]), (125216, [125250]),
      (125217, [125251])
     ]"

definition TABELA_LOWER :: "int \<Rightarrow> (int \<times> int list) list" where
  "TABELA_LOWER c =
     (if c < 325 then TABELA_LOWER_0 else if c < 444 then TABELA_LOWER_1 else
      if c < 579 then TABELA_LOWER_2 else if c < 1023 then TABELA_LOWER_3 else
      if c < 1150 then TABELA_LOWER_4 else if c < 1286 then TABELA_LOWER_5 else
      if c < 4261 then TABELA_LOWER_6 else if c < 5053 then TABELA_LOWER_7 else
      if c < 7319 then TABELA_LOWER_8 else if c < 7730 then TABELA_LOWER_9 else
      if c < 7866 then TABELA_LOWER_10 else if c < 7999 then TABELA_LOWER_11 else
      if c < 8186 then TABELA_LOWER_12 else if c < 11278 then TABELA_LOWER_13 else
      if c < 11422 then TABELA_LOWER_14 else if c < 42630 then TABELA_LOWER_15 else
      if c < 42908 then TABELA_LOWER_16 else if c < 66565 then TABELA_LOWER_17 else
      if c < 66765 then TABELA_LOWER_18 else if c < 68758 then TABELA_LOWER_19 else
      if c < 93763 then TABELA_LOWER_20 else TABELA_LOWER_21)"

text \<open>
  The properties Case_Ignorable and Cased, which decide the lower case of the capital
  sigma. \<open>CASED\<close> lists the cased code points that are not case-ignorable, the only ones
  the test is made on.
\<close>

definition CASE_IGNORABLE_0 :: "(int \<times> int) list" where
  "CASE_IGNORABLE_0 =
     [
      (39, 39), (46, 46), (58, 58), (94, 94), (96, 96), (168, 168), (173, 173), (175, 175),
      (180, 180), (183, 184), (688, 879), (884, 885), (890, 890), (900, 901), (903, 903),
      (1155, 1161), (1369, 1369), (1375, 1375), (1425, 1469), (1471, 1471), (1473, 1474),
      (1476, 1477), (1479, 1479), (1524, 1524), (1536, 1541), (1552, 1562), (1564, 1564),
      (1600, 1600), (1611, 1631), (1648, 1648), (1750, 1757), (1759, 1768), (1770, 1773),
      (1807, 1807), (1809, 1809), (1840, 1866), (1958, 1968), (2027, 2037), (2042, 2042),
      (2045, 2045), (2070, 2093), (2137, 2139), (2184, 2184), (2192, 2193), (2200, 2207),
      (2249, 2306), (2362, 2362), (2364, 2364), (2369, 2376), (2381, 2381), (2385, 2391),
      (2402, 2403), (2417, 2417), (2433, 2433), (2492, 2492), (2497, 2500), (2509, 2509),
      (2530, 2531), (2558, 2558), (2561, 2562), (2620, 2620), (2625, 2626), (2631, 2632),
      (2635, 2637)
     ]"

definition CASE_IGNORABLE_1 :: "(int \<times> int) list" where
  "CASE_IGNORABLE_1 =
     [
      (2641, 2641), (2672, 2673), (2677, 2677), (2689, 2690), (2748, 2748), (2753, 2757),
      (2759, 2760), (2765, 2765), (2786, 2787), (2810, 2815), (2817, 2817), (2876, 2876),
      (2879, 2879), (2881, 2884), (2893, 2893), (2901, 2902), (2914, 2915), (2946, 2946),
      (3008, 3008), (3021, 3021), (3072, 3072), (3076, 3076), (3132, 3132), (3134, 3136),
      (3142, 3144), (3146, 3149), (3157, 3158), (3170, 3171), (3201, 3201), (3260, 3260),
      (3263, 3263), (3270, 3270), (3276, 3277), (3298, 3299), (3328, 3329), (3387, 3388),
      (3393, 3396), (3405, 3405), (3426, 3427), (3457, 3457), (3530, 3530), (3538, 3540),
      (3542, 3542), (3633, 3633), (3636, 3642), (3654, 3662), (3761, 3761), (3764, 3772),
      (3782, 3782), (3784, 3789), (3864, 3865), (3893, 3893), (3895, 3895), (3897, 3897),
      (3953, 3966), (3968, 3972), (3974, 3975), (3981, 3991), (3993, 4028), (4038, 4038),
      (4141, 4144), (4146, 4151), (4153, 4154), (4157, 4158)
     ]"

definition CASE_IGNORABLE_2 :: "(int \<times> int) list" where
  "CASE_IGNORABLE_2 =
     [
      (4184, 4185), (4190, 4192), (4209, 4212), (4226, 4226), (4229, 4230), (4237, 4237),
      (4253, 4253), (4348, 4348), (4957, 4959), (5906, 5908), (5938, 5939), (5970, 5971),
      (6002, 6003), (6068, 6069), (6071, 6077), (6086, 6086), (6089, 6099), (6103, 6103),
      (6109, 6109), (6155, 6159), (6211, 6211), (6277, 6278), (6313, 6313), (6432, 6434),
      (6439, 6440), (6450, 6450), (6457, 6459), (6679, 6680), (6683, 6683), (6742, 6742),
      (6744, 6750), (6752, 6752), (6754, 6754), (6757, 6764), (6771, 6780), (6783, 6783),
      (6823, 6823), (6832, 6862), (6912, 6915), (6964, 6964), (6966, 6970), (6972, 6972),
      (6978, 6978), (7019, 7027), (7040, 7041), (7074, 7077), (7080, 7081), (7083, 7085),
      (7142, 7142), (7144, 7145), (7149, 7149), (7151, 7153), (7212, 7219), (7222, 7223),
      (7288, 7293), (7376, 7378), (7380, 7392), (7394, 7400), (7405, 7405), (7412, 7412),
      (7416, 7417), (7468, 7530), (7544, 7544), (7579, 7679)
     ]"

definition CASE_IGNORABLE_3 :: "(int \<times> int) list" where
  "CASE_IGNORABLE_3 =
     [
      (8125, 8125), (8127, 8129), (8141, 8143), (8157, 8159), (8173, 8175), (8189, 8190),
      (8203, 8207), (8216, 8217), (8228, 8228), (8231, 8231), (8234, 8238), (8288, 8292),
      (8294, 8303), (8305, 8305), (8319, 8319), (8336, 8348), (8400, 8432), (11388, 11389),
      (11503, 11505), (11631, 11631), (11647, 11647), (11744, 11775), (11823, 11823),
      (12293, 12293), (12330, 12333), (12337, 12341), (12347, 12347), (12441, 12446),
      (12540, 12542), (40981, 40981), (42232, 42237), (42508, 42508), (42607, 42610),
      (42612, 42621), (42623, 42623), (42652, 42655), (42736, 42737), (42752, 42785),
      (42864, 42864), (42888, 42890), (42994, 42996), (43000, 43001), (43010, 43010),
      (43014, 43014), (43019, 43019), (43045, 43046), (43052, 43052), (43204, 43205),
      (43232, 43249), (43263, 43263), (43302, 43309), (43335, 43345), (43392, 43394),
      (43443, 43443), (43446, 43449), (43452, 43453), (43471, 43471), (43493, 43494),
      (43561, 43566), (43569, 43570), (43573, 43574), (43587, 43587), (43596, 43596),
      (43632, 43632)
     ]"

definition CASE_IGNORABLE_4 :: "(int \<times> int) list" where
  "CASE_IGNORABLE_4 =
     [
      (43644, 43644), (43696, 43696), (43698, 43700), (43703, 43704), (43710, 43711),
      (43713, 43713), (43741, 43741), (43756, 43757), (43763, 43764), (43766, 43766),
      (43867, 43871), (43881, 43883), (44005, 44005), (44008, 44008), (44013, 44013),
      (64286, 64286), (64434, 64450), (65024, 65039), (65043, 65043), (65056, 65071),
      (65106, 65106), (65109, 65109), (65279, 65279), (65287, 65287), (65294, 65294),
      (65306, 65306), (65342, 65342), (65344, 65344), (65392, 65392), (65438, 65439),
      (65507, 65507), (65529, 65531), (66045, 66045), (66272, 66272), (66422, 66426),
      (67456, 67461), (67463, 67504), (67506, 67514), (68097, 68099), (68101, 68102),
      (68108, 68111), (68152, 68154), (68159, 68159), (68325, 68326), (68900, 68903),
      (69291, 69292), (69446, 69456), (69506, 69509), (69633, 69633), (69688, 69702),
      (69744, 69744), (69747, 69748), (69759, 69761), (69811, 69814), (69817, 69818),
      (69821, 69821), (69826, 69826), (69837, 69837), (69888, 69890), (69927, 69931),
      (69933, 69940), (70003, 70003), (70016, 70017), (70070, 70078)
     ]"

definition CASE_IGNORABLE_5 :: "(int \<times> int) list" where
  "CASE_IGNORABLE_5 =
     [
      (70089, 70092), (70095, 70095), (70191, 70193), (70196, 70196), (70198, 70199),
      (70206, 70206), (70367, 70367), (70371, 70378), (70400, 70401), (70459, 70460),
      (70464, 70464), (70502, 70508), (70512, 70516), (70712, 70719), (70722, 70724),
      (70726, 70726), (70750, 70750), (70835, 70840), (70842, 70842), (70847, 70848),
      (70850, 70851), (71090, 71093), (71100, 71101), (71103, 71104), (71132, 71133),
      (71219, 71226), (71229, 71229), (71231, 71232), (71339, 71339), (71341, 71341),
      (71344, 71349), (71351, 71351), (71453, 71455), (71458, 71461), (71463, 71467),
      (71727, 71735), (71737, 71738), (71995, 71996), (71998, 71998), (72003, 72003),
      (72148, 72151), (72154, 72155), (72160, 72160), (72193, 72202), (72243, 72248),
      (72251, 72254), (72263, 72263), (72273, 72278), (72281, 72283), (72330, 72342),
      (72344, 72345), (72752, 72758), (72760, 72765), (72767, 72767), (72850, 72871),
      (72874, 72880), (72882, 72883), (72885, 72886), (73009, 73014), (73018, 73018),
      (73020, 73021), (73023, 73029), (73031, 73031), (73104, 73105)
     ]"

definition CASE_IGNORABLE_6 :: "(int \<times> int) list" where
  "CASE_IGNORABLE_6 =
     [
      (73109, 73109), (73111, 73111), (73459, 73460), (78896, 78904), (92912, 92916),
      (92976, 92982), (92992, 92995), (94031, 94031), (94095, 94111), (94176, 94177),
      (94179, 94180), (110576, 110579), (110581, 110587), (110589, 110590), (113821, 113822),
      (113824, 113827), (118528, 118573), (118576, 118598), (119143, 119145), (119155, 119170),
      (119173, 119179), (119210, 119213), (119362, 119364), (121344, 121398), (121403, 121452),
      (121461, 121461), (121476, 121476), (121499, 121503), (121505, 121519), (122880, 122886),
      (122888, 122904), (122907, 122913), (122915, 122916), (122918, 122922), (123184, 123197),
      (123566, 123566), (123628, 123631), (125136, 125142), (125252, 125259), (127995, 127999),
      (917505, 917505), (917536, 917631), (917760, 917999)
     ]"

definition CASE_IGNORABLE :: "int \<Rightarrow> (int \<times> int) list" where
  "CASE_IGNORABLE c =
     (if c < 2641 then CASE_IGNORABLE_0 else if c < 4184 then CASE_IGNORABLE_1 else
      if c < 8125 then CASE_IGNORABLE_2 else if c < 43644 then CASE_IGNORABLE_3 else
      if c < 70089 then CASE_IGNORABLE_4 else if c < 73109 then CASE_IGNORABLE_5 else
      CASE_IGNORABLE_6)"

definition CASED_0 :: "(int \<times> int) list" where
  "CASED_0 =
     [
      (65, 90), (97, 122), (170, 170), (181, 181), (186, 186), (192, 214), (216, 246),
      (248, 442), (444, 447), (452, 659), (661, 687), (880, 883), (886, 887), (891, 893),
      (895, 895), (902, 902), (904, 906), (908, 908), (910, 929), (931, 1013), (1015, 1153),
      (1162, 1327), (1329, 1366), (1376, 1416), (4256, 4293), (4295, 4295), (4301, 4301),
      (4304, 4346), (4349, 4351), (5024, 5109), (5112, 5117), (7296, 7304), (7312, 7354),
      (7357, 7359), (7424, 7467), (7531, 7543), (7545, 7578), (7680, 7957), (7960, 7965),
      (7968, 8005), (8008, 8013), (8016, 8023), (8025, 8025), (8027, 8027), (8029, 8029),
      (8031, 8061), (8064, 8116), (8118, 8124), (8126, 8126), (8130, 8132), (8134, 8140),
      (8144, 8147), (8150, 8155), (8160, 8172), (8178, 8180), (8182, 8188), (8450, 8450),
      (8455, 8455), (8458, 8467), (8469, 8469), (8473, 8477), (8484, 8484), (8486, 8486),
      (8488, 8488)
     ]"

definition CASED_1 :: "(int \<times> int) list" where
  "CASED_1 =
     [
      (8490, 8493), (8495, 8500), (8505, 8505), (8508, 8511), (8517, 8521), (8526, 8526),
      (8544, 8575), (8579, 8580), (9398, 9449), (11264, 11387), (11390, 11492), (11499, 11502),
      (11506, 11507), (11520, 11557), (11559, 11559), (11565, 11565), (42560, 42605),
      (42624, 42651), (42786, 42863), (42865, 42887), (42891, 42894), (42896, 42954),
      (42960, 42961), (42963, 42963), (42965, 42969), (42997, 42998), (43002, 43002),
      (43824, 43866), (43872, 43880), (43888, 43967), (64256, 64262), (64275, 64279),
      (65313, 65338), (65345, 65370), (66560, 66639), (66736, 66771), (66776, 66811),
      (66928, 66938), (66940, 66954), (66956, 66962), (66964, 66965), (66967, 66977),
      (66979, 66993), (66995, 67001), (67003, 67004), (68736, 68786), (68800, 68850),
      (71840, 71903), (93760, 93823), (119808, 119892), (119894, 119964), (119966, 119967),
      (119970, 119970), (119973, 119974), (119977, 119980), (119982, 119993), (119995, 119995),
      (119997, 120003), (120005, 120069), (120071, 120074), (120077, 120084), (120086, 120092),
      (120094, 120121), (120123, 120126)
     ]"

definition CASED_2 :: "(int \<times> int) list" where
  "CASED_2 =
     [
      (120128, 120132), (120134, 120134), (120138, 120144), (120146, 120485), (120488, 120512),
      (120514, 120538), (120540, 120570), (120572, 120596), (120598, 120628), (120630, 120654),
      (120656, 120686), (120688, 120712), (120714, 120744), (120746, 120770), (120772, 120779),
      (122624, 122633), (122635, 122654), (125184, 125251), (127280, 127305), (127312, 127337),
      (127344, 127369)
     ]"

definition CASED :: "int \<Rightarrow> (int \<times> int) list" where
  "CASED c =
     (if c < 8490 then CASED_0 else if c < 120128 then CASED_1 else CASED_2)"

text \<open>
  The full canonical decomposition of the code points that have one, the Hangul
  syllables apart (theirs is arithmetic).
\<close>

definition DECOMPOSICAO_CANONICA_0 :: "(int \<times> int list) list" where
  "DECOMPOSICAO_CANONICA_0 =
     [
      (192, [65, 768]), (193, [65, 769]), (194, [65, 770]), (195, [65, 771]), (196, [65, 776]),
      (197, [65, 778]), (199, [67, 807]), (200, [69, 768]), (201, [69, 769]), (202, [69, 770]),
      (203, [69, 776]), (204, [73, 768]), (205, [73, 769]), (206, [73, 770]), (207, [73, 776]),
      (209, [78, 771]), (210, [79, 768]), (211, [79, 769]), (212, [79, 770]), (213, [79, 771]),
      (214, [79, 776]), (217, [85, 768]), (218, [85, 769]), (219, [85, 770]), (220, [85, 776]),
      (221, [89, 769]), (224, [97, 768]), (225, [97, 769]), (226, [97, 770]), (227, [97, 771]),
      (228, [97, 776]), (229, [97, 778]), (231, [99, 807]), (232, [101, 768]), (233, [101, 769]),
      (234, [101, 770]), (235, [101, 776]), (236, [105, 768]), (237, [105, 769]),
      (238, [105, 770]), (239, [105, 776]), (241, [110, 771]), (242, [111, 768]),
      (243, [111, 769]), (244, [111, 770]), (245, [111, 771]), (246, [111, 776]),
      (249, [117, 768]), (250, [117, 769]), (251, [117, 770]), (252, [117, 776]),
      (253, [121, 769]), (255, [121, 776]), (256, [65, 772]), (257, [97, 772]), (258, [65, 774]),
      (259, [97, 774]), (260, [65, 808]), (261, [97, 808]), (262, [67, 769]), (263, [99, 769]),
      (264, [67, 770]), (265, [99, 770]), (266, [67, 775])
     ]"

definition DECOMPOSICAO_CANONICA_1 :: "(int \<times> int list) list" where
  "DECOMPOSICAO_CANONICA_1 =
     [
      (267, [99, 775]), (268, [67, 780]), (269, [99, 780]), (270, [68, 780]), (271, [100, 780]),
      (274, [69, 772]), (275, [101, 772]), (276, [69, 774]), (277, [101, 774]), (278, [69, 775]),
      (279, [101, 775]), (280, [69, 808]), (281, [101, 808]), (282, [69, 780]),
      (283, [101, 780]), (284, [71, 770]), (285, [103, 770]), (286, [71, 774]),
      (287, [103, 774]), (288, [71, 775]), (289, [103, 775]), (290, [71, 807]),
      (291, [103, 807]), (292, [72, 770]), (293, [104, 770]), (296, [73, 771]),
      (297, [105, 771]), (298, [73, 772]), (299, [105, 772]), (300, [73, 774]),
      (301, [105, 774]), (302, [73, 808]), (303, [105, 808]), (304, [73, 775]), (308, [74, 770]),
      (309, [106, 770]), (310, [75, 807]), (311, [107, 807]), (313, [76, 769]),
      (314, [108, 769]), (315, [76, 807]), (316, [108, 807]), (317, [76, 780]),
      (318, [108, 780]), (323, [78, 769]), (324, [110, 769]), (325, [78, 807]),
      (326, [110, 807]), (327, [78, 780]), (328, [110, 780]), (332, [79, 772]),
      (333, [111, 772]), (334, [79, 774]), (335, [111, 774]), (336, [79, 779]),
      (337, [111, 779]), (340, [82, 769]), (341, [114, 769]), (342, [82, 807]),
      (343, [114, 807]), (344, [82, 780]), (345, [114, 780]), (346, [83, 769]), (347, [115, 769])
     ]"

definition DECOMPOSICAO_CANONICA_2 :: "(int \<times> int list) list" where
  "DECOMPOSICAO_CANONICA_2 =
     [
      (348, [83, 770]), (349, [115, 770]), (350, [83, 807]), (351, [115, 807]), (352, [83, 780]),
      (353, [115, 780]), (354, [84, 807]), (355, [116, 807]), (356, [84, 780]),
      (357, [116, 780]), (360, [85, 771]), (361, [117, 771]), (362, [85, 772]),
      (363, [117, 772]), (364, [85, 774]), (365, [117, 774]), (366, [85, 778]),
      (367, [117, 778]), (368, [85, 779]), (369, [117, 779]), (370, [85, 808]),
      (371, [117, 808]), (372, [87, 770]), (373, [119, 770]), (374, [89, 770]),
      (375, [121, 770]), (376, [89, 776]), (377, [90, 769]), (378, [122, 769]), (379, [90, 775]),
      (380, [122, 775]), (381, [90, 780]), (382, [122, 780]), (416, [79, 795]),
      (417, [111, 795]), (431, [85, 795]), (432, [117, 795]), (461, [65, 780]), (462, [97, 780]),
      (463, [73, 780]), (464, [105, 780]), (465, [79, 780]), (466, [111, 780]), (467, [85, 780]),
      (468, [117, 780]), (469, [85, 776, 772]), (470, [117, 776, 772]), (471, [85, 776, 769]),
      (472, [117, 776, 769]), (473, [85, 776, 780]), (474, [117, 776, 780]),
      (475, [85, 776, 768]), (476, [117, 776, 768]), (478, [65, 776, 772]),
      (479, [97, 776, 772]), (480, [65, 775, 772]), (481, [97, 775, 772]), (482, [198, 772]),
      (483, [230, 772]), (486, [71, 780]), (487, [103, 780]), (488, [75, 780]),
      (489, [107, 780]), (490, [79, 808])
     ]"

definition DECOMPOSICAO_CANONICA_3 :: "(int \<times> int list) list" where
  "DECOMPOSICAO_CANONICA_3 =
     [
      (491, [111, 808]), (492, [79, 808, 772]), (493, [111, 808, 772]), (494, [439, 780]),
      (495, [658, 780]), (496, [106, 780]), (500, [71, 769]), (501, [103, 769]),
      (504, [78, 768]), (505, [110, 768]), (506, [65, 778, 769]), (507, [97, 778, 769]),
      (508, [198, 769]), (509, [230, 769]), (510, [216, 769]), (511, [248, 769]),
      (512, [65, 783]), (513, [97, 783]), (514, [65, 785]), (515, [97, 785]), (516, [69, 783]),
      (517, [101, 783]), (518, [69, 785]), (519, [101, 785]), (520, [73, 783]),
      (521, [105, 783]), (522, [73, 785]), (523, [105, 785]), (524, [79, 783]),
      (525, [111, 783]), (526, [79, 785]), (527, [111, 785]), (528, [82, 783]),
      (529, [114, 783]), (530, [82, 785]), (531, [114, 785]), (532, [85, 783]),
      (533, [117, 783]), (534, [85, 785]), (535, [117, 785]), (536, [83, 806]),
      (537, [115, 806]), (538, [84, 806]), (539, [116, 806]), (542, [72, 780]),
      (543, [104, 780]), (550, [65, 775]), (551, [97, 775]), (552, [69, 807]), (553, [101, 807]),
      (554, [79, 776, 772]), (555, [111, 776, 772]), (556, [79, 771, 772]),
      (557, [111, 771, 772]), (558, [79, 775]), (559, [111, 775]), (560, [79, 775, 772]),
      (561, [111, 775, 772]), (562, [89, 772]), (563, [121, 772]), (832, [768]), (833, [769]),
      (835, [787]), (836, [776, 769])
     ]"

definition DECOMPOSICAO_CANONICA_4 :: "(int \<times> int list) list" where
  "DECOMPOSICAO_CANONICA_4 =
     [
      (884, [697]), (894, [59]), (901, [168, 769]), (902, [913, 769]), (903, [183]),
      (904, [917, 769]), (905, [919, 769]), (906, [921, 769]), (908, [927, 769]),
      (910, [933, 769]), (911, [937, 769]), (912, [953, 776, 769]), (938, [921, 776]),
      (939, [933, 776]), (940, [945, 769]), (941, [949, 769]), (942, [951, 769]),
      (943, [953, 769]), (944, [965, 776, 769]), (970, [953, 776]), (971, [965, 776]),
      (972, [959, 769]), (973, [965, 769]), (974, [969, 769]), (979, [978, 769]),
      (980, [978, 776]), (1024, [1045, 768]), (1025, [1045, 776]), (1027, [1043, 769]),
      (1031, [1030, 776]), (1036, [1050, 769]), (1037, [1048, 768]), (1038, [1059, 774]),
      (1049, [1048, 774]), (1081, [1080, 774]), (1104, [1077, 768]), (1105, [1077, 776]),
      (1107, [1075, 769]), (1111, [1110, 776]), (1116, [1082, 769]), (1117, [1080, 768]),
      (1118, [1091, 774]), (1142, [1140, 783]), (1143, [1141, 783]), (1217, [1046, 774]),
      (1218, [1078, 774]), (1232, [1040, 774]), (1233, [1072, 774]), (1234, [1040, 776]),
      (1235, [1072, 776]), (1238, [1045, 774]), (1239, [1077, 774]), (1242, [1240, 776]),
      (1243, [1241, 776]), (1244, [1046, 776]), (1245, [1078, 776]), (1246, [1047, 776]),
      (1247, [1079, 776]), (1250, [1048, 772]), (1251, [1080, 772]), (1252, [1048, 776]),
      (1253, [1080, 776]), (1254, [1054, 776]), (1255, [1086, 776])
     ]"

definition DECOMPOSICAO_CANONICA_5 :: "(int \<times> int list) list" where
  "DECOMPOSICAO_CANONICA_5 =
     [
      (1258, [1256, 776]), (1259, [1257, 776]), (1260, [1069, 776]), (1261, [1101, 776]),
      (1262, [1059, 772]), (1263, [1091, 772]), (1264, [1059, 776]), (1265, [1091, 776]),
      (1266, [1059, 779]), (1267, [1091, 779]), (1268, [1063, 776]), (1269, [1095, 776]),
      (1272, [1067, 776]), (1273, [1099, 776]), (1570, [1575, 1619]), (1571, [1575, 1620]),
      (1572, [1608, 1620]), (1573, [1575, 1621]), (1574, [1610, 1620]), (1728, [1749, 1620]),
      (1730, [1729, 1620]), (1747, [1746, 1620]), (2345, [2344, 2364]), (2353, [2352, 2364]),
      (2356, [2355, 2364]), (2392, [2325, 2364]), (2393, [2326, 2364]), (2394, [2327, 2364]),
      (2395, [2332, 2364]), (2396, [2337, 2364]), (2397, [2338, 2364]), (2398, [2347, 2364]),
      (2399, [2351, 2364]), (2507, [2503, 2494]), (2508, [2503, 2519]), (2524, [2465, 2492]),
      (2525, [2466, 2492]), (2527, [2479, 2492]), (2611, [2610, 2620]), (2614, [2616, 2620]),
      (2649, [2582, 2620]), (2650, [2583, 2620]), (2651, [2588, 2620]), (2654, [2603, 2620]),
      (2888, [2887, 2902]), (2891, [2887, 2878]), (2892, [2887, 2903]), (2908, [2849, 2876]),
      (2909, [2850, 2876]), (2964, [2962, 3031]), (3018, [3014, 3006]), (3019, [3015, 3006]),
      (3020, [3014, 3031]), (3144, [3142, 3158]), (3264, [3263, 3285]), (3271, [3270, 3285]),
      (3272, [3270, 3286]), (3274, [3270, 3266]), (3275, [3270, 3266, 3285]),
      (3402, [3398, 3390]), (3403, [3399, 3390]), (3404, [3398, 3415]), (3546, [3545, 3530]),
      (3548, [3545, 3535])
     ]"

definition DECOMPOSICAO_CANONICA_6 :: "(int \<times> int list) list" where
  "DECOMPOSICAO_CANONICA_6 =
     [
      (3549, [3545, 3535, 3530]), (3550, [3545, 3551]), (3907, [3906, 4023]),
      (3917, [3916, 4023]), (3922, [3921, 4023]), (3927, [3926, 4023]), (3932, [3931, 4023]),
      (3945, [3904, 4021]), (3955, [3953, 3954]), (3957, [3953, 3956]), (3958, [4018, 3968]),
      (3960, [4019, 3968]), (3969, [3953, 3968]), (3987, [3986, 4023]), (3997, [3996, 4023]),
      (4002, [4001, 4023]), (4007, [4006, 4023]), (4012, [4011, 4023]), (4025, [3984, 4021]),
      (4134, [4133, 4142]), (6918, [6917, 6965]), (6920, [6919, 6965]), (6922, [6921, 6965]),
      (6924, [6923, 6965]), (6926, [6925, 6965]), (6930, [6929, 6965]), (6971, [6970, 6965]),
      (6973, [6972, 6965]), (6976, [6974, 6965]), (6977, [6975, 6965]), (6979, [6978, 6965]),
      (7680, [65, 805]), (7681, [97, 805]), (7682, [66, 775]), (7683, [98, 775]),
      (7684, [66, 803]), (7685, [98, 803]), (7686, [66, 817]), (7687, [98, 817]),
      (7688, [67, 807, 769]), (7689, [99, 807, 769]), (7690, [68, 775]), (7691, [100, 775]),
      (7692, [68, 803]), (7693, [100, 803]), (7694, [68, 817]), (7695, [100, 817]),
      (7696, [68, 807]), (7697, [100, 807]), (7698, [68, 813]), (7699, [100, 813]),
      (7700, [69, 772, 768]), (7701, [101, 772, 768]), (7702, [69, 772, 769]),
      (7703, [101, 772, 769]), (7704, [69, 813]), (7705, [101, 813]), (7706, [69, 816]),
      (7707, [101, 816]), (7708, [69, 807, 774]), (7709, [101, 807, 774]), (7710, [70, 775]),
      (7711, [102, 775]), (7712, [71, 772])
     ]"

definition DECOMPOSICAO_CANONICA_7 :: "(int \<times> int list) list" where
  "DECOMPOSICAO_CANONICA_7 =
     [
      (7713, [103, 772]), (7714, [72, 775]), (7715, [104, 775]), (7716, [72, 803]),
      (7717, [104, 803]), (7718, [72, 776]), (7719, [104, 776]), (7720, [72, 807]),
      (7721, [104, 807]), (7722, [72, 814]), (7723, [104, 814]), (7724, [73, 816]),
      (7725, [105, 816]), (7726, [73, 776, 769]), (7727, [105, 776, 769]), (7728, [75, 769]),
      (7729, [107, 769]), (7730, [75, 803]), (7731, [107, 803]), (7732, [75, 817]),
      (7733, [107, 817]), (7734, [76, 803]), (7735, [108, 803]), (7736, [76, 803, 772]),
      (7737, [108, 803, 772]), (7738, [76, 817]), (7739, [108, 817]), (7740, [76, 813]),
      (7741, [108, 813]), (7742, [77, 769]), (7743, [109, 769]), (7744, [77, 775]),
      (7745, [109, 775]), (7746, [77, 803]), (7747, [109, 803]), (7748, [78, 775]),
      (7749, [110, 775]), (7750, [78, 803]), (7751, [110, 803]), (7752, [78, 817]),
      (7753, [110, 817]), (7754, [78, 813]), (7755, [110, 813]), (7756, [79, 771, 769]),
      (7757, [111, 771, 769]), (7758, [79, 771, 776]), (7759, [111, 771, 776]),
      (7760, [79, 772, 768]), (7761, [111, 772, 768]), (7762, [79, 772, 769]),
      (7763, [111, 772, 769]), (7764, [80, 769]), (7765, [112, 769]), (7766, [80, 775]),
      (7767, [112, 775]), (7768, [82, 775]), (7769, [114, 775]), (7770, [82, 803]),
      (7771, [114, 803]), (7772, [82, 803, 772]), (7773, [114, 803, 772]), (7774, [82, 817]),
      (7775, [114, 817]), (7776, [83, 775])
     ]"

definition DECOMPOSICAO_CANONICA_8 :: "(int \<times> int list) list" where
  "DECOMPOSICAO_CANONICA_8 =
     [
      (7777, [115, 775]), (7778, [83, 803]), (7779, [115, 803]), (7780, [83, 769, 775]),
      (7781, [115, 769, 775]), (7782, [83, 780, 775]), (7783, [115, 780, 775]),
      (7784, [83, 803, 775]), (7785, [115, 803, 775]), (7786, [84, 775]), (7787, [116, 775]),
      (7788, [84, 803]), (7789, [116, 803]), (7790, [84, 817]), (7791, [116, 817]),
      (7792, [84, 813]), (7793, [116, 813]), (7794, [85, 804]), (7795, [117, 804]),
      (7796, [85, 816]), (7797, [117, 816]), (7798, [85, 813]), (7799, [117, 813]),
      (7800, [85, 771, 769]), (7801, [117, 771, 769]), (7802, [85, 772, 776]),
      (7803, [117, 772, 776]), (7804, [86, 771]), (7805, [118, 771]), (7806, [86, 803]),
      (7807, [118, 803]), (7808, [87, 768]), (7809, [119, 768]), (7810, [87, 769]),
      (7811, [119, 769]), (7812, [87, 776]), (7813, [119, 776]), (7814, [87, 775]),
      (7815, [119, 775]), (7816, [87, 803]), (7817, [119, 803]), (7818, [88, 775]),
      (7819, [120, 775]), (7820, [88, 776]), (7821, [120, 776]), (7822, [89, 775]),
      (7823, [121, 775]), (7824, [90, 770]), (7825, [122, 770]), (7826, [90, 803]),
      (7827, [122, 803]), (7828, [90, 817]), (7829, [122, 817]), (7830, [104, 817]),
      (7831, [116, 776]), (7832, [119, 778]), (7833, [121, 778]), (7835, [383, 775]),
      (7840, [65, 803]), (7841, [97, 803]), (7842, [65, 777]), (7843, [97, 777]),
      (7844, [65, 770, 769]), (7845, [97, 770, 769])
     ]"

definition DECOMPOSICAO_CANONICA_9 :: "(int \<times> int list) list" where
  "DECOMPOSICAO_CANONICA_9 =
     [
      (7846, [65, 770, 768]), (7847, [97, 770, 768]), (7848, [65, 770, 777]),
      (7849, [97, 770, 777]), (7850, [65, 770, 771]), (7851, [97, 770, 771]),
      (7852, [65, 803, 770]), (7853, [97, 803, 770]), (7854, [65, 774, 769]),
      (7855, [97, 774, 769]), (7856, [65, 774, 768]), (7857, [97, 774, 768]),
      (7858, [65, 774, 777]), (7859, [97, 774, 777]), (7860, [65, 774, 771]),
      (7861, [97, 774, 771]), (7862, [65, 803, 774]), (7863, [97, 803, 774]), (7864, [69, 803]),
      (7865, [101, 803]), (7866, [69, 777]), (7867, [101, 777]), (7868, [69, 771]),
      (7869, [101, 771]), (7870, [69, 770, 769]), (7871, [101, 770, 769]),
      (7872, [69, 770, 768]), (7873, [101, 770, 768]), (7874, [69, 770, 777]),
      (7875, [101, 770, 777]), (7876, [69, 770, 771]), (7877, [101, 770, 771]),
      (7878, [69, 803, 770]), (7879, [101, 803, 770]), (7880, [73, 777]), (7881, [105, 777]),
      (7882, [73, 803]), (7883, [105, 803]), (7884, [79, 803]), (7885, [111, 803]),
      (7886, [79, 777]), (7887, [111, 777]), (7888, [79, 770, 769]), (7889, [111, 770, 769]),
      (7890, [79, 770, 768]), (7891, [111, 770, 768]), (7892, [79, 770, 777]),
      (7893, [111, 770, 777]), (7894, [79, 770, 771]), (7895, [111, 770, 771]),
      (7896, [79, 803, 770]), (7897, [111, 803, 770]), (7898, [79, 795, 769]),
      (7899, [111, 795, 769]), (7900, [79, 795, 768]), (7901, [111, 795, 768]),
      (7902, [79, 795, 777]), (7903, [111, 795, 777]), (7904, [79, 795, 771]),
      (7905, [111, 795, 771]), (7906, [79, 795, 803]), (7907, [111, 795, 803]),
      (7908, [85, 803]), (7909, [117, 803])
     ]"

definition DECOMPOSICAO_CANONICA_10 :: "(int \<times> int list) list" where
  "DECOMPOSICAO_CANONICA_10 =
     [
      (7910, [85, 777]), (7911, [117, 777]), (7912, [85, 795, 769]), (7913, [117, 795, 769]),
      (7914, [85, 795, 768]), (7915, [117, 795, 768]), (7916, [85, 795, 777]),
      (7917, [117, 795, 777]), (7918, [85, 795, 771]), (7919, [117, 795, 771]),
      (7920, [85, 795, 803]), (7921, [117, 795, 803]), (7922, [89, 768]), (7923, [121, 768]),
      (7924, [89, 803]), (7925, [121, 803]), (7926, [89, 777]), (7927, [121, 777]),
      (7928, [89, 771]), (7929, [121, 771]), (7936, [945, 787]), (7937, [945, 788]),
      (7938, [945, 787, 768]), (7939, [945, 788, 768]), (7940, [945, 787, 769]),
      (7941, [945, 788, 769]), (7942, [945, 787, 834]), (7943, [945, 788, 834]),
      (7944, [913, 787]), (7945, [913, 788]), (7946, [913, 787, 768]), (7947, [913, 788, 768]),
      (7948, [913, 787, 769]), (7949, [913, 788, 769]), (7950, [913, 787, 834]),
      (7951, [913, 788, 834]), (7952, [949, 787]), (7953, [949, 788]), (7954, [949, 787, 768]),
      (7955, [949, 788, 768]), (7956, [949, 787, 769]), (7957, [949, 788, 769]),
      (7960, [917, 787]), (7961, [917, 788]), (7962, [917, 787, 768]), (7963, [917, 788, 768]),
      (7964, [917, 787, 769]), (7965, [917, 788, 769]), (7968, [951, 787]), (7969, [951, 788]),
      (7970, [951, 787, 768]), (7971, [951, 788, 768]), (7972, [951, 787, 769]),
      (7973, [951, 788, 769]), (7974, [951, 787, 834]), (7975, [951, 788, 834]),
      (7976, [919, 787]), (7977, [919, 788]), (7978, [919, 787, 768]), (7979, [919, 788, 768]),
      (7980, [919, 787, 769]), (7981, [919, 788, 769]), (7982, [919, 787, 834]),
      (7983, [919, 788, 834])
     ]"

definition DECOMPOSICAO_CANONICA_11 :: "(int \<times> int list) list" where
  "DECOMPOSICAO_CANONICA_11 =
     [
      (7984, [953, 787]), (7985, [953, 788]), (7986, [953, 787, 768]), (7987, [953, 788, 768]),
      (7988, [953, 787, 769]), (7989, [953, 788, 769]), (7990, [953, 787, 834]),
      (7991, [953, 788, 834]), (7992, [921, 787]), (7993, [921, 788]), (7994, [921, 787, 768]),
      (7995, [921, 788, 768]), (7996, [921, 787, 769]), (7997, [921, 788, 769]),
      (7998, [921, 787, 834]), (7999, [921, 788, 834]), (8000, [959, 787]), (8001, [959, 788]),
      (8002, [959, 787, 768]), (8003, [959, 788, 768]), (8004, [959, 787, 769]),
      (8005, [959, 788, 769]), (8008, [927, 787]), (8009, [927, 788]), (8010, [927, 787, 768]),
      (8011, [927, 788, 768]), (8012, [927, 787, 769]), (8013, [927, 788, 769]),
      (8016, [965, 787]), (8017, [965, 788]), (8018, [965, 787, 768]), (8019, [965, 788, 768]),
      (8020, [965, 787, 769]), (8021, [965, 788, 769]), (8022, [965, 787, 834]),
      (8023, [965, 788, 834]), (8025, [933, 788]), (8027, [933, 788, 768]),
      (8029, [933, 788, 769]), (8031, [933, 788, 834]), (8032, [969, 787]), (8033, [969, 788]),
      (8034, [969, 787, 768]), (8035, [969, 788, 768]), (8036, [969, 787, 769]),
      (8037, [969, 788, 769]), (8038, [969, 787, 834]), (8039, [969, 788, 834]),
      (8040, [937, 787]), (8041, [937, 788]), (8042, [937, 787, 768]), (8043, [937, 788, 768]),
      (8044, [937, 787, 769]), (8045, [937, 788, 769]), (8046, [937, 787, 834]),
      (8047, [937, 788, 834]), (8048, [945, 768]), (8049, [945, 769]), (8050, [949, 768]),
      (8051, [949, 769]), (8052, [951, 768]), (8053, [951, 769]), (8054, [953, 768]),
      (8055, [953, 769])
     ]"

definition DECOMPOSICAO_CANONICA_12 :: "(int \<times> int list) list" where
  "DECOMPOSICAO_CANONICA_12 =
     [
      (8056, [959, 768]), (8057, [959, 769]), (8058, [965, 768]), (8059, [965, 769]),
      (8060, [969, 768]), (8061, [969, 769]), (8064, [945, 787, 837]), (8065, [945, 788, 837]),
      (8066, [945, 787, 768, 837]), (8067, [945, 788, 768, 837]), (8068, [945, 787, 769, 837]),
      (8069, [945, 788, 769, 837]), (8070, [945, 787, 834, 837]), (8071, [945, 788, 834, 837]),
      (8072, [913, 787, 837]), (8073, [913, 788, 837]), (8074, [913, 787, 768, 837]),
      (8075, [913, 788, 768, 837]), (8076, [913, 787, 769, 837]), (8077, [913, 788, 769, 837]),
      (8078, [913, 787, 834, 837]), (8079, [913, 788, 834, 837]), (8080, [951, 787, 837]),
      (8081, [951, 788, 837]), (8082, [951, 787, 768, 837]), (8083, [951, 788, 768, 837]),
      (8084, [951, 787, 769, 837]), (8085, [951, 788, 769, 837]), (8086, [951, 787, 834, 837]),
      (8087, [951, 788, 834, 837]), (8088, [919, 787, 837]), (8089, [919, 788, 837]),
      (8090, [919, 787, 768, 837]), (8091, [919, 788, 768, 837]), (8092, [919, 787, 769, 837]),
      (8093, [919, 788, 769, 837]), (8094, [919, 787, 834, 837]), (8095, [919, 788, 834, 837]),
      (8096, [969, 787, 837]), (8097, [969, 788, 837]), (8098, [969, 787, 768, 837]),
      (8099, [969, 788, 768, 837]), (8100, [969, 787, 769, 837]), (8101, [969, 788, 769, 837]),
      (8102, [969, 787, 834, 837]), (8103, [969, 788, 834, 837]), (8104, [937, 787, 837]),
      (8105, [937, 788, 837]), (8106, [937, 787, 768, 837]), (8107, [937, 788, 768, 837]),
      (8108, [937, 787, 769, 837]), (8109, [937, 788, 769, 837]), (8110, [937, 787, 834, 837]),
      (8111, [937, 788, 834, 837]), (8112, [945, 774]), (8113, [945, 772]),
      (8114, [945, 768, 837]), (8115, [945, 837]), (8116, [945, 769, 837]), (8118, [945, 834]),
      (8119, [945, 834, 837]), (8120, [913, 774]), (8121, [913, 772]), (8122, [913, 768])
     ]"

definition DECOMPOSICAO_CANONICA_13 :: "(int \<times> int list) list" where
  "DECOMPOSICAO_CANONICA_13 =
     [
      (8123, [913, 769]), (8124, [913, 837]), (8126, [953]), (8129, [168, 834]),
      (8130, [951, 768, 837]), (8131, [951, 837]), (8132, [951, 769, 837]), (8134, [951, 834]),
      (8135, [951, 834, 837]), (8136, [917, 768]), (8137, [917, 769]), (8138, [919, 768]),
      (8139, [919, 769]), (8140, [919, 837]), (8141, [8127, 768]), (8142, [8127, 769]),
      (8143, [8127, 834]), (8144, [953, 774]), (8145, [953, 772]), (8146, [953, 776, 768]),
      (8147, [953, 776, 769]), (8150, [953, 834]), (8151, [953, 776, 834]), (8152, [921, 774]),
      (8153, [921, 772]), (8154, [921, 768]), (8155, [921, 769]), (8157, [8190, 768]),
      (8158, [8190, 769]), (8159, [8190, 834]), (8160, [965, 774]), (8161, [965, 772]),
      (8162, [965, 776, 768]), (8163, [965, 776, 769]), (8164, [961, 787]), (8165, [961, 788]),
      (8166, [965, 834]), (8167, [965, 776, 834]), (8168, [933, 774]), (8169, [933, 772]),
      (8170, [933, 768]), (8171, [933, 769]), (8172, [929, 788]), (8173, [168, 768]),
      (8174, [168, 769]), (8175, [96]), (8178, [969, 768, 837]), (8179, [969, 837]),
      (8180, [969, 769, 837]), (8182, [969, 834]), (8183, [969, 834, 837]), (8184, [927, 768]),
      (8185, [927, 769]), (8186, [937, 768]), (8187, [937, 769]), (8188, [937, 837]),
      (8189, [180]), (8192, [8194]), (8193, [8195]), (8486, [937]), (8490, [75]),
      (8491, [65, 778]), (8602, [8592, 824]), (8603, [8594, 824])
     ]"

definition DECOMPOSICAO_CANONICA_14 :: "(int \<times> int list) list" where
  "DECOMPOSICAO_CANONICA_14 =
     [
      (8622, [8596, 824]), (8653, [8656, 824]), (8654, [8660, 824]), (8655, [8658, 824]),
      (8708, [8707, 824]), (8713, [8712, 824]), (8716, [8715, 824]), (8740, [8739, 824]),
      (8742, [8741, 824]), (8769, [8764, 824]), (8772, [8771, 824]), (8775, [8773, 824]),
      (8777, [8776, 824]), (8800, [61, 824]), (8802, [8801, 824]), (8813, [8781, 824]),
      (8814, [60, 824]), (8815, [62, 824]), (8816, [8804, 824]), (8817, [8805, 824]),
      (8820, [8818, 824]), (8821, [8819, 824]), (8824, [8822, 824]), (8825, [8823, 824]),
      (8832, [8826, 824]), (8833, [8827, 824]), (8836, [8834, 824]), (8837, [8835, 824]),
      (8840, [8838, 824]), (8841, [8839, 824]), (8876, [8866, 824]), (8877, [8872, 824]),
      (8878, [8873, 824]), (8879, [8875, 824]), (8928, [8828, 824]), (8929, [8829, 824]),
      (8930, [8849, 824]), (8931, [8850, 824]), (8938, [8882, 824]), (8939, [8883, 824]),
      (8940, [8884, 824]), (8941, [8885, 824]), (9001, [12296]), (9002, [12297]),
      (10972, [10973, 824]), (12364, [12363, 12441]), (12366, [12365, 12441]),
      (12368, [12367, 12441]), (12370, [12369, 12441]), (12372, [12371, 12441]),
      (12374, [12373, 12441]), (12376, [12375, 12441]), (12378, [12377, 12441]),
      (12380, [12379, 12441]), (12382, [12381, 12441]), (12384, [12383, 12441]),
      (12386, [12385, 12441]), (12389, [12388, 12441]), (12391, [12390, 12441]),
      (12393, [12392, 12441]), (12400, [12399, 12441]), (12401, [12399, 12442]),
      (12403, [12402, 12441]), (12404, [12402, 12442])
     ]"

definition DECOMPOSICAO_CANONICA_15 :: "(int \<times> int list) list" where
  "DECOMPOSICAO_CANONICA_15 =
     [
      (12406, [12405, 12441]), (12407, [12405, 12442]), (12409, [12408, 12441]),
      (12410, [12408, 12442]), (12412, [12411, 12441]), (12413, [12411, 12442]),
      (12436, [12358, 12441]), (12446, [12445, 12441]), (12460, [12459, 12441]),
      (12462, [12461, 12441]), (12464, [12463, 12441]), (12466, [12465, 12441]),
      (12468, [12467, 12441]), (12470, [12469, 12441]), (12472, [12471, 12441]),
      (12474, [12473, 12441]), (12476, [12475, 12441]), (12478, [12477, 12441]),
      (12480, [12479, 12441]), (12482, [12481, 12441]), (12485, [12484, 12441]),
      (12487, [12486, 12441]), (12489, [12488, 12441]), (12496, [12495, 12441]),
      (12497, [12495, 12442]), (12499, [12498, 12441]), (12500, [12498, 12442]),
      (12502, [12501, 12441]), (12503, [12501, 12442]), (12505, [12504, 12441]),
      (12506, [12504, 12442]), (12508, [12507, 12441]), (12509, [12507, 12442]),
      (12532, [12454, 12441]), (12535, [12527, 12441]), (12536, [12528, 12441]),
      (12537, [12529, 12441]), (12538, [12530, 12441]), (12542, [12541, 12441]),
      (63744, [35912]), (63745, [26356]), (63746, [36554]), (63747, [36040]), (63748, [28369]),
      (63749, [20018]), (63750, [21477]), (63751, [40860]), (63752, [40860]), (63753, [22865]),
      (63754, [37329]), (63755, [21895]), (63756, [22856]), (63757, [25078]), (63758, [30313]),
      (63759, [32645]), (63760, [34367]), (63761, [34746]), (63762, [35064]), (63763, [37007]),
      (63764, [27138]), (63765, [27931]), (63766, [28889]), (63767, [29662]), (63768, [33853])
     ]"

definition DECOMPOSICAO_CANONICA_16 :: "(int \<times> int list) list" where
  "DECOMPOSICAO_CANONICA_16 =
     [
      (63769, [37226]), (63770, [39409]), (63771, [20098]), (63772, [21365]), (63773, [27396]),
      (63774, [29211]), (63775, [34349]), (63776, [40478]), (63777, [23888]), (63778, [28651]),
      (63779, [34253]), (63780, [35172]), (63781, [25289]), (63782, [33240]), (63783, [34847]),
      (63784, [24266]), (63785, [26391]), (63786, [28010]), (63787, [29436]), (63788, [37070]),
      (63789, [20358]), (63790, [20919]), (63791, [21214]), (63792, [25796]), (63793, [27347]),
      (63794, [29200]), (63795, [30439]), (63796, [32769]), (63797, [34310]), (63798, [34396]),
      (63799, [36335]), (63800, [38706]), (63801, [39791]), (63802, [40442]), (63803, [30860]),
      (63804, [31103]), (63805, [32160]), (63806, [33737]), (63807, [37636]), (63808, [40575]),
      (63809, [35542]), (63810, [22751]), (63811, [24324]), (63812, [31840]), (63813, [32894]),
      (63814, [29282]), (63815, [30922]), (63816, [36034]), (63817, [38647]), (63818, [22744]),
      (63819, [23650]), (63820, [27155]), (63821, [28122]), (63822, [28431]), (63823, [32047]),
      (63824, [32311]), (63825, [38475]), (63826, [21202]), (63827, [32907]), (63828, [20956]),
      (63829, [20940]), (63830, [31260]), (63831, [32190]), (63832, [33777])
     ]"

definition DECOMPOSICAO_CANONICA_17 :: "(int \<times> int list) list" where
  "DECOMPOSICAO_CANONICA_17 =
     [
      (63833, [38517]), (63834, [35712]), (63835, [25295]), (63836, [27138]), (63837, [35582]),
      (63838, [20025]), (63839, [23527]), (63840, [24594]), (63841, [29575]), (63842, [30064]),
      (63843, [21271]), (63844, [30971]), (63845, [20415]), (63846, [24489]), (63847, [19981]),
      (63848, [27852]), (63849, [25976]), (63850, [32034]), (63851, [21443]), (63852, [22622]),
      (63853, [30465]), (63854, [33865]), (63855, [35498]), (63856, [27578]), (63857, [36784]),
      (63858, [27784]), (63859, [25342]), (63860, [33509]), (63861, [25504]), (63862, [30053]),
      (63863, [20142]), (63864, [20841]), (63865, [20937]), (63866, [26753]), (63867, [31975]),
      (63868, [33391]), (63869, [35538]), (63870, [37327]), (63871, [21237]), (63872, [21570]),
      (63873, [22899]), (63874, [24300]), (63875, [26053]), (63876, [28670]), (63877, [31018]),
      (63878, [38317]), (63879, [39530]), (63880, [40599]), (63881, [40654]), (63882, [21147]),
      (63883, [26310]), (63884, [27511]), (63885, [36706]), (63886, [24180]), (63887, [24976]),
      (63888, [25088]), (63889, [25754]), (63890, [28451]), (63891, [29001]), (63892, [29833]),
      (63893, [31178]), (63894, [32244]), (63895, [32879]), (63896, [36646])
     ]"

definition DECOMPOSICAO_CANONICA_18 :: "(int \<times> int list) list" where
  "DECOMPOSICAO_CANONICA_18 =
     [
      (63897, [34030]), (63898, [36899]), (63899, [37706]), (63900, [21015]), (63901, [21155]),
      (63902, [21693]), (63903, [28872]), (63904, [35010]), (63905, [35498]), (63906, [24265]),
      (63907, [24565]), (63908, [25467]), (63909, [27566]), (63910, [31806]), (63911, [29557]),
      (63912, [20196]), (63913, [22265]), (63914, [23527]), (63915, [23994]), (63916, [24604]),
      (63917, [29618]), (63918, [29801]), (63919, [32666]), (63920, [32838]), (63921, [37428]),
      (63922, [38646]), (63923, [38728]), (63924, [38936]), (63925, [20363]), (63926, [31150]),
      (63927, [37300]), (63928, [38584]), (63929, [24801]), (63930, [20102]), (63931, [20698]),
      (63932, [23534]), (63933, [23615]), (63934, [26009]), (63935, [27138]), (63936, [29134]),
      (63937, [30274]), (63938, [34044]), (63939, [36988]), (63940, [40845]), (63941, [26248]),
      (63942, [38446]), (63943, [21129]), (63944, [26491]), (63945, [26611]), (63946, [27969]),
      (63947, [28316]), (63948, [29705]), (63949, [30041]), (63950, [30827]), (63951, [32016]),
      (63952, [39006]), (63953, [20845]), (63954, [25134]), (63955, [38520]), (63956, [20523]),
      (63957, [23833]), (63958, [28138]), (63959, [36650]), (63960, [24459])
     ]"

definition DECOMPOSICAO_CANONICA_19 :: "(int \<times> int list) list" where
  "DECOMPOSICAO_CANONICA_19 =
     [
      (63961, [24900]), (63962, [26647]), (63963, [29575]), (63964, [38534]), (63965, [21033]),
      (63966, [21519]), (63967, [23653]), (63968, [26131]), (63969, [26446]), (63970, [26792]),
      (63971, [27877]), (63972, [29702]), (63973, [30178]), (63974, [32633]), (63975, [35023]),
      (63976, [35041]), (63977, [37324]), (63978, [38626]), (63979, [21311]), (63980, [28346]),
      (63981, [21533]), (63982, [29136]), (63983, [29848]), (63984, [34298]), (63985, [38563]),
      (63986, [40023]), (63987, [40607]), (63988, [26519]), (63989, [28107]), (63990, [33256]),
      (63991, [31435]), (63992, [31520]), (63993, [31890]), (63994, [29376]), (63995, [28825]),
      (63996, [35672]), (63997, [20160]), (63998, [33590]), (63999, [21050]), (64000, [20999]),
      (64001, [24230]), (64002, [25299]), (64003, [31958]), (64004, [23429]), (64005, [27934]),
      (64006, [26292]), (64007, [36667]), (64008, [34892]), (64009, [38477]), (64010, [35211]),
      (64011, [24275]), (64012, [20800]), (64013, [21952]), (64016, [22618]), (64018, [26228]),
      (64021, [20958]), (64022, [29482]), (64023, [30410]), (64024, [31036]), (64025, [31070]),
      (64026, [31077]), (64027, [31119]), (64028, [38742]), (64029, [31934])
     ]"

definition DECOMPOSICAO_CANONICA_20 :: "(int \<times> int list) list" where
  "DECOMPOSICAO_CANONICA_20 =
     [
      (64030, [32701]), (64032, [34322]), (64034, [35576]), (64037, [36920]), (64038, [37117]),
      (64042, [39151]), (64043, [39164]), (64044, [39208]), (64045, [40372]), (64046, [37086]),
      (64047, [38583]), (64048, [20398]), (64049, [20711]), (64050, [20813]), (64051, [21193]),
      (64052, [21220]), (64053, [21329]), (64054, [21917]), (64055, [22022]), (64056, [22120]),
      (64057, [22592]), (64058, [22696]), (64059, [23652]), (64060, [23662]), (64061, [24724]),
      (64062, [24936]), (64063, [24974]), (64064, [25074]), (64065, [25935]), (64066, [26082]),
      (64067, [26257]), (64068, [26757]), (64069, [28023]), (64070, [28186]), (64071, [28450]),
      (64072, [29038]), (64073, [29227]), (64074, [29730]), (64075, [30865]), (64076, [31038]),
      (64077, [31049]), (64078, [31048]), (64079, [31056]), (64080, [31062]), (64081, [31069]),
      (64082, [31117]), (64083, [31118]), (64084, [31296]), (64085, [31361]), (64086, [31680]),
      (64087, [32244]), (64088, [32265]), (64089, [32321]), (64090, [32626]), (64091, [32773]),
      (64092, [33261]), (64093, [33401]), (64094, [33401]), (64095, [33879]), (64096, [35088]),
      (64097, [35222]), (64098, [35585]), (64099, [35641]), (64100, [36051])
     ]"

definition DECOMPOSICAO_CANONICA_21 :: "(int \<times> int list) list" where
  "DECOMPOSICAO_CANONICA_21 =
     [
      (64101, [36104]), (64102, [36790]), (64103, [36920]), (64104, [38627]), (64105, [38911]),
      (64106, [38971]), (64107, [24693]), (64108, [148206]), (64109, [33304]), (64112, [20006]),
      (64113, [20917]), (64114, [20840]), (64115, [20352]), (64116, [20805]), (64117, [20864]),
      (64118, [21191]), (64119, [21242]), (64120, [21917]), (64121, [21845]), (64122, [21913]),
      (64123, [21986]), (64124, [22618]), (64125, [22707]), (64126, [22852]), (64127, [22868]),
      (64128, [23138]), (64129, [23336]), (64130, [24274]), (64131, [24281]), (64132, [24425]),
      (64133, [24493]), (64134, [24792]), (64135, [24910]), (64136, [24840]), (64137, [24974]),
      (64138, [24928]), (64139, [25074]), (64140, [25140]), (64141, [25540]), (64142, [25628]),
      (64143, [25682]), (64144, [25942]), (64145, [26228]), (64146, [26391]), (64147, [26395]),
      (64148, [26454]), (64149, [27513]), (64150, [27578]), (64151, [27969]), (64152, [28379]),
      (64153, [28363]), (64154, [28450]), (64155, [28702]), (64156, [29038]), (64157, [30631]),
      (64158, [29237]), (64159, [29359]), (64160, [29482]), (64161, [29809]), (64162, [29958]),
      (64163, [30011]), (64164, [30237]), (64165, [30239]), (64166, [30410])
     ]"

definition DECOMPOSICAO_CANONICA_22 :: "(int \<times> int list) list" where
  "DECOMPOSICAO_CANONICA_22 =
     [
      (64167, [30427]), (64168, [30452]), (64169, [30538]), (64170, [30528]), (64171, [30924]),
      (64172, [31409]), (64173, [31680]), (64174, [31867]), (64175, [32091]), (64176, [32244]),
      (64177, [32574]), (64178, [32773]), (64179, [33618]), (64180, [33775]), (64181, [34681]),
      (64182, [35137]), (64183, [35206]), (64184, [35222]), (64185, [35519]), (64186, [35576]),
      (64187, [35531]), (64188, [35585]), (64189, [35582]), (64190, [35565]), (64191, [35641]),
      (64192, [35722]), (64193, [36104]), (64194, [36664]), (64195, [36978]), (64196, [37273]),
      (64197, [37494]), (64198, [38524]), (64199, [38627]), (64200, [38742]), (64201, [38875]),
      (64202, [38911]), (64203, [38923]), (64204, [38971]), (64205, [39698]), (64206, [40860]),
      (64207, [141386]), (64208, [141380]), (64209, [144341]), (64210, [15261]),
      (64211, [16408]), (64212, [16441]), (64213, [152137]), (64214, [154832]),
      (64215, [163539]), (64216, [40771]), (64217, [40846]), (64285, [1497, 1460]),
      (64287, [1522, 1463]), (64298, [1513, 1473]), (64299, [1513, 1474]),
      (64300, [1513, 1468, 1473]), (64301, [1513, 1468, 1474]), (64302, [1488, 1463]),
      (64303, [1488, 1464]), (64304, [1488, 1468]), (64305, [1489, 1468]), (64306, [1490, 1468]),
      (64307, [1491, 1468]), (64308, [1492, 1468])
     ]"

definition DECOMPOSICAO_CANONICA_23 :: "(int \<times> int list) list" where
  "DECOMPOSICAO_CANONICA_23 =
     [
      (64309, [1493, 1468]), (64310, [1494, 1468]), (64312, [1496, 1468]), (64313, [1497, 1468]),
      (64314, [1498, 1468]), (64315, [1499, 1468]), (64316, [1500, 1468]), (64318, [1502, 1468]),
      (64320, [1504, 1468]), (64321, [1505, 1468]), (64323, [1507, 1468]), (64324, [1508, 1468]),
      (64326, [1510, 1468]), (64327, [1511, 1468]), (64328, [1512, 1468]), (64329, [1513, 1468]),
      (64330, [1514, 1468]), (64331, [1493, 1465]), (64332, [1489, 1471]), (64333, [1499, 1471]),
      (64334, [1508, 1471]), (69786, [69785, 69818]), (69788, [69787, 69818]),
      (69803, [69797, 69818]), (69934, [69937, 69927]), (69935, [69938, 69927]),
      (70475, [70471, 70462]), (70476, [70471, 70487]), (70843, [70841, 70842]),
      (70844, [70841, 70832]), (70846, [70841, 70845]), (71098, [71096, 71087]),
      (71099, [71097, 71087]), (71992, [71989, 71984]), (119134, [119127, 119141]),
      (119135, [119128, 119141]), (119136, [119128, 119141, 119150]),
      (119137, [119128, 119141, 119151]), (119138, [119128, 119141, 119152]),
      (119139, [119128, 119141, 119153]), (119140, [119128, 119141, 119154]),
      (119227, [119225, 119141]), (119228, [119226, 119141]), (119229, [119225, 119141, 119150]),
      (119230, [119226, 119141, 119150]), (119231, [119225, 119141, 119151]),
      (119232, [119226, 119141, 119151]), (194560, [20029]), (194561, [20024]),
      (194562, [20033]), (194563, [131362]), (194564, [20320]), (194565, [20398]),
      (194566, [20411]), (194567, [20482]), (194568, [20602]), (194569, [20633]),
      (194570, [20711]), (194571, [20687]), (194572, [13470]), (194573, [132666]),
      (194574, [20813]), (194575, [20820]), (194576, [20836])
     ]"

definition DECOMPOSICAO_CANONICA_24 :: "(int \<times> int list) list" where
  "DECOMPOSICAO_CANONICA_24 =
     [
      (194577, [20855]), (194578, [132380]), (194579, [13497]), (194580, [20839]),
      (194581, [20877]), (194582, [132427]), (194583, [20887]), (194584, [20900]),
      (194585, [20172]), (194586, [20908]), (194587, [20917]), (194588, [168415]),
      (194589, [20981]), (194590, [20995]), (194591, [13535]), (194592, [21051]),
      (194593, [21062]), (194594, [21106]), (194595, [21111]), (194596, [13589]),
      (194597, [21191]), (194598, [21193]), (194599, [21220]), (194600, [21242]),
      (194601, [21253]), (194602, [21254]), (194603, [21271]), (194604, [21321]),
      (194605, [21329]), (194606, [21338]), (194607, [21363]), (194608, [21373]),
      (194609, [21375]), (194610, [21375]), (194611, [21375]), (194612, [133676]),
      (194613, [28784]), (194614, [21450]), (194615, [21471]), (194616, [133987]),
      (194617, [21483]), (194618, [21489]), (194619, [21510]), (194620, [21662]),
      (194621, [21560]), (194622, [21576]), (194623, [21608]), (194624, [21666]),
      (194625, [21750]), (194626, [21776]), (194627, [21843]), (194628, [21859]),
      (194629, [21892]), (194630, [21892]), (194631, [21913]), (194632, [21931]),
      (194633, [21939]), (194634, [21954]), (194635, [22294]), (194636, [22022]),
      (194637, [22295]), (194638, [22097]), (194639, [22132]), (194640, [20999])
     ]"

definition DECOMPOSICAO_CANONICA_25 :: "(int \<times> int list) list" where
  "DECOMPOSICAO_CANONICA_25 =
     [
      (194641, [22766]), (194642, [22478]), (194643, [22516]), (194644, [22541]),
      (194645, [22411]), (194646, [22578]), (194647, [22577]), (194648, [22700]),
      (194649, [136420]), (194650, [22770]), (194651, [22775]), (194652, [22790]),
      (194653, [22810]), (194654, [22818]), (194655, [22882]), (194656, [136872]),
      (194657, [136938]), (194658, [23020]), (194659, [23067]), (194660, [23079]),
      (194661, [23000]), (194662, [23142]), (194663, [14062]), (194664, [14076]),
      (194665, [23304]), (194666, [23358]), (194667, [23358]), (194668, [137672]),
      (194669, [23491]), (194670, [23512]), (194671, [23527]), (194672, [23539]),
      (194673, [138008]), (194674, [23551]), (194675, [23558]), (194676, [24403]),
      (194677, [23586]), (194678, [14209]), (194679, [23648]), (194680, [23662]),
      (194681, [23744]), (194682, [23693]), (194683, [138724]), (194684, [23875]),
      (194685, [138726]), (194686, [23918]), (194687, [23915]), (194688, [23932]),
      (194689, [24033]), (194690, [24034]), (194691, [14383]), (194692, [24061]),
      (194693, [24104]), (194694, [24125]), (194695, [24169]), (194696, [14434]),
      (194697, [139651]), (194698, [14460]), (194699, [24240]), (194700, [24243]),
      (194701, [24246]), (194702, [24266]), (194703, [172946]), (194704, [24318])
     ]"

definition DECOMPOSICAO_CANONICA_26 :: "(int \<times> int list) list" where
  "DECOMPOSICAO_CANONICA_26 =
     [
      (194705, [140081]), (194706, [140081]), (194707, [33281]), (194708, [24354]),
      (194709, [24354]), (194710, [14535]), (194711, [144056]), (194712, [156122]),
      (194713, [24418]), (194714, [24427]), (194715, [14563]), (194716, [24474]),
      (194717, [24525]), (194718, [24535]), (194719, [24569]), (194720, [24705]),
      (194721, [14650]), (194722, [14620]), (194723, [24724]), (194724, [141012]),
      (194725, [24775]), (194726, [24904]), (194727, [24908]), (194728, [24910]),
      (194729, [24908]), (194730, [24954]), (194731, [24974]), (194732, [25010]),
      (194733, [24996]), (194734, [25007]), (194735, [25054]), (194736, [25074]),
      (194737, [25078]), (194738, [25104]), (194739, [25115]), (194740, [25181]),
      (194741, [25265]), (194742, [25300]), (194743, [25424]), (194744, [142092]),
      (194745, [25405]), (194746, [25340]), (194747, [25448]), (194748, [25475]),
      (194749, [25572]), (194750, [142321]), (194751, [25634]), (194752, [25541]),
      (194753, [25513]), (194754, [14894]), (194755, [25705]), (194756, [25726]),
      (194757, [25757]), (194758, [25719]), (194759, [14956]), (194760, [25935]),
      (194761, [25964]), (194762, [143370]), (194763, [26083]), (194764, [26360]),
      (194765, [26185]), (194766, [15129]), (194767, [26257]), (194768, [15112])
     ]"

definition DECOMPOSICAO_CANONICA_27 :: "(int \<times> int list) list" where
  "DECOMPOSICAO_CANONICA_27 =
     [
      (194769, [15076]), (194770, [20882]), (194771, [20885]), (194772, [26368]),
      (194773, [26268]), (194774, [32941]), (194775, [17369]), (194776, [26391]),
      (194777, [26395]), (194778, [26401]), (194779, [26462]), (194780, [26451]),
      (194781, [144323]), (194782, [15177]), (194783, [26618]), (194784, [26501]),
      (194785, [26706]), (194786, [26757]), (194787, [144493]), (194788, [26766]),
      (194789, [26655]), (194790, [26900]), (194791, [15261]), (194792, [26946]),
      (194793, [27043]), (194794, [27114]), (194795, [27304]), (194796, [145059]),
      (194797, [27355]), (194798, [15384]), (194799, [27425]), (194800, [145575]),
      (194801, [27476]), (194802, [15438]), (194803, [27506]), (194804, [27551]),
      (194805, [27578]), (194806, [27579]), (194807, [146061]), (194808, [138507]),
      (194809, [146170]), (194810, [27726]), (194811, [146620]), (194812, [27839]),
      (194813, [27853]), (194814, [27751]), (194815, [27926]), (194816, [27966]),
      (194817, [28023]), (194818, [27969]), (194819, [28009]), (194820, [28024]),
      (194821, [28037]), (194822, [146718]), (194823, [27956]), (194824, [28207]),
      (194825, [28270]), (194826, [15667]), (194827, [28363]), (194828, [28359]),
      (194829, [147153]), (194830, [28153]), (194831, [28526]), (194832, [147294])
     ]"

definition DECOMPOSICAO_CANONICA_28 :: "(int \<times> int list) list" where
  "DECOMPOSICAO_CANONICA_28 =
     [
      (194833, [147342]), (194834, [28614]), (194835, [28729]), (194836, [28702]),
      (194837, [28699]), (194838, [15766]), (194839, [28746]), (194840, [28797]),
      (194841, [28791]), (194842, [28845]), (194843, [132389]), (194844, [28997]),
      (194845, [148067]), (194846, [29084]), (194847, [148395]), (194848, [29224]),
      (194849, [29237]), (194850, [29264]), (194851, [149000]), (194852, [29312]),
      (194853, [29333]), (194854, [149301]), (194855, [149524]), (194856, [29562]),
      (194857, [29579]), (194858, [16044]), (194859, [29605]), (194860, [16056]),
      (194861, [16056]), (194862, [29767]), (194863, [29788]), (194864, [29809]),
      (194865, [29829]), (194866, [29898]), (194867, [16155]), (194868, [29988]),
      (194869, [150582]), (194870, [30014]), (194871, [150674]), (194872, [30064]),
      (194873, [139679]), (194874, [30224]), (194875, [151457]), (194876, [151480]),
      (194877, [151620]), (194878, [16380]), (194879, [16392]), (194880, [30452]),
      (194881, [151795]), (194882, [151794]), (194883, [151833]), (194884, [151859]),
      (194885, [30494]), (194886, [30495]), (194887, [30495]), (194888, [30538]),
      (194889, [16441]), (194890, [30603]), (194891, [16454]), (194892, [16534]),
      (194893, [152605]), (194894, [30798]), (194895, [30860]), (194896, [30924])
     ]"

definition DECOMPOSICAO_CANONICA_29 :: "(int \<times> int list) list" where
  "DECOMPOSICAO_CANONICA_29 =
     [
      (194897, [16611]), (194898, [153126]), (194899, [31062]), (194900, [153242]),
      (194901, [153285]), (194902, [31119]), (194903, [31211]), (194904, [16687]),
      (194905, [31296]), (194906, [31306]), (194907, [31311]), (194908, [153980]),
      (194909, [154279]), (194910, [154279]), (194911, [31470]), (194912, [16898]),
      (194913, [154539]), (194914, [31686]), (194915, [31689]), (194916, [16935]),
      (194917, [154752]), (194918, [31954]), (194919, [17056]), (194920, [31976]),
      (194921, [31971]), (194922, [32000]), (194923, [155526]), (194924, [32099]),
      (194925, [17153]), (194926, [32199]), (194927, [32258]), (194928, [32325]),
      (194929, [17204]), (194930, [156200]), (194931, [156231]), (194932, [17241]),
      (194933, [156377]), (194934, [32634]), (194935, [156478]), (194936, [32661]),
      (194937, [32762]), (194938, [32773]), (194939, [156890]), (194940, [156963]),
      (194941, [32864]), (194942, [157096]), (194943, [32880]), (194944, [144223]),
      (194945, [17365]), (194946, [32946]), (194947, [33027]), (194948, [17419]),
      (194949, [33086]), (194950, [23221]), (194951, [157607]), (194952, [157621]),
      (194953, [144275]), (194954, [144284]), (194955, [33281]), (194956, [33284]),
      (194957, [36766]), (194958, [17515]), (194959, [33425]), (194960, [33419])
     ]"

definition DECOMPOSICAO_CANONICA_30 :: "(int \<times> int list) list" where
  "DECOMPOSICAO_CANONICA_30 =
     [
      (194961, [33437]), (194962, [21171]), (194963, [33457]), (194964, [33459]),
      (194965, [33469]), (194966, [33510]), (194967, [158524]), (194968, [33509]),
      (194969, [33565]), (194970, [33635]), (194971, [33709]), (194972, [33571]),
      (194973, [33725]), (194974, [33767]), (194975, [33879]), (194976, [33619]),
      (194977, [33738]), (194978, [33740]), (194979, [33756]), (194980, [158774]),
      (194981, [159083]), (194982, [158933]), (194983, [17707]), (194984, [34033]),
      (194985, [34035]), (194986, [34070]), (194987, [160714]), (194988, [34148]),
      (194989, [159532]), (194990, [17757]), (194991, [17761]), (194992, [159665]),
      (194993, [159954]), (194994, [17771]), (194995, [34384]), (194996, [34396]),
      (194997, [34407]), (194998, [34409]), (194999, [34473]), (195000, [34440]),
      (195001, [34574]), (195002, [34530]), (195003, [34681]), (195004, [34600]),
      (195005, [34667]), (195006, [34694]), (195007, [17879]), (195008, [34785]),
      (195009, [34817]), (195010, [17913]), (195011, [34912]), (195012, [34915]),
      (195013, [161383]), (195014, [35031]), (195015, [35038]), (195016, [17973]),
      (195017, [35066]), (195018, [13499]), (195019, [161966]), (195020, [162150]),
      (195021, [18110]), (195022, [18119]), (195023, [35488]), (195024, [35565])
     ]"

definition DECOMPOSICAO_CANONICA_31 :: "(int \<times> int list) list" where
  "DECOMPOSICAO_CANONICA_31 =
     [
      (195025, [35722]), (195026, [35925]), (195027, [162984]), (195028, [36011]),
      (195029, [36033]), (195030, [36123]), (195031, [36215]), (195032, [163631]),
      (195033, [133124]), (195034, [36299]), (195035, [36284]), (195036, [36336]),
      (195037, [133342]), (195038, [36564]), (195039, [36664]), (195040, [165330]),
      (195041, [165357]), (195042, [37012]), (195043, [37105]), (195044, [37137]),
      (195045, [165678]), (195046, [37147]), (195047, [37432]), (195048, [37591]),
      (195049, [37592]), (195050, [37500]), (195051, [37881]), (195052, [37909]),
      (195053, [166906]), (195054, [38283]), (195055, [18837]), (195056, [38327]),
      (195057, [167287]), (195058, [18918]), (195059, [38595]), (195060, [23986]),
      (195061, [38691]), (195062, [168261]), (195063, [168474]), (195064, [19054]),
      (195065, [19062]), (195066, [38880]), (195067, [168970]), (195068, [19122]),
      (195069, [169110]), (195070, [38923]), (195071, [38923]), (195072, [38953]),
      (195073, [169398]), (195074, [39138]), (195075, [19251]), (195076, [39209]),
      (195077, [39335]), (195078, [39362]), (195079, [39422]), (195080, [19406]),
      (195081, [170800]), (195082, [39698]), (195083, [40000]), (195084, [40189]),
      (195085, [19662]), (195086, [19693]), (195087, [40295]), (195088, [172238])
     ]"

definition DECOMPOSICAO_CANONICA_32 :: "(int \<times> int list) list" where
  "DECOMPOSICAO_CANONICA_32 =
     [
      (195089, [19704]), (195090, [172293]), (195091, [172558]), (195092, [172689]),
      (195093, [40635]), (195094, [19798]), (195095, [40697]), (195096, [40702]),
      (195097, [40709]), (195098, [40719]), (195099, [40726]), (195100, [40763]),
      (195101, [173568])
     ]"

definition DECOMPOSICAO_CANONICA :: "int \<Rightarrow> (int \<times> int list) list" where
  "DECOMPOSICAO_CANONICA c =
     (if c < 267 then DECOMPOSICAO_CANONICA_0 else if c < 348 then DECOMPOSICAO_CANONICA_1 else
      if c < 491 then DECOMPOSICAO_CANONICA_2 else if c < 884 then DECOMPOSICAO_CANONICA_3 else
      if c < 1258 then DECOMPOSICAO_CANONICA_4 else if c < 3549 then DECOMPOSICAO_CANONICA_5 else
      if c < 7713 then DECOMPOSICAO_CANONICA_6 else if c < 7777 then DECOMPOSICAO_CANONICA_7 else
      if c < 7846 then DECOMPOSICAO_CANONICA_8 else if c < 7910 then DECOMPOSICAO_CANONICA_9 else
      if c < 7984 then DECOMPOSICAO_CANONICA_10 else
      if c < 8056 then DECOMPOSICAO_CANONICA_11 else
      if c < 8123 then DECOMPOSICAO_CANONICA_12 else
      if c < 8622 then DECOMPOSICAO_CANONICA_13 else
      if c < 12406 then DECOMPOSICAO_CANONICA_14 else
      if c < 63769 then DECOMPOSICAO_CANONICA_15 else
      if c < 63833 then DECOMPOSICAO_CANONICA_16 else
      if c < 63897 then DECOMPOSICAO_CANONICA_17 else
      if c < 63961 then DECOMPOSICAO_CANONICA_18 else
      if c < 64030 then DECOMPOSICAO_CANONICA_19 else
      if c < 64101 then DECOMPOSICAO_CANONICA_20 else
      if c < 64167 then DECOMPOSICAO_CANONICA_21 else
      if c < 64309 then DECOMPOSICAO_CANONICA_22 else
      if c < 194577 then DECOMPOSICAO_CANONICA_23 else
      if c < 194641 then DECOMPOSICAO_CANONICA_24 else
      if c < 194705 then DECOMPOSICAO_CANONICA_25 else
      if c < 194769 then DECOMPOSICAO_CANONICA_26 else
      if c < 194833 then DECOMPOSICAO_CANONICA_27 else
      if c < 194897 then DECOMPOSICAO_CANONICA_28 else
      if c < 194961 then DECOMPOSICAO_CANONICA_29 else
      if c < 195025 then DECOMPOSICAO_CANONICA_30 else
      if c < 195089 then DECOMPOSICAO_CANONICA_31 else DECOMPOSICAO_CANONICA_32)"

text \<open>The canonical combining class, where it is not 0: first, last, class.\<close>

definition CLASSE_COMBINACAO_0 :: "(int \<times> int \<times> int) list" where
  "CLASSE_COMBINACAO_0 =
     [
      (768, 788, 230), (789, 789, 232), (790, 793, 220), (794, 794, 232), (795, 795, 216),
      (796, 800, 220), (801, 802, 202), (803, 806, 220), (807, 808, 202), (809, 819, 220),
      (820, 824, 1), (825, 828, 220), (829, 836, 230), (837, 837, 240), (838, 838, 230),
      (839, 841, 220), (842, 844, 230), (845, 846, 220), (848, 850, 230), (851, 854, 220),
      (855, 855, 230), (856, 856, 232), (857, 858, 220), (859, 859, 230), (860, 860, 233),
      (861, 862, 234), (863, 863, 233), (864, 865, 234), (866, 866, 233), (867, 879, 230),
      (1155, 1159, 230), (1425, 1425, 220), (1426, 1429, 230), (1430, 1430, 220),
      (1431, 1433, 230), (1434, 1434, 222), (1435, 1435, 220), (1436, 1441, 230),
      (1442, 1447, 220), (1448, 1449, 230), (1450, 1450, 220), (1451, 1452, 230),
      (1453, 1453, 222), (1454, 1454, 228), (1455, 1455, 230), (1456, 1456, 10),
      (1457, 1457, 11), (1458, 1458, 12), (1459, 1459, 13), (1460, 1460, 14), (1461, 1461, 15),
      (1462, 1462, 16), (1463, 1463, 17), (1464, 1464, 18), (1465, 1466, 19), (1467, 1467, 20),
      (1468, 1468, 21), (1469, 1469, 22), (1471, 1471, 23), (1473, 1473, 24), (1474, 1474, 25),
      (1476, 1476, 230), (1477, 1477, 220), (1479, 1479, 18)
     ]"

definition CLASSE_COMBINACAO_1 :: "(int \<times> int \<times> int) list" where
  "CLASSE_COMBINACAO_1 =
     [
      (1552, 1559, 230), (1560, 1560, 30), (1561, 1561, 31), (1562, 1562, 32), (1611, 1611, 27),
      (1612, 1612, 28), (1613, 1613, 29), (1614, 1614, 30), (1615, 1615, 31), (1616, 1616, 32),
      (1617, 1617, 33), (1618, 1618, 34), (1619, 1620, 230), (1621, 1622, 220),
      (1623, 1627, 230), (1628, 1628, 220), (1629, 1630, 230), (1631, 1631, 220),
      (1648, 1648, 35), (1750, 1756, 230), (1759, 1762, 230), (1763, 1763, 220),
      (1764, 1764, 230), (1767, 1768, 230), (1770, 1770, 220), (1771, 1772, 230),
      (1773, 1773, 220), (1809, 1809, 36), (1840, 1840, 230), (1841, 1841, 220),
      (1842, 1843, 230), (1844, 1844, 220), (1845, 1846, 230), (1847, 1849, 220),
      (1850, 1850, 230), (1851, 1852, 220), (1853, 1853, 230), (1854, 1854, 220),
      (1855, 1857, 230), (1858, 1858, 220), (1859, 1859, 230), (1860, 1860, 220),
      (1861, 1861, 230), (1862, 1862, 220), (1863, 1863, 230), (1864, 1864, 220),
      (1865, 1866, 230), (2027, 2033, 230), (2034, 2034, 220), (2035, 2035, 230),
      (2045, 2045, 220), (2070, 2073, 230), (2075, 2083, 230), (2085, 2087, 230),
      (2089, 2093, 230), (2137, 2139, 220), (2200, 2200, 230), (2201, 2203, 220),
      (2204, 2207, 230), (2250, 2254, 230), (2255, 2259, 220), (2260, 2273, 230),
      (2275, 2275, 220), (2276, 2277, 230)
     ]"

definition CLASSE_COMBINACAO_2 :: "(int \<times> int \<times> int) list" where
  "CLASSE_COMBINACAO_2 =
     [
      (2278, 2278, 220), (2279, 2280, 230), (2281, 2281, 220), (2282, 2284, 230),
      (2285, 2287, 220), (2288, 2288, 27), (2289, 2289, 28), (2290, 2290, 29), (2291, 2293, 230),
      (2294, 2294, 220), (2295, 2296, 230), (2297, 2298, 220), (2299, 2303, 230),
      (2364, 2364, 7), (2381, 2381, 9), (2385, 2385, 230), (2386, 2386, 220), (2387, 2388, 230),
      (2492, 2492, 7), (2509, 2509, 9), (2558, 2558, 230), (2620, 2620, 7), (2637, 2637, 9),
      (2748, 2748, 7), (2765, 2765, 9), (2876, 2876, 7), (2893, 2893, 9), (3021, 3021, 9),
      (3132, 3132, 7), (3149, 3149, 9), (3157, 3157, 84), (3158, 3158, 91), (3260, 3260, 7),
      (3277, 3277, 9), (3387, 3388, 9), (3405, 3405, 9), (3530, 3530, 9), (3640, 3641, 103),
      (3642, 3642, 9), (3656, 3659, 107), (3768, 3769, 118), (3770, 3770, 9), (3784, 3787, 122),
      (3864, 3865, 220), (3893, 3893, 220), (3895, 3895, 220), (3897, 3897, 216),
      (3953, 3953, 129), (3954, 3954, 130), (3956, 3956, 132), (3962, 3965, 130),
      (3968, 3968, 130), (3970, 3971, 230), (3972, 3972, 9), (3974, 3975, 230),
      (4038, 4038, 220), (4151, 4151, 7), (4153, 4154, 9), (4237, 4237, 220), (4957, 4959, 230),
      (5908, 5909, 9), (5940, 5940, 9), (6098, 6098, 9), (6109, 6109, 230)
     ]"

definition CLASSE_COMBINACAO_3 :: "(int \<times> int \<times> int) list" where
  "CLASSE_COMBINACAO_3 =
     [
      (6313, 6313, 228), (6457, 6457, 222), (6458, 6458, 230), (6459, 6459, 220),
      (6679, 6679, 230), (6680, 6680, 220), (6752, 6752, 9), (6773, 6780, 230),
      (6783, 6783, 220), (6832, 6836, 230), (6837, 6842, 220), (6843, 6844, 230),
      (6845, 6845, 220), (6847, 6848, 220), (6849, 6850, 230), (6851, 6852, 220),
      (6853, 6857, 230), (6858, 6858, 220), (6859, 6862, 230), (6964, 6964, 7), (6980, 6980, 9),
      (7019, 7019, 230), (7020, 7020, 220), (7021, 7027, 230), (7082, 7083, 9), (7142, 7142, 7),
      (7154, 7155, 9), (7223, 7223, 7), (7376, 7378, 230), (7380, 7380, 1), (7381, 7385, 220),
      (7386, 7387, 230), (7388, 7391, 220), (7392, 7392, 230), (7394, 7400, 1),
      (7405, 7405, 220), (7412, 7412, 230), (7416, 7417, 230), (7616, 7617, 230),
      (7618, 7618, 220), (7619, 7625, 230), (7626, 7626, 220), (7627, 7628, 230),
      (7629, 7629, 234), (7630, 7630, 214), (7631, 7631, 220), (7632, 7632, 202),
      (7633, 7669, 230), (7670, 7670, 232), (7671, 7672, 228), (7673, 7673, 220),
      (7674, 7674, 218), (7675, 7675, 230), (7676, 7676, 233), (7677, 7677, 220),
      (7678, 7678, 230), (7679, 7679, 220), (8400, 8401, 230), (8402, 8403, 1),
      (8404, 8407, 230), (8408, 8410, 1), (8411, 8412, 230), (8417, 8417, 230), (8421, 8422, 1)
     ]"

definition CLASSE_COMBINACAO_4 :: "(int \<times> int \<times> int) list" where
  "CLASSE_COMBINACAO_4 =
     [
      (8423, 8423, 230), (8424, 8424, 220), (8425, 8425, 230), (8426, 8427, 1),
      (8428, 8431, 220), (8432, 8432, 230), (11503, 11505, 230), (11647, 11647, 9),
      (11744, 11775, 230), (12330, 12330, 218), (12331, 12331, 228), (12332, 12332, 232),
      (12333, 12333, 222), (12334, 12335, 224), (12441, 12442, 8), (42607, 42607, 230),
      (42612, 42621, 230), (42654, 42655, 230), (42736, 42737, 230), (43014, 43014, 9),
      (43052, 43052, 9), (43204, 43204, 9), (43232, 43249, 230), (43307, 43309, 220),
      (43347, 43347, 9), (43443, 43443, 7), (43456, 43456, 9), (43696, 43696, 230),
      (43698, 43699, 230), (43700, 43700, 220), (43703, 43704, 230), (43710, 43711, 230),
      (43713, 43713, 230), (43766, 43766, 9), (44013, 44013, 9), (64286, 64286, 26),
      (65056, 65062, 230), (65063, 65069, 220), (65070, 65071, 230), (66045, 66045, 220),
      (66272, 66272, 220), (66422, 66426, 230), (68109, 68109, 220), (68111, 68111, 230),
      (68152, 68152, 230), (68153, 68153, 1), (68154, 68154, 220), (68159, 68159, 9),
      (68325, 68325, 230), (68326, 68326, 220), (68900, 68903, 230), (69291, 69292, 230),
      (69446, 69447, 220), (69448, 69450, 230), (69451, 69451, 220), (69452, 69452, 230),
      (69453, 69456, 220), (69506, 69506, 230), (69507, 69507, 220), (69508, 69508, 230),
      (69509, 69509, 220), (69702, 69702, 9), (69744, 69744, 9), (69759, 69759, 9)
     ]"

definition CLASSE_COMBINACAO_5 :: "(int \<times> int \<times> int) list" where
  "CLASSE_COMBINACAO_5 =
     [
      (69817, 69817, 9), (69818, 69818, 7), (69888, 69890, 230), (69939, 69940, 9),
      (70003, 70003, 7), (70080, 70080, 9), (70090, 70090, 7), (70197, 70197, 9),
      (70198, 70198, 7), (70377, 70377, 7), (70378, 70378, 9), (70459, 70460, 7),
      (70477, 70477, 9), (70502, 70508, 230), (70512, 70516, 230), (70722, 70722, 9),
      (70726, 70726, 7), (70750, 70750, 230), (70850, 70850, 9), (70851, 70851, 7),
      (71103, 71103, 9), (71104, 71104, 7), (71231, 71231, 9), (71350, 71350, 9),
      (71351, 71351, 7), (71467, 71467, 9), (71737, 71737, 9), (71738, 71738, 7),
      (71997, 71998, 9), (72003, 72003, 7), (72160, 72160, 9), (72244, 72244, 9),
      (72263, 72263, 9), (72345, 72345, 9), (72767, 72767, 9), (73026, 73026, 7),
      (73028, 73029, 9), (73111, 73111, 9), (92912, 92916, 1), (92976, 92982, 230),
      (94192, 94193, 6), (113822, 113822, 1), (119141, 119142, 216), (119143, 119145, 1),
      (119149, 119149, 226), (119150, 119154, 216), (119163, 119170, 220), (119173, 119177, 230),
      (119178, 119179, 220), (119210, 119213, 230), (119362, 119364, 230), (122880, 122886, 230),
      (122888, 122904, 230), (122907, 122913, 230), (122915, 122916, 230), (122918, 122922, 230),
      (123184, 123190, 230), (123566, 123566, 230), (123628, 123631, 230), (125136, 125142, 220),
      (125252, 125257, 230), (125258, 125258, 7)
     ]"

definition CLASSE_COMBINACAO :: "int \<Rightarrow> (int \<times> int \<times> int) list" where
  "CLASSE_COMBINACAO c =
     (if c < 1552 then CLASSE_COMBINACAO_0 else if c < 2278 then CLASSE_COMBINACAO_1 else
      if c < 6313 then CLASSE_COMBINACAO_2 else if c < 8423 then CLASSE_COMBINACAO_3 else
      if c < 69817 then CLASSE_COMBINACAO_4 else CLASSE_COMBINACAO_5)"

text \<open>The code points of general category Mn (nonspacing mark).\<close>

definition CATEGORIA_MN_0 :: "(int \<times> int) list" where
  "CATEGORIA_MN_0 =
     [
      (768, 879), (1155, 1159), (1425, 1469), (1471, 1471), (1473, 1474), (1476, 1477),
      (1479, 1479), (1552, 1562), (1611, 1631), (1648, 1648), (1750, 1756), (1759, 1764),
      (1767, 1768), (1770, 1773), (1809, 1809), (1840, 1866), (1958, 1968), (2027, 2035),
      (2045, 2045), (2070, 2073), (2075, 2083), (2085, 2087), (2089, 2093), (2137, 2139),
      (2200, 2207), (2250, 2273), (2275, 2306), (2362, 2362), (2364, 2364), (2369, 2376),
      (2381, 2381), (2385, 2391), (2402, 2403), (2433, 2433), (2492, 2492), (2497, 2500),
      (2509, 2509), (2530, 2531), (2558, 2558), (2561, 2562), (2620, 2620), (2625, 2626),
      (2631, 2632), (2635, 2637), (2641, 2641), (2672, 2673), (2677, 2677), (2689, 2690),
      (2748, 2748), (2753, 2757), (2759, 2760), (2765, 2765), (2786, 2787), (2810, 2815),
      (2817, 2817), (2876, 2876), (2879, 2879), (2881, 2884), (2893, 2893), (2901, 2902),
      (2914, 2915), (2946, 2946), (3008, 3008), (3021, 3021)
     ]"

definition CATEGORIA_MN_1 :: "(int \<times> int) list" where
  "CATEGORIA_MN_1 =
     [
      (3072, 3072), (3076, 3076), (3132, 3132), (3134, 3136), (3142, 3144), (3146, 3149),
      (3157, 3158), (3170, 3171), (3201, 3201), (3260, 3260), (3263, 3263), (3270, 3270),
      (3276, 3277), (3298, 3299), (3328, 3329), (3387, 3388), (3393, 3396), (3405, 3405),
      (3426, 3427), (3457, 3457), (3530, 3530), (3538, 3540), (3542, 3542), (3633, 3633),
      (3636, 3642), (3655, 3662), (3761, 3761), (3764, 3772), (3784, 3789), (3864, 3865),
      (3893, 3893), (3895, 3895), (3897, 3897), (3953, 3966), (3968, 3972), (3974, 3975),
      (3981, 3991), (3993, 4028), (4038, 4038), (4141, 4144), (4146, 4151), (4153, 4154),
      (4157, 4158), (4184, 4185), (4190, 4192), (4209, 4212), (4226, 4226), (4229, 4230),
      (4237, 4237), (4253, 4253), (4957, 4959), (5906, 5908), (5938, 5939), (5970, 5971),
      (6002, 6003), (6068, 6069), (6071, 6077), (6086, 6086), (6089, 6099), (6109, 6109),
      (6155, 6157), (6159, 6159), (6277, 6278), (6313, 6313)
     ]"

definition CATEGORIA_MN_2 :: "(int \<times> int) list" where
  "CATEGORIA_MN_2 =
     [
      (6432, 6434), (6439, 6440), (6450, 6450), (6457, 6459), (6679, 6680), (6683, 6683),
      (6742, 6742), (6744, 6750), (6752, 6752), (6754, 6754), (6757, 6764), (6771, 6780),
      (6783, 6783), (6832, 6845), (6847, 6862), (6912, 6915), (6964, 6964), (6966, 6970),
      (6972, 6972), (6978, 6978), (7019, 7027), (7040, 7041), (7074, 7077), (7080, 7081),
      (7083, 7085), (7142, 7142), (7144, 7145), (7149, 7149), (7151, 7153), (7212, 7219),
      (7222, 7223), (7376, 7378), (7380, 7392), (7394, 7400), (7405, 7405), (7412, 7412),
      (7416, 7417), (7616, 7679), (8400, 8412), (8417, 8417), (8421, 8432), (11503, 11505),
      (11647, 11647), (11744, 11775), (12330, 12333), (12441, 12442), (42607, 42607),
      (42612, 42621), (42654, 42655), (42736, 42737), (43010, 43010), (43014, 43014),
      (43019, 43019), (43045, 43046), (43052, 43052), (43204, 43205), (43232, 43249),
      (43263, 43263), (43302, 43309), (43335, 43345), (43392, 43394), (43443, 43443),
      (43446, 43449), (43452, 43453)
     ]"

definition CATEGORIA_MN_3 :: "(int \<times> int) list" where
  "CATEGORIA_MN_3 =
     [
      (43493, 43493), (43561, 43566), (43569, 43570), (43573, 43574), (43587, 43587),
      (43596, 43596), (43644, 43644), (43696, 43696), (43698, 43700), (43703, 43704),
      (43710, 43711), (43713, 43713), (43756, 43757), (43766, 43766), (44005, 44005),
      (44008, 44008), (44013, 44013), (64286, 64286), (65024, 65039), (65056, 65071),
      (66045, 66045), (66272, 66272), (66422, 66426), (68097, 68099), (68101, 68102),
      (68108, 68111), (68152, 68154), (68159, 68159), (68325, 68326), (68900, 68903),
      (69291, 69292), (69446, 69456), (69506, 69509), (69633, 69633), (69688, 69702),
      (69744, 69744), (69747, 69748), (69759, 69761), (69811, 69814), (69817, 69818),
      (69826, 69826), (69888, 69890), (69927, 69931), (69933, 69940), (70003, 70003),
      (70016, 70017), (70070, 70078), (70089, 70092), (70095, 70095), (70191, 70193),
      (70196, 70196), (70198, 70199), (70206, 70206), (70367, 70367), (70371, 70378),
      (70400, 70401), (70459, 70460), (70464, 70464), (70502, 70508), (70512, 70516),
      (70712, 70719), (70722, 70724), (70726, 70726), (70750, 70750)
     ]"

definition CATEGORIA_MN_4 :: "(int \<times> int) list" where
  "CATEGORIA_MN_4 =
     [
      (70835, 70840), (70842, 70842), (70847, 70848), (70850, 70851), (71090, 71093),
      (71100, 71101), (71103, 71104), (71132, 71133), (71219, 71226), (71229, 71229),
      (71231, 71232), (71339, 71339), (71341, 71341), (71344, 71349), (71351, 71351),
      (71453, 71455), (71458, 71461), (71463, 71467), (71727, 71735), (71737, 71738),
      (71995, 71996), (71998, 71998), (72003, 72003), (72148, 72151), (72154, 72155),
      (72160, 72160), (72193, 72202), (72243, 72248), (72251, 72254), (72263, 72263),
      (72273, 72278), (72281, 72283), (72330, 72342), (72344, 72345), (72752, 72758),
      (72760, 72765), (72767, 72767), (72850, 72871), (72874, 72880), (72882, 72883),
      (72885, 72886), (73009, 73014), (73018, 73018), (73020, 73021), (73023, 73029),
      (73031, 73031), (73104, 73105), (73109, 73109), (73111, 73111), (73459, 73460),
      (92912, 92916), (92976, 92982), (94031, 94031), (94095, 94098), (94180, 94180),
      (113821, 113822), (118528, 118573), (118576, 118598), (119143, 119145), (119163, 119170),
      (119173, 119179), (119210, 119213), (119362, 119364), (121344, 121398)
     ]"

definition CATEGORIA_MN_5 :: "(int \<times> int) list" where
  "CATEGORIA_MN_5 =
     [
      (121403, 121452), (121461, 121461), (121476, 121476), (121499, 121503), (121505, 121519),
      (122880, 122886), (122888, 122904), (122907, 122913), (122915, 122916), (122918, 122922),
      (123184, 123190), (123566, 123566), (123628, 123631), (125136, 125142), (125252, 125258),
      (917760, 917999)
     ]"

definition CATEGORIA_MN :: "int \<Rightarrow> (int \<times> int) list" where
  "CATEGORIA_MN c =
     (if c < 3072 then CATEGORIA_MN_0 else if c < 6432 then CATEGORIA_MN_1 else
      if c < 43493 then CATEGORIA_MN_2 else if c < 70835 then CATEGORIA_MN_3 else
      if c < 121403 then CATEGORIA_MN_4 else CATEGORIA_MN_5)"

subsection \<open>The methods of \<open>str\<close> and \<open>unicodedata\<close>\<close>

text \<open>\<open>str.upper\<close>: every character by its full upper case mapping.\<close>

definition upper_cp :: "int \<Rightarrow> int list" where
  "upper_cp c =
     (if c < 128 then (if 97 \<le> c \<and> c \<le> 122 then [c - 32] else [c])
      else case busca c (TABELA_UPPER c) of Some us \<Rightarrow> us | None \<Rightarrow> [c])"

definition upper :: "string \<Rightarrow> string" where
  "upper s = codifica (concat (map upper_cp (decodifica s)))"

text \<open>
  \<open>str.lower\<close>: every character by its full lower case mapping, except the capital sigma
  U+03A3: it becomes the final sigma U+03C2 when a cased character comes before it,
  case-ignorable characters skipped, and none comes after it in the same way, and the
  small sigma U+03C3 otherwise. \<open>antes\<close> holds the characters read so far, last first.
\<close>

definition lower_cp :: "int \<Rightarrow> int list" where
  "lower_cp c =
     (if c < 128 then (if 65 \<le> c \<and> c \<le> 90 then [c + 32] else [c])
      else case busca c (TABELA_LOWER c) of Some ls \<Rightarrow> ls | None \<Rightarrow> [c])"

definition sigma :: "int list \<Rightarrow> int list \<Rightarrow> int" where
  "sigma antes depois =
     (let a = dropWhile (\<lambda>c. na_faixa c (CASE_IGNORABLE c)) antes;
          d = dropWhile (\<lambda>c. na_faixa c (CASE_IGNORABLE c)) depois
      in if (case a of [] \<Rightarrow> False | p # _ \<Rightarrow> na_faixa p (CASED p))
            \<and> (case d of [] \<Rightarrow> True | q # _ \<Rightarrow> \<not> na_faixa q (CASED q))
         then 962 else 963)"

fun lower_laco :: "int list \<Rightarrow> int list \<Rightarrow> int list" where
  "lower_laco antes [] = []"
| "lower_laco antes (c # depois) =
     (if c = 931 then [sigma antes depois] else lower_cp c) @ lower_laco (c # antes) depois"

definition lower :: "string \<Rightarrow> string" where
  "lower s = codifica (lower_laco [] (decodifica s))"

text \<open>\<open>str.strip\<close> with no argument: the white space at both ends goes.\<close>

definition isspace :: "int \<Rightarrow> bool" where
  "isspace c = na_faixa c ESPACOS"

definition strip :: "string \<Rightarrow> string" where
  "strip s = codifica (rev (dropWhile isspace (rev (dropWhile isspace (decodifica s)))))"

text \<open>
  \<open>unicodedata.normalize("NFD", s)\<close>: every character by its full canonical decomposition,
  then the canonical ordering: in every run of characters of combining class other than
  0, a stable sort by combining class.
\<close>

definition decompor :: "int \<Rightarrow> int list" where
  "decompor c =
     (if c < 192 then [c]
      else if 44032 \<le> c \<and> c < 55204 then
        (let s = c - 44032 in
         [4352 + s div 588, 4449 + s mod 588 div 28]
           @ (if s mod 28 = 0 then [] else [4519 + s mod 28]))
      else case busca c (DECOMPOSICAO_CANONICA c) of Some ds \<Rightarrow> ds | None \<Rightarrow> [c])"

fun classe_em :: "int \<Rightarrow> (int \<times> int \<times> int) list \<Rightarrow> int" where
  "classe_em c [] = 0"
| "classe_em c ((a, b, k) # tab) =
     (if c < a then 0 else if c \<le> b then k else classe_em c tab)"

definition classe_combinacao :: "int \<Rightarrow> int" where
  "classe_combinacao c = (if c < 768 then 0 else classe_em c (CLASSE_COMBINACAO c))"

text \<open>
  The ordering, read from the right: \<open>marcas\<close> is the run of characters of class other
  than 0 that follows the position, \<open>feito\<close> the part already in order.
\<close>

definition ordenar_passo :: "int \<Rightarrow> int list \<times> int list \<Rightarrow> int list \<times> int list" where
  "ordenar_passo c st =
     (case st of (marcas, feito) \<Rightarrow>
        if classe_combinacao c = 0
        then ([], c # sort_key classe_combinacao marcas @ feito)
        else (c # marcas, feito))"

definition ordenar_canonico :: "int list \<Rightarrow> int list" where
  "ordenar_canonico cs =
     (case foldr ordenar_passo cs ([], []) of
        (marcas, feito) \<Rightarrow> sort_key classe_combinacao marcas @ feito)"

definition normalize_NFD :: "string \<Rightarrow> string" where
  "normalize_NFD s = codifica (ordenar_canonico (concat (map decompor (decodifica s))))"

text \<open>\<open>unicodedata.category(ch) == "Mn"\<close>.\<close>

definition category_Mn :: "int \<Rightarrow> bool" where
  "category_Mn c = (768 \<le> c \<and> na_faixa c (CATEGORIA_MN c))"

subsection \<open>Tests and containers\<close>

definition startswith :: "string \<Rightarrow> string \<Rightarrow> bool" where
  "startswith s p = (take (length p) s = p)"

text \<open>\<open>contem s p\<close> is Python's \<open>p in s\<close> on strings.\<close>

fun contem :: "string \<Rightarrow> string \<Rightarrow> bool" where
  "contem [] p = (p = [])"
| "contem (c # cs) p = (startswith (c # cs) p \<or> contem cs p)"

text \<open>\<open>sorted(set(xs))\<close>.\<close>

definition sorted_set :: "string list \<Rightarrow> string list" where
  "sorted_set xs = sort (remdups xs)"

text \<open>\<open>d.get(k, 0.0)\<close> on a dictionary of areas.\<close>

definition get0 :: "(string \<rightharpoonup> real) \<Rightarrow> string \<Rightarrow> real" where
  "get0 d k = (case d k of Some v \<Rightarrow> v | None \<Rightarrow> 0)"

section \<open>The overlap rulebook (regra_sobreposicao_zoneamento.py)\<close>

definition MAPA_LOGRADOURO_EIXO :: "(string \<times> string) list" where
  "MAPA_LOGRADOURO_EIXO = [(''AV GOVERNADOR CELSO RAMOS'', ''EU1'')]"

definition MAPA_LOGRADOURO_SEMIEIXO :: "(string \<times> string) list" where
  "MAPA_LOGRADOURO_SEMIEIXO =
     [(''RUA SAO PAULO'', ''SEMIEIXO''), (''RUA OLINDINA PEIXOTO'', ''SEMIEIXO'')]"

text \<open>
  The rationale texts are f-strings over fixed Portuguese sentences; each is one
  constructor carrying the interpolated value.
\<close>

datatype motivo_regra =
    MotivoSemZoneamento
  | MotivoNota10
  | MotivoNota37
  | MotivoZonaEspecial "string option"
  | MotivoEixoSobreMacro "string option"
  | MotivoEixoSobreSemieixo "string option"
  | MotivoCoexistenciaFixas
  | MotivoApenasEixo "string option"
  | MotivoMacroUnica string
  | MotivoMacroMultipla "string option"
  | MotivoSemRegraEspecifica

record ResultadoRegraSobreposicao =
  zonas_consideradas :: "string list"
  zona_principal :: "string option"
  tipo_regra :: string
  motivo :: motivo_regra
  zonas_especiais :: "string list"
  zonas_eixo :: "string list"
  zonas_macros :: "string list"

definition classificar_zona_regra :: "string \<Rightarrow> string" where
  "classificar_zona_regra codigo =
     (if codigo = [] then ''OUTRA''
      else let cod = strip (upper codigo) in
        if startswith cod ''ZE'' then ''ESPECIAL''
        else if (\<exists>p \<in> set [''EIXOACESSO'', ''EIXOORLA'', ''EU1'', ''EU2'', ''EU3'', ''EU4'',
                               ''EA'', ''EO'', ''EM'']. startswith cod p) \<or> contem cod ''EIXO''
          then ''EIXO''
        else if startswith cod ''SEMI'' then ''SEMIEIXO''
        else if (\<exists>p \<in> set [''MUQ'', ''MEU'', ''MUIS'', ''MUCON'', ''MUO'', ''MUPA'', ''MRO'',
                               ''MRPA'']. startswith cod p)
          then ''MACRO''
        else ''OUTRA'')"

definition MACROZONAS_COEXISTENTES :: "string list" where
  "MACROZONAS_COEXISTENTES = [''MUO'', ''MUPA1'', ''MUPA2'', ''MRPA'']"

text \<open>
  \<open>_normalizar_nome_logradouro\<close>: upper case, strip, NFD decomposition, and the characters
  of category Mn dropped, so that an accented letter is left as its base letter.
\<close>

definition normalizar_nome_logradouro :: "string \<Rightarrow> string" where
  "normalizar_nome_logradouro nome =
     (if nome = [] then []
      else let texto = strip (upper nome);
               texto = normalize_NFD texto
           in codifica (filter (\<lambda>ch. \<not> category_Mn ch) (decodifica texto)))"

fun primeiro_padrao :: "(string \<times> string) list \<Rightarrow> string \<Rightarrow> string option" where
  "primeiro_padrao [] nome_norm = None"
| "primeiro_padrao ((padrao, zona) # ps) nome_norm =
     (if contem nome_norm padrao then Some zona else primeiro_padrao ps nome_norm)"

definition zona_por_logradouro :: "string \<Rightarrow> string option" where
  "zona_por_logradouro nome_logradouro =
     (if nome_logradouro = [] then None
      else let nome_norm = normalizar_nome_logradouro nome_logradouro in
        case primeiro_padrao MAPA_LOGRADOURO_EIXO nome_norm of
          Some zona \<Rightarrow> Some zona
        | None \<Rightarrow> primeiro_padrao MAPA_LOGRADOURO_SEMIEIXO nome_norm)"

text \<open>
  The inner helper \<open>_zona_maior_area\<close>: a scan with the running best code and best area,
  started at \<open>(None, -1.0)\<close>; a code replaces the best one only on a strictly larger area.
\<close>

fun zona_maior_area_laco ::
  "(string \<rightharpoonup> real) \<Rightarrow> string list \<Rightarrow> string option \<Rightarrow> real \<Rightarrow> string option" where
  "zona_maior_area_laco areas [] melhor melhor_area = melhor"
| "zona_maior_area_laco areas (cod # cs) melhor melhor_area =
     (let a = get0 areas cod in
      if a > melhor_area then zona_maior_area_laco areas cs (Some cod) a
      else zona_maior_area_laco areas cs melhor melhor_area)"

definition zona_maior_area :: "(string \<rightharpoonup> real) \<Rightarrow> string list \<Rightarrow> string option" where
  "zona_maior_area areas codigos =
     (if codigos = [] then None else zona_maior_area_laco areas codigos None (- 1))"

text \<open>The deduction of Nota 37 from the frontage street names (the keys of the dict).\<close>

definition acesso_lucio_deduzido :: "string list \<Rightarrow> bool" where
  "acesso_lucio_deduzido vias =
     (\<exists>nome_via \<in> set vias.
        let n = normalizar_nome_logradouro nome_via in contem n ''LUCIO'' \<and> contem n ''MENDES'')"

definition zonas_deduzidas :: "string list \<Rightarrow> string list" where
  "zonas_deduzidas vias =
     concat (map (\<lambda>nome_via. case zona_por_logradouro nome_via of
                                 Some z \<Rightarrow> (if z \<noteq> [] then [z] else [])
                               | None \<Rightarrow> []) vias)"

text \<open>
  Steps 3 to 8 of \<open>aplicar_regra_sobreposicao\<close>: the classification of the zones and the
  cascade of precedence rules, on the list \<open>zonas_unicas\<close> as it stands after the notes and
  the deduction from the frontages.
\<close>

definition cascata_regras :: "(string \<rightharpoonup> real) \<Rightarrow> string list \<Rightarrow> ResultadoRegraSobreposicao" where
  "cascata_regras areas_por_zona zonas_unicas =
     (let especiais = filter (\<lambda>z. classificar_zona_regra z = ''ESPECIAL'') zonas_unicas;
          eixo = filter (\<lambda>z. classificar_zona_regra z = ''EIXO'') zonas_unicas;
          semieixo = filter (\<lambda>z. classificar_zona_regra z = ''SEMIEIXO'') zonas_unicas;
          macros = filter (\<lambda>z. classificar_zona_regra z = ''MACRO'') zonas_unicas;
          macros_fixas = filter (\<lambda>z. z \<in> set MACROZONAS_COEXISTENTES) macros;
          macros_variaveis = filter (\<lambda>z. z \<notin> set MACROZONAS_COEXISTENTES) macros
      in
      if especiais \<noteq> [] then
        (let zp = zona_maior_area areas_por_zona especiais in
         \<lparr>zonas_consideradas = zonas_unicas, zona_principal = zp,
          tipo_regra = ''ZONA_ESPECIAL_PREDOMINANTE'', motivo = MotivoZonaEspecial zp,
          zonas_especiais = especiais, zonas_eixo = eixo, zonas_macros = macros\<rparr>)
      else if eixo \<noteq> [] \<and> macros_variaveis \<noteq> [] then
        (let zp = zona_maior_area areas_por_zona eixo in
         \<lparr>zonas_consideradas = zonas_unicas, zona_principal = zp,
          tipo_regra = ''EIXO_SOBRE_MACRO'', motivo = MotivoEixoSobreMacro zp,
          zonas_especiais = [], zonas_eixo = eixo, zonas_macros = macros\<rparr>)
      else if eixo \<noteq> [] \<and> semieixo \<noteq> [] then
        (let zp = zona_maior_area areas_por_zona eixo in
         \<lparr>zonas_consideradas = zonas_unicas, zona_principal = zp,
          tipo_regra = ''EIXO_SOBRE_SEMIEIXO'', motivo = MotivoEixoSobreSemieixo zp,
          zonas_especiais = [], zonas_eixo = eixo, zonas_macros = macros\<rparr>)
      else if macros_fixas \<noteq> [] then
        \<lparr>zonas_consideradas = zonas_unicas,
         zona_principal = (if eixo \<noteq> [] then zona_maior_area areas_por_zona eixo else None),
         tipo_regra = ''COEXISTENCIA_MACROZONAS_FIXAS'', motivo = MotivoCoexistenciaFixas,
         zonas_especiais = [], zonas_eixo = eixo, zonas_macros = macros\<rparr>
      else if eixo \<noteq> [] \<and> macros = [] then
        (let zp = zona_maior_area areas_por_zona eixo in
         \<lparr>zonas_consideradas = zonas_unicas, zona_principal = zp,
          tipo_regra = ''APENAS_EIXO'', motivo = MotivoApenasEixo zp,
          zonas_especiais = [], zonas_eixo = eixo, zonas_macros = []\<rparr>)
      else if macros \<noteq> [] \<and> eixo = [] then
        (if length macros = 1 then
           \<lparr>zonas_consideradas = zonas_unicas, zona_principal = Some (hd macros),
            tipo_regra = ''MACRO_UNICA'', motivo = MotivoMacroUnica (hd macros),
            zonas_especiais = [], zonas_eixo = [], zonas_macros = macros\<rparr>
         else
           (let zp = zona_maior_area areas_por_zona macros in
            \<lparr>zonas_consideradas = zonas_unicas, zona_principal = zp,
             tipo_regra = ''MACRO_MULTIPLA'', motivo = MotivoMacroMultipla zp,
             zonas_especiais = [], zonas_eixo = [], zonas_macros = macros\<rparr>))
      else
        \<lparr>zonas_consideradas = zonas_unicas, zona_principal = None,
         tipo_regra = ''SEM_REGRA_ESPECIFICA'', motivo = MotivoSemRegraEspecifica,
         zonas_especiais = especiais, zonas_eixo = eixo, zonas_macros = macros\<rparr>)"

text \<open>
  \<open>aplicar_regra_sobreposicao\<close>. The dictionary \<open>testadas_por_logradouro\<close> is read
  through its keys only, passed here in the dictionary's order.
\<close>

definition aplicar_regra_sobreposicao ::
  "string list \<Rightarrow> (string \<rightharpoonup> real) \<Rightarrow> string list \<Rightarrow> bool \<Rightarrow> bool
     \<Rightarrow> ResultadoRegraSobreposicao" where
  "aplicar_regra_sobreposicao zonas areas_por_zona testadas_vias nota10_ativada nota37_ativada =
     (let zonas_unicas = sorted_set zonas in
      if zonas_unicas = [] then
        \<lparr>zonas_consideradas = [], zona_principal = None, tipo_regra = ''SEM_ZONEAMENTO'',
         motivo = MotivoSemZoneamento, zonas_especiais = [], zonas_eixo = [], zonas_macros = []\<rparr>
      else if nota10_ativada then
        (let zc = sorted_set (zonas_unicas @ [''ZEOT2'']) in
         \<lparr>zonas_consideradas = zc, zona_principal = Some ''ZEOT2'',
          tipo_regra = ''NOTA_10_ZEOT2'', motivo = MotivoNota10,
          zonas_especiais = (if ''ZEOT2'' \<in> set zc then [''ZEOT2''] else []),
          zonas_eixo = filter (\<lambda>z. classificar_zona_regra z = ''EIXO'') zc,
          zonas_macros = filter (\<lambda>z. classificar_zona_regra z = ''MACRO'') zc\<rparr>)
      else if nota37_ativada \<or> acesso_lucio_deduzido testadas_vias then
        (let zc = sorted_set (zonas_unicas @ [''MUQ3'']) in
         \<lparr>zonas_consideradas = zc, zona_principal = Some ''MUQ3'',
          tipo_regra = ''NOTA_37_MUQ3'', motivo = MotivoNota37,
          zonas_especiais = filter (\<lambda>z. classificar_zona_regra z = ''ESPECIAL'') zc,
          zonas_eixo = [''MUQ3''],
          zonas_macros = filter (\<lambda>z. classificar_zona_regra z = ''MACRO'') zc\<rparr>)
      else
        (let deduzidas = zonas_deduzidas testadas_vias;
             zonas_unicas = (if deduzidas \<noteq> [] then sorted_set (zonas_unicas @ deduzidas)
                             else zonas_unicas)
         in cascata_regras areas_por_zona zonas_unicas))"

section \<open>Zone parameters (regras_zoneamento.py)\<close>

text \<open>
  A value of the parameter table's JSON, as far as the index fields read it: \<open>null\<close>, a
  number or a string.
\<close>

datatype json_valor = JNull | JNum real | JStr string

record ParametrosZona =
  codigo :: string
  CA_min :: "real option"
  CA_bas :: "real option"
  CA_max :: "real option"
  Tperm :: "real option"
  Tocup :: "real option"
  Npav_bas :: "int option"
  Npav_max :: "int option"
  Gab_bas :: "real option"
  Gab_max :: "real option"
  extras :: "(string \<times> json_valor) list"

section \<open>The resolver (zoneamento_resolvedor.py)\<close>

text \<open>
  Record fields carry a short prefix of their record (\<open>za_\<close>, \<open>zr_\<close>, \<open>rz_\<close>, \<open>rg_\<close>)
  where the source reuses a field name in several classes.
\<close>

record ZonaAplicada =
  za_codigo :: string
  za_tipo :: string
  za_area_m2 :: real
  za_percentual_area :: real
  za_parametros :: "ParametrosZona option"
  za_notas :: "string list"
  za_origem :: string

text \<open>
  The messages collected in \<open>ResultadoZoneamento.mensagens\<close>: fixed sentences and
  f-strings, one constructor each, with the interpolated values.
\<close>

datatype mensagem =
    MsgCamadaZoneamentoNaoEncontrada
  | MsgLoteNaoIntersecta
  | MsgFalhaTestadas
  | MsgNotasAplicadas "string list"
  | MsgMotivo string
  | MsgRegimeRegra string
  | MsgParametrosNaoEncontrados string
  | MsgSemZonaReferencia
  | MsgAppPorInclinacao
  | MsgErroInclinacao

record ResultadoZoneamento =
  rz_zona :: "string option"
  rz_macrozona :: "string option"
  rz_eixos :: "string list"
  rz_especiais :: "string list"
  rz_mensagens :: "mensagem list"

record ResultadoZoneamentoGeom =
  rg_zonas :: "string list"
  rg_areas_por_zona :: "(string \<times> real) list"
  rg_area_total_zoneada :: real
  rg_percentuais :: "(string \<times> real) list"

datatype resumo_parte =
    ResumoSemZoneamento
  | ResumoNota10
  | ResumoNota37
  | ResumoEspeciais "string list"
  | ResumoEixos "string list"
  | ResumoAmbientais "string list"
  | ResumoMacrosUrbanas "string list"
  | ResumoOrdinariasEquivalentes
  | ResumoCoexistenciaSimples
  | ResumoZonaReferencia string

datatype observacao_resolvedor = ObsMuisMeu

record ZonaResolvida =
  zr_zonas_aplicadas :: "ZonaAplicada list"
  zr_notas_ativas :: "string list"
  zr_tipo_regra :: string
  zr_resumo :: "resumo_parte list"
  zr_observacoes :: "observacao_resolvedor list"
  zr_macrozona :: "string option"
  zr_eixos :: "string list"
  zr_especiais :: "string list"
  zr_zona_principal :: "string option"
  zr_zonas_incidentes :: "string list"
  zr_parametros :: "ParametrosZona option"
  zr_motivo :: string

text \<open>The tuple returned by \<open>_resolver_sobreposicoes\<close>.\<close>

record Sobreposicoes =
  sb_info_zonas :: "ZonaAplicada list"
  sb_notas_ativas :: "string list"
  sb_tipo_regra :: string
  sb_resumo :: "resumo_parte list"
  sb_observacoes :: "observacao_resolvedor list"
  sb_zona_referencia :: "string option"

definition classificar_zona :: "string \<Rightarrow> string" where
  "classificar_zona cdg =
     (if cdg = [] then ''ORDINARIA''
      else let cod = upper (strip cdg) in
        if startswith cod ''ZE'' then ''ESPECIAL''
        else if startswith cod ''EU'' \<or> startswith cod ''EIXO'' then ''EIXO''
        else if startswith cod ''MUPA'' \<or> startswith cod ''MRO'' \<or> startswith cod ''MRPA''
          then ''AMBIENTAL''
        else if startswith cod ''MUQ'' \<or> startswith cod ''MUO'' \<or> startswith cod ''MUCON''
                \<or> cod = ''MEU'' \<or> cod = ''MUIS''
          then ''MACRO''
        else if startswith cod ''MACRO'' \<or> startswith cod ''MZ'' then ''MACRO''
        else ''ORDINARIA'')"

definition eh_macro_coexistencia :: "string \<Rightarrow> bool" where
  "eh_macro_coexistencia cod =
     (let c = upper cod in
      startswith c ''MUQ'' \<or> startswith c ''MUO'' \<or> startswith c ''MUCON''
        \<or> c = ''MEU'' \<or> c = ''MUIS'')"

text \<open>
  \<open>max(zs, key=lambda z: z.area_m2)\<close>: the first element of largest area. On the empty
  list Python raises; here that is \<open>None\<close>, and every call below is guarded by a test
  that the list is not empty.
\<close>

fun max_area_laco :: "ZonaAplicada \<Rightarrow> ZonaAplicada list \<Rightarrow> ZonaAplicada" where
  "max_area_laco melhor [] = melhor"
| "max_area_laco melhor (z # zs) =
     (if za_area_m2 z > za_area_m2 melhor then max_area_laco z zs else max_area_laco melhor zs)"

definition max_area :: "ZonaAplicada list \<Rightarrow> ZonaAplicada option" where
  "max_area zs = (case zs of [] \<Rightarrow> None | z # zs' \<Rightarrow> Some (max_area_laco z zs'))"

definition zona_aplicada ::
  "(string \<rightharpoonup> real) \<Rightarrow> real \<Rightarrow> string list \<Rightarrow> string \<Rightarrow> ZonaAplicada" where
  "zona_aplicada zonas_areas area_total_incidente notas_ativas z =
     (let area = get0 zonas_areas z;
          nota10 = (z = ''ZEOT2'' \<and> ''10'' \<in> set notas_ativas);
          nota37 = (z = ''MUQ3'' \<and> ''37'' \<in> set notas_ativas)
      in \<lparr>za_codigo = z,
          za_tipo = classificar_zona z,
          za_area_m2 = area,
          za_percentual_area =
            (if area_total_incidente > 0 then area / area_total_incidente * 100 else 0),
          za_parametros = None,
          za_notas = (if nota10 then [''10''] else []) @ (if nota37 then [''37''] else []),
          za_origem = (if nota37 then ''NOTA37'' else if nota10 then ''NOTA10''
                       else ''INTERSECCAO'')\<rparr>)"

text \<open>
  Step 3.6: the two largest areas among the ordinary zones, by a stable sort on
  descending area, differ by less than 5% of the total incident area.
\<close>

definition ordinarias_equivalentes :: "ZonaAplicada list \<Rightarrow> real \<Rightarrow> bool" where
  "ordinarias_equivalentes zonas_ordinarias area_total_incidente =
     (case sort_key (\<lambda>z. - za_area_m2 z) zonas_ordinarias of
        z0 # z1 # _ \<Rightarrow>
          area_total_incidente > 0 \<and>
          \<bar>za_area_m2 z0 - za_area_m2 z1\<bar> / area_total_incidente < 5 / 100
      | _ \<Rightarrow> False)"

text \<open>
  The mutable locals of \<open>_resolver_sobreposicoes\<close> that the numbered steps 3.1 to 3.8
  update: \<open>resumo_parts\<close>, \<open>tipo_regra\<close> and \<open>zona_referencia\<close>. Each step is a function
  on this state; \<open>info_zonas\<close> is fixed once step 2 has built it.
\<close>

record estado_resolucao =
  er_resumo :: "resumo_parte list"
  er_tipo :: string
  er_zona_ref :: "string option"

text \<open>Step 1: the notes 10 and 37, from the initial state.\<close>

definition passo_notas :: "bool \<Rightarrow> bool \<Rightarrow> estado_resolucao" where
  "passo_notas nota10_ativada nota37_ativada =
     (let resumo = (if nota10_ativada then [ResumoNota10] else []);
          tipo = (if nota10_ativada then ''NOTA_10_ZEOT2'' else ''COEXISTENCIA_SIMPLES'');
          zona_ref = (if nota10_ativada then Some ''ZEOT2'' else None)
      in if nota37_ativada then
           \<lparr>er_resumo = resumo @ [ResumoNota37],
            er_tipo = (if tipo = ''NOTA_10_ZEOT2'' then ''NOTAS_10_E_37'' else ''NOTA_37_MUQ3''),
            er_zona_ref = (if zona_ref = None then Some ''MUQ3'' else zona_ref)\<rparr>
         else \<lparr>er_resumo = resumo, er_tipo = tipo, er_zona_ref = zona_ref\<rparr>)"

text \<open>Step 3.1: special zones.\<close>

definition passo_especiais :: "ZonaAplicada list \<Rightarrow> estado_resolucao \<Rightarrow> estado_resolucao" where
  "passo_especiais info_zonas st =
     (let zonas_esp = filter (\<lambda>z. za_tipo z = ''ESPECIAL'') info_zonas in
      if zonas_esp \<noteq> [] then
        (let st = st\<lparr>er_resumo := er_resumo st @ [ResumoEspeciais (map za_codigo zonas_esp)]\<rparr> in
         if er_zona_ref st = None then
           st\<lparr>er_zona_ref := map_option za_codigo (max_area zonas_esp),
              er_tipo := (if er_tipo st = ''COEXISTENCIA_SIMPLES'' then ''ESPECIAL_PREDOMINANTE''
                          else er_tipo st)\<rparr>
         else st)
      else st)"

text \<open>Step 3.2: axes and semi-axes.\<close>

definition passo_eixos :: "ZonaAplicada list \<Rightarrow> estado_resolucao \<Rightarrow> estado_resolucao" where
  "passo_eixos info_zonas st =
     (let zonas_eixos = filter (\<lambda>z. za_tipo z = ''EIXO'') info_zonas in
      if zonas_eixos \<noteq> [] then
        (let st = st\<lparr>er_resumo := er_resumo st @ [ResumoEixos (map za_codigo zonas_eixos)]\<rparr>;
             st = (if er_zona_ref st = None
                   then st\<lparr>er_zona_ref := map_option za_codigo (max_area zonas_eixos)\<rparr>
                   else st)
         in if er_tipo st = ''COEXISTENCIA_SIMPLES'' then st\<lparr>er_tipo := ''EIXOS_COEXISTENTES''\<rparr>
            else st)
      else st)"

text \<open>Step 3.3: environmental macrozones.\<close>

definition passo_ambientais :: "ZonaAplicada list \<Rightarrow> estado_resolucao \<Rightarrow> estado_resolucao" where
  "passo_ambientais info_zonas st =
     (let zonas_ambientais = filter (\<lambda>z. za_tipo z = ''AMBIENTAL'') info_zonas in
      if zonas_ambientais \<noteq> []
      then st\<lparr>er_resumo := er_resumo st @ [ResumoAmbientais (map za_codigo zonas_ambientais)]\<rparr>
      else st)"

text \<open>Step 3.4: urban macrozones in coexistence.\<close>

definition passo_macros_urbanas :: "ZonaAplicada list \<Rightarrow> estado_resolucao \<Rightarrow> estado_resolucao" where
  "passo_macros_urbanas info_zonas st =
     (let macros_coexistentes = filter (\<lambda>z. eh_macro_coexistencia (za_codigo z)) info_zonas in
      if length macros_coexistentes > 1 then
        (let st = st\<lparr>er_resumo :=
                        er_resumo st @ [ResumoMacrosUrbanas (map za_codigo macros_coexistentes)]\<rparr>
         in if er_tipo st \<in> set [''COEXISTENCIA_SIMPLES'', ''EIXOS_COEXISTENTES'']
            then st\<lparr>er_tipo := ''COEXISTENCIA_MACROS_URBANAS''\<rparr> else st)
      else st)"

text \<open>Step 3.6: several ordinary zones of equivalent area.\<close>

definition passo_ordinarias ::
  "ZonaAplicada list \<Rightarrow> real \<Rightarrow> estado_resolucao \<Rightarrow> estado_resolucao" where
  "passo_ordinarias info_zonas area_total_incidente st =
     (let zonas_esp = filter (\<lambda>z. za_tipo z = ''ESPECIAL'') info_zonas;
          zonas_eixos = filter (\<lambda>z. za_tipo z = ''EIXO'') info_zonas;
          zonas_macro = filter (\<lambda>z. za_tipo z = ''MACRO'') info_zonas;
          zonas_ordinarias = filter (\<lambda>z. za_tipo z = ''ORDINARIA'') info_zonas
      in
      if zonas_eixos = [] \<and> zonas_esp = [] \<and> zonas_macro = [] \<and> length zonas_ordinarias > 1
         \<and> ordinarias_equivalentes zonas_ordinarias area_total_incidente
      then
        (let st = st\<lparr>er_resumo := er_resumo st @ [ResumoOrdinariasEquivalentes]\<rparr> in
         if er_tipo st = ''COEXISTENCIA_SIMPLES''
         then st\<lparr>er_tipo := ''COEXISTENCIA_ORDINARIAS_EQUIVALENTES''\<rparr> else st)
      else st)"

text \<open>Step 3.7: nothing was said so far.\<close>

definition passo_coexistencia_simples :: "estado_resolucao \<Rightarrow> estado_resolucao" where
  "passo_coexistencia_simples st =
     (if er_resumo st = [] then st\<lparr>er_resumo := [ResumoCoexistenciaSimples]\<rparr> else st)"

text \<open>
  Step 3.8: with no reference zone yet, the zone of largest area, the environmental ones
  left aside unless there is no other.
\<close>

definition passo_zona_predominante ::
  "ZonaAplicada list \<Rightarrow> estado_resolucao \<Rightarrow> estado_resolucao" where
  "passo_zona_predominante info_zonas st =
     (if er_zona_ref st = None \<and> info_zonas \<noteq> [] then
        (let candidatos = filter (\<lambda>z. za_tipo z \<noteq> ''AMBIENTAL'') info_zonas;
             candidatos = (if candidatos = [] then info_zonas else candidatos);
             zona_ref = map_option za_codigo (max_area candidatos)
         in \<lparr>er_resumo = er_resumo st @ (case zona_ref of Some z \<Rightarrow> [ResumoZonaReferencia z]
                                                            | None \<Rightarrow> []),
             er_tipo = (if er_tipo st = ''COEXISTENCIA_SIMPLES'' then ''ZONA_PREDOMINANTE''
                        else er_tipo st),
             er_zona_ref = zona_ref\<rparr>)
      else st)"

text \<open>Step 3.5 only writes to \<open>observacoes\<close>.\<close>

definition observacoes_muis_meu :: "ZonaAplicada list \<Rightarrow> observacao_resolvedor list" where
  "observacoes_muis_meu info_zonas =
     (let codigos_presentes = map (\<lambda>z. upper (za_codigo z)) info_zonas in
      if ''MUIS'' \<in> set codigos_presentes \<and> ''MEU'' \<in> set codigos_presentes
      then [ObsMuisMeu] else [])"

definition resolver_sobreposicoes ::
  "string list \<Rightarrow> (string \<rightharpoonup> real) \<Rightarrow> ResultadoZoneamento \<Rightarrow> bool \<Rightarrow> bool \<Rightarrow> Sobreposicoes" where
  "resolver_sobreposicoes zonas_incidentes zonas_areas res_zon nota10_ativada nota37_ativada =
     (let zonas = filter (\<lambda>z. z \<noteq> []) zonas_incidentes in
      if zonas = [] then
        \<lparr>sb_info_zonas = [], sb_notas_ativas = [], sb_tipo_regra = ''SEM_ZONEAMENTO'',
         sb_resumo = [ResumoSemZoneamento], sb_observacoes = [], sb_zona_referencia = None\<rparr>
      else
        (let zonas_set = zonas @ filter (\<lambda>z. z \<noteq> []) (rz_eixos res_zon)
                               @ filter (\<lambda>z. z \<noteq> []) (rz_especiais res_zon)
                               @ (if nota10_ativada then [''ZEOT2''] else [])
                               @ (if nota37_ativada then [''MUQ3''] else []);
             notas_ativas = (if nota10_ativada then [''10''] else [])
                              @ (if nota37_ativada then [''37''] else []);
             st = passo_notas nota10_ativada nota37_ativada;
             zonas_ordenadas = sorted_set zonas_set;
             area_total_incidente = sum_list (map (get0 zonas_areas) zonas_ordenadas);
             info_zonas = map (zona_aplicada zonas_areas area_total_incidente notas_ativas)
                              zonas_ordenadas;
             st = passo_especiais info_zonas st;
             st = passo_eixos info_zonas st;
             st = passo_ambientais info_zonas st;
             st = passo_macros_urbanas info_zonas st;
             observacoes = observacoes_muis_meu info_zonas;
             st = passo_ordinarias info_zonas area_total_incidente st;
             st = passo_coexistencia_simples st;
             st = passo_zona_predominante info_zonas st
         in \<lparr>sb_info_zonas = info_zonas, sb_notas_ativas = notas_ativas,
             sb_tipo_regra = er_tipo st, sb_resumo = er_resumo st,
             sb_observacoes = observacoes, sb_zona_referencia = er_zona_ref st\<rparr>))"

text \<open>
  The public method \<open>resolver\<close>; \<open>parametros_por_zona\<close> is the table the constructor
  loaded.
\<close>

definition resolver ::
  "(string \<rightharpoonup> ParametrosZona) \<Rightarrow> ResultadoZoneamento \<Rightarrow> ResultadoZoneamentoGeom
     \<Rightarrow> bool \<Rightarrow> bool \<Rightarrow> ZonaResolvida" where
  "resolver parametros_por_zona res_zon res_geom nota10_ativada nota37_ativada =
     (let zonas_incidentes = rg_zonas res_geom;
          zonas_areas = map_of (rg_areas_por_zona res_geom);
          acrescenta = (case rz_zona res_zon of
                          Some z \<Rightarrow> z \<noteq> [] \<and> z \<notin> set zonas_incidentes
                        | None \<Rightarrow> False);
          zonas_incidentes = (if acrescenta then zonas_incidentes @ [the (rz_zona res_zon)]
                              else zonas_incidentes);
          zonas_areas = (if acrescenta \<and> zonas_areas (the (rz_zona res_zon)) = None
                         then zonas_areas(the (rz_zona res_zon) \<mapsto> 0) else zonas_areas);
          sb = resolver_sobreposicoes zonas_incidentes zonas_areas res_zon
                 nota10_ativada nota37_ativada;
          zonas_aplicadas =
            map (\<lambda>za. case parametros_por_zona (za_codigo za) of
                         Some param \<Rightarrow> za\<lparr>za_parametros := Some param\<rparr>
                       | None \<Rightarrow> za) (sb_info_zonas sb);
          zona_principal_legado = sb_zona_referencia sb;
          parametros_legado = (case zona_principal_legado of
                                 Some z \<Rightarrow> (if z \<noteq> [] then parametros_por_zona z else None)
                               | None \<Rightarrow> None)
      in \<lparr>zr_zonas_aplicadas = zonas_aplicadas,
          zr_notas_ativas = sb_notas_ativas sb,
          zr_tipo_regra = sb_tipo_regra sb,
          zr_resumo = sb_resumo sb,
          zr_observacoes = sb_observacoes sb,
          zr_macrozona = rz_macrozona res_zon,
          zr_eixos = map za_codigo (filter (\<lambda>z. za_tipo z = ''EIXO'') zonas_aplicadas),
          zr_especiais = map za_codigo (filter (\<lambda>z. za_tipo z = ''ESPECIAL'') zonas_aplicadas),
          zr_zona_principal = zona_principal_legado,
          zr_zonas_incidentes = sorted_set (map za_codigo zonas_aplicadas),
          zr_parametros = parametros_legado,
          zr_motivo = []\<rparr>)"

subsection \<open>Names for the intermediate values of the resolver\<close>

text \<open>The reference zone of a state, when there is one, is the code of a listed zone.\<close>

definition ref_em :: "ZonaAplicada list \<Rightarrow> estado_resolucao \<Rightarrow> bool" where
  "ref_em info st = (case er_zona_ref st of None \<Rightarrow> True | Some z \<Rightarrow> z \<in> za_codigo ` set info)"

text \<open>The resolver on a non-empty list of incident zones, with its steps named.\<close>

definition zonas_do_resolvedor :: "string list \<Rightarrow> ResultadoZoneamento \<Rightarrow> bool \<Rightarrow> bool \<Rightarrow> string list" where
  "zonas_do_resolvedor zi rz n10 n37 =
     filter (\<lambda>z. z \<noteq> []) zi @ filter (\<lambda>z. z \<noteq> []) (rz_eixos rz)
       @ filter (\<lambda>z. z \<noteq> []) (rz_especiais rz)
       @ (if n10 then [''ZEOT2''] else []) @ (if n37 then [''MUQ3''] else [])"

definition info_do_resolvedor ::
  "string list \<Rightarrow> (string \<rightharpoonup> real) \<Rightarrow> ResultadoZoneamento \<Rightarrow> bool \<Rightarrow> bool \<Rightarrow> ZonaAplicada list" where
  "info_do_resolvedor zi za rz n10 n37 =
     map (zona_aplicada za
            (sum_list (map (get0 za) (sorted_set (zonas_do_resolvedor zi rz n10 n37))))
            ((if n10 then [''10''] else []) @ (if n37 then [''37''] else [])))
         (sorted_set (zonas_do_resolvedor zi rz n10 n37))"

definition estado_final ::
  "string list \<Rightarrow> (string \<rightharpoonup> real) \<Rightarrow> ResultadoZoneamento \<Rightarrow> bool \<Rightarrow> bool \<Rightarrow> estado_resolucao" where
  "estado_final zi za rz n10 n37 =
     (let info = info_do_resolvedor zi za rz n10 n37;
          total = sum_list (map (get0 za) (sorted_set (zonas_do_resolvedor zi rz n10 n37)))
      in passo_zona_predominante info (passo_coexistencia_simples
           (passo_ordinarias info total (passo_macros_urbanas info (passo_ambientais info
             (passo_eixos info (passo_especiais info (passo_notas n10 n37))))))))"

section \<open>Compliance evaluation (regras_zoneamento.py)\<close>

text \<open>The exceptions of the Python code that the models below return as values.\<close>

datatype erro = ValueError | NameError | ZeroDivisionError

text \<open>
  The five quantities \<open>avaliar_edificacao_na_zona\<close> checks, each from an optional argument
  of the scenario.
\<close>

datatype campo = CampoCA | CampoTocup | CampoTperm | CampoNpav | CampoGab

text \<open>
  The texts of \<open>pendencias\<close> are f-strings: one constructor per sentence, with the realised
  value, the zone's bound and the zone code that the sentence interpolates. The texts of
  \<open>observacoes\<close> are five fixed sentences, one per quantity that was not evaluated.
\<close>

datatype pendencia =
    PendCAInferior real real string
  | PendCASuperior real real string
  | PendTocupSuperior real real string
  | PendTpermInferior real real string
  | PendNpavSuperior int int string
  | PendGabSuperior real real string

datatype observacao = NaoAvaliado campo

text \<open>The quantity a violation text is about.\<close>

fun campo_da_pendencia :: "pendencia \<Rightarrow> campo" where
  "campo_da_pendencia (PendCAInferior _ _ _) = CampoCA"
| "campo_da_pendencia (PendCASuperior _ _ _) = CampoCA"
| "campo_da_pendencia (PendTocupSuperior _ _ _) = CampoTocup"
| "campo_da_pendencia (PendTpermInferior _ _ _) = CampoTperm"
| "campo_da_pendencia (PendNpavSuperior _ _ _) = CampoNpav"
| "campo_da_pendencia (PendGabSuperior _ _ _) = CampoGab"

record ResultadoAvaliacaoZona =
  av_zona :: string
  av_parametros :: ParametrosZona
  av_conforme :: bool
  av_pendencias :: "pendencia list"
  av_observacoes :: "observacao list"
  av_valores_calculados :: "(string \<times> real) list"

text \<open>
  Each block of the function appends to \<open>pendencias\<close>, \<open>observacoes\<close> and \<open>valores\<close>; a block
  is modelled by the triple of what it appends, and the function concatenates the blocks
  in source order.
\<close>

type_synonym bloco = "pendencia list \<times> observacao list \<times> (string \<times> real) list"

definition bloco_ca :: "string \<Rightarrow> ParametrosZona \<Rightarrow> real \<Rightarrow> real option \<Rightarrow> bloco" where
  "bloco_ca zona parametros area_lote_m2 area_construida_total_m2 =
     (case area_construida_total_m2 of
        Some area_construida \<Rightarrow>
          (let ca_real = area_construida / area_lote_m2 in
           ((case CA_min parametros of
               Some ca_min \<Rightarrow> (if ca_real < ca_min - 1 / 1000000
                               then [PendCAInferior ca_real ca_min zona] else [])
             | None \<Rightarrow> [])
            @ (case CA_max parametros of
                 Some ca_max \<Rightarrow> (if ca_real > ca_max + 1 / 1000000
                                 then [PendCASuperior ca_real ca_max zona] else [])
               | None \<Rightarrow> []),
            [], [(''CA_real'', ca_real)]))
      | None \<Rightarrow> ([], [NaoAvaliado CampoCA], []))"

definition bloco_tocup :: "string \<Rightarrow> ParametrosZona \<Rightarrow> real \<Rightarrow> real option \<Rightarrow> bloco" where
  "bloco_tocup zona parametros area_lote_m2 area_ocupada_projecao_m2 =
     (case area_ocupada_projecao_m2 of
        Some area_ocupada \<Rightarrow>
          (let tocup_real = area_ocupada / area_lote_m2 in
           ((case Tocup parametros of
               Some tocup \<Rightarrow> (if tocup_real > tocup + 1 / 1000000
                              then [PendTocupSuperior tocup_real tocup zona] else [])
             | None \<Rightarrow> []),
            [], [(''Tocup_real'', tocup_real)]))
      | None \<Rightarrow> ([], [NaoAvaliado CampoTocup], []))"

definition bloco_tperm :: "string \<Rightarrow> ParametrosZona \<Rightarrow> real \<Rightarrow> real option \<Rightarrow> bloco" where
  "bloco_tperm zona parametros area_lote_m2 area_permeavel_m2 =
     (case area_permeavel_m2 of
        Some area_permeavel \<Rightarrow>
          (let tperm_real = area_permeavel / area_lote_m2 in
           ((case Tperm parametros of
               Some tperm \<Rightarrow> (if tperm_real + 1 / 1000000 < tperm
                              then [PendTpermInferior tperm_real tperm zona] else [])
             | None \<Rightarrow> []),
            [], [(''Tperm_real'', tperm_real)]))
      | None \<Rightarrow> ([], [NaoAvaliado CampoTperm], []))"

definition bloco_npav :: "string \<Rightarrow> ParametrosZona \<Rightarrow> int option \<Rightarrow> bloco" where
  "bloco_npav zona parametros numero_pavimentos =
     (case numero_pavimentos of
        Some npav \<Rightarrow>
          ((case Npav_max parametros of
              Some npav_max \<Rightarrow> (if npav > npav_max
                                then [PendNpavSuperior npav npav_max zona] else [])
            | None \<Rightarrow> []),
           [], [(''Npav_real'', of_int npav)])
      | None \<Rightarrow> ([], [NaoAvaliado CampoNpav], []))"

definition bloco_gab :: "string \<Rightarrow> ParametrosZona \<Rightarrow> real option \<Rightarrow> bloco" where
  "bloco_gab zona parametros altura_maxima_m =
     (case altura_maxima_m of
        Some altura \<Rightarrow>
          ((case Gab_max parametros of
              Some gab_max \<Rightarrow> (if altura > gab_max + 1 / 100
                               then [PendGabSuperior altura gab_max zona] else [])
            | None \<Rightarrow> []),
           [], [(''Gab_real'', altura)])
      | None \<Rightarrow> ([], [NaoAvaliado CampoGab], []))"

definition avaliar_edificacao_na_zona ::
  "string \<Rightarrow> ParametrosZona \<Rightarrow> real \<Rightarrow> real option \<Rightarrow> real option \<Rightarrow> real option
     \<Rightarrow> real option \<Rightarrow> int option \<Rightarrow> erro + ResultadoAvaliacaoZona" where
  "avaliar_edificacao_na_zona zona parametros area_lote_m2 area_construida_total_m2
       area_ocupada_projecao_m2 area_permeavel_m2 altura_maxima_m numero_pavimentos =
     (if area_lote_m2 \<le> 0 then Inl ValueError
      else
        (let blocos = [bloco_ca zona parametros area_lote_m2 area_construida_total_m2,
                       bloco_tocup zona parametros area_lote_m2 area_ocupada_projecao_m2,
                       bloco_tperm zona parametros area_lote_m2 area_permeavel_m2,
                       bloco_npav zona parametros numero_pavimentos,
                       bloco_gab zona parametros altura_maxima_m];
             pendencias = concat (map fst blocos);
             observacoes = concat (map (fst \<circ> snd) blocos);
             valores = concat (map (snd \<circ> snd) blocos)
         in Inr \<lparr>av_zona = zona, av_parametros = parametros,
                 av_conforme = (length pendencias = 0),
                 av_pendencias = pendencias, av_observacoes = observacoes,
                 av_valores_calculados = valores\<rparr>))"

text \<open>Which optional argument feeds which quantity.\<close>

fun campo_omitido ::
  "real option \<Rightarrow> real option \<Rightarrow> real option \<Rightarrow> real option \<Rightarrow> int option \<Rightarrow> campo \<Rightarrow> bool" where
  "campo_omitido ac ao ap alt np CampoCA = (ac = None)"
| "campo_omitido ac ao ap alt np CampoTocup = (ao = None)"
| "campo_omitido ac ao ap alt np CampoTperm = (ap = None)"
| "campo_omitido ac ao ap alt np CampoNpav = (np = None)"
| "campo_omitido ac ao ap alt np CampoGab = (alt = None)"

section \<open>Loading the parameter table (regras_zoneamento.py)\<close>

text \<open>
  Python's \<open>float\<close> and \<open>int\<close> on a string, for strings over the digits, a sign, the point
  and surrounding white space: an optional sign, then digits with an optional point. The
  result is the exact decimal value (the rounding to a binary float is not modelled);
  \<open>None\<close> is the \<open>ValueError\<close>. Exponents, \<open>inf\<close>, \<open>nan\<close> and underscores between digits
  are outside this model.
\<close>

definition eh_digito :: "char \<Rightarrow> bool" where
  "eh_digito c = (c \<in> set ''0123456789'')"

definition valor_digito :: "char \<Rightarrow> nat" where
  "valor_digito c = of_char c - 48"

definition nat_de_digitos :: "string \<Rightarrow> nat" where
  "nat_de_digitos ds = foldl (\<lambda>n c. 10 * n + valor_digito c) 0 ds"

definition valor_decimal :: "string \<Rightarrow> string \<Rightarrow> real" where
  "valor_decimal inteiros fracao =
     of_nat (nat_de_digitos inteiros) + of_nat (nat_de_digitos fracao) / 10 ^ length fracao"

definition separar_sinal :: "string \<Rightarrow> real \<times> string" where
  "separar_sinal t =
     (case t of
        c # u \<Rightarrow> (if c = CHR ''-'' then (- 1, u) else if c = CHR ''+'' then (1, u) else (1, t))
      | [] \<Rightarrow> (1, t))"

definition py_float :: "string \<Rightarrow> real option" where
  "py_float s =
     (let (sinal, u) = separar_sinal (strip s);
          inteiros = takeWhile eh_digito u;
          resto = dropWhile eh_digito u
      in case resto of
           [] \<Rightarrow> (if inteiros \<noteq> [] then Some (sinal * valor_decimal inteiros []) else None)
         | c # fracao \<Rightarrow>
             (if c = CHR ''.'' \<and> list_all eh_digito fracao \<and> (inteiros \<noteq> [] \<or> fracao \<noteq> [])
              then Some (sinal * valor_decimal inteiros fracao) else None))"

definition py_int_str :: "string \<Rightarrow> erro + int" where
  "py_int_str s =
     (let (sinal, u) = separar_sinal (strip s) in
      if u \<noteq> [] \<and> list_all eh_digito u
      then Inr ((if sinal < 0 then - 1 else 1) * int (nat_de_digitos u))
      else Inl ValueError)"

text \<open>\<open>int\<close> on a value of the JSON: a number is truncated towards zero.\<close>

definition py_int :: "json_valor \<Rightarrow> erro + int" where
  "py_int v =
     (case v of
        JNum x \<Rightarrow> Inr (if 0 \<le> x then \<lfloor>x\<rfloor> else \<lceil>x\<rceil>)
      | JStr s \<Rightarrow> py_int_str s
      | JNull \<Rightarrow> Inl ValueError)"

text \<open>
  The inner function \<open>_conv\<close>, applied to \<open>indices.get(campo)\<close>: on a string, strip, drop
  every point, turn every comma into a point, then \<open>float\<close>, with \<open>None\<close> when that fails;
  any other value is returned as it is.
\<close>

definition conv :: "json_valor option \<Rightarrow> real option" where
  "conv valor =
     (case valor of
        Some (JStr s) \<Rightarrow>
          py_float (map (\<lambda>c. if c = CHR '','' then CHR ''.'' else c)
                        (filter (\<lambda>c. c \<noteq> CHR ''.'') (strip s)))
      | Some (JNum x) \<Rightarrow> Some x
      | Some JNull \<Rightarrow> None
      | None \<Rightarrow> None)"

text \<open>The two story counts go through \<open>int\<close>, not through \<open>_conv\<close>.\<close>

definition conv_npav :: "json_valor option \<Rightarrow> erro + int option" where
  "conv_npav valor =
     (case valor of
        None \<Rightarrow> Inr None
      | Some JNull \<Rightarrow> Inr None
      | Some v \<Rightarrow> (case py_int v of Inl e \<Rightarrow> Inl e | Inr n \<Rightarrow> Inr (Some n)))"

definition CAMPOS_INDICES :: "string list" where
  "CAMPOS_INDICES = [''CA_min'', ''CA_bas'', ''CA_max'', ''Tperm'', ''Tocup'',
                     ''Npav_bas'', ''Npav_max'', ''Gab_bas'', ''Gab_max'']"

text \<open>
  The body of the loop of \<open>carregar_parametros_de_arquivo\<close> for one zone: \<open>indices\<close> is the
  JSON object as an association list with distinct keys.
\<close>

definition parametros_de_indices ::
  "string \<Rightarrow> (string \<times> json_valor) list \<Rightarrow> erro + ParametrosZona" where
  "parametros_de_indices cdg indices =
     (case conv_npav (map_of indices ''Npav_bas'') of
        Inl e \<Rightarrow> Inl e
      | Inr npav_bas \<Rightarrow>
          (case conv_npav (map_of indices ''Npav_max'') of
             Inl e \<Rightarrow> Inl e
           | Inr npav_max \<Rightarrow>
               Inr \<lparr>codigo = cdg,
                    CA_min = conv (map_of indices ''CA_min''),
                    CA_bas = conv (map_of indices ''CA_bas''),
                    CA_max = conv (map_of indices ''CA_max''),
                    Tperm = conv (map_of indices ''Tperm''),
                    Tocup = conv (map_of indices ''Tocup''),
                    Npav_bas = npav_bas,
                    Npav_max = npav_max,
                    Gab_bas = conv (map_of indices ''Gab_bas''),
                    Gab_max = conv (map_of indices ''Gab_max''),
                    extras = filter (\<lambda>(k, v). k \<notin> set CAMPOS_INDICES) indices\<rparr>))"

text \<open>
  \<open>carregar_parametros_de_arquivo\<close> on the parsed JSON: for each zone code its \<open>indices\<close>
  object, \<open>None\<close> when the key is absent or the object is empty or null. An exception in
  one zone ends the load.
\<close>

fun carregar_parametros ::
  "(string \<times> (string \<times> json_valor) list option) list \<Rightarrow> (string \<rightharpoonup> ParametrosZona)
     \<Rightarrow> erro + (string \<rightharpoonup> ParametrosZona)" where
  "carregar_parametros [] parametros_por_zona = Inr parametros_por_zona"
| "carregar_parametros ((cdg, dados) # bruto) parametros_por_zona =
     (case parametros_de_indices cdg (case dados of Some indices \<Rightarrow> indices | None \<Rightarrow> []) of
        Inl e \<Rightarrow> Inl e
      | Inr p \<Rightarrow> carregar_parametros bruto (parametros_por_zona(cdg \<mapsto> p)))"

definition carregar_parametros_de_arquivo ::
  "(string \<times> (string \<times> json_valor) list option) list \<Rightarrow> erro + (string \<rightharpoonup> ParametrosZona)" where
  "carregar_parametros_de_arquivo bruto = carregar_parametros bruto Map.empty"

subsection \<open>Numbers written with points and a comma\<close>





section \<open>Geometries and layers of the host (QGIS)\<close>

text \<open>
  The geometry library is outside the repository. A parcel geometry is modelled by what
  the code reads from it: whether it is empty, its rings (\<open>asPolygon\<close>, or
  \<open>asMultiPolygon\<close> for a multipart geometry) and its \<open>contains\<close> test on points.
  Coordinates and lengths are reals.
\<close>

type_synonym ponto = "real \<times> real"

datatype forma = Poligono "ponto list list" | MultiPoligono "ponto list list list"

record Geometria =
  g_vazia :: bool
  g_forma :: forma
  g_contem :: "ponto \<Rightarrow> bool"

text \<open>
  A vector layer: its field names and its features. A layer object that is not a
  \<open>QgsVectorLayer\<close> is \<open>NaoVetorial\<close>; \<open>obter_camada\<close> returns \<open>None\<close> for a role
  that was never registered.
\<close>

record 'f CamadaVetorial =
  cv_campos :: "string list"
  cv_feicoes :: "'f list"

datatype 'f camada = Vetorial "'f CamadaVetorial" | NaoVetorial

section \<open>Zone decomposition (zoneamento_lote.py)\<close>

text \<open>
  A zoning feature, as the loop of \<open>calcular_zoneamento_incidente\<close> sees it against the
  parcel: whether its geometry is missing or empty, whether it intersects the parcel,
  whether the intersection is empty, the area of the intersection, and \<open>str\<close> of its
  attribute in a given field.
\<close>

record FeicaoZona =
  fz_geom_vazia :: bool
  fz_intersecta :: bool
  fz_inter_vazia :: bool
  fz_area_inter :: real
  fz_atributo :: "string \<Rightarrow> string"

definition CAMPOS_CODIGO_ZONA_CANDIDATOS :: "string list" where
  "CAMPOS_CODIGO_ZONA_CANDIDATOS =
     [''Zoneamento'', ''zoneamento'', ''ZONA'', ''zona'', ''ZONE'', ''zone'', ''CODIGO'',
      ''Codigo'', ''codigo'', ''COD_ZONA'', ''cod_zona'']"

definition detectar_campo_codigo_zona ::
  "FeicaoZona camada option \<Rightarrow> string option \<Rightarrow> string option" where
  "detectar_campo_codigo_zona camada_zoneamento campo_forcado =
     (case camada_zoneamento of
        None \<Rightarrow> None
      | Some NaoVetorial \<Rightarrow> None
      | Some (Vetorial cv) \<Rightarrow>
          (let nomes_campos = cv_campos cv in
           case campo_forcado of
             Some c \<Rightarrow> (if c \<noteq> [] \<and> c \<in> set nomes_campos then Some c
                        else find (\<lambda>nome. nome \<in> set nomes_campos) CAMPOS_CODIGO_ZONA_CANDIDATOS)
           | None \<Rightarrow> find (\<lambda>nome. nome \<in> set nomes_campos) CAMPOS_CODIGO_ZONA_CANDIDATOS))"

text \<open>
  The loop over the features. The dictionary \<open>areas_por_zona\<close> is an association list in
  insertion order; \<open>AList.update\<close> overwrites a key in place or appends a new one, as the
  assignment to a dictionary entry does.
\<close>

fun acumular_areas ::
  "string \<Rightarrow> FeicaoZona list \<Rightarrow> (string \<times> real) list \<Rightarrow> (string \<times> real) list" where
  "acumular_areas campo [] areas_por_zona = areas_por_zona"
| "acumular_areas campo (feat # feats) areas_por_zona =
     (if fz_geom_vazia feat then acumular_areas campo feats areas_por_zona
      else if \<not> fz_intersecta feat then acumular_areas campo feats areas_por_zona
      else if fz_inter_vazia feat then acumular_areas campo feats areas_por_zona
      else if fz_area_inter feat \<le> 0 then acumular_areas campo feats areas_por_zona
      else
        (let cod = strip (fz_atributo feat campo) in
         if cod = [] then acumular_areas campo feats areas_por_zona
         else acumular_areas campo feats
                (AList.update cod
                   ((case map_of areas_por_zona cod of Some a \<Rightarrow> a | None \<Rightarrow> 0)
                      + fz_area_inter feat)
                   areas_por_zona)))"

definition resultado_geom_vazio :: ResultadoZoneamentoGeom where
  "resultado_geom_vazio =
     \<lparr>rg_zonas = [], rg_areas_por_zona = [], rg_area_total_zoneada = 0, rg_percentuais = []\<rparr>"

definition calcular_zoneamento_incidente ::
  "Geometria option \<Rightarrow> FeicaoZona camada option \<Rightarrow> string option \<Rightarrow> ResultadoZoneamentoGeom" where
  "calcular_zoneamento_incidente lote_geom camada_zoneamento campo_codigo_zona =
     (if (case lote_geom of None \<Rightarrow> True | Some g \<Rightarrow> g_vazia g) then resultado_geom_vazio
      else case camada_zoneamento of
        None \<Rightarrow> resultado_geom_vazio
      | Some NaoVetorial \<Rightarrow> resultado_geom_vazio
      | Some (Vetorial cv) \<Rightarrow>
          (case detectar_campo_codigo_zona camada_zoneamento campo_codigo_zona of
             None \<Rightarrow> resultado_geom_vazio
           | Some campo_codigo \<Rightarrow>
               if campo_codigo \<notin> set (cv_campos cv) then resultado_geom_vazio
               else
                 (let areas_por_zona = acumular_areas campo_codigo (cv_feicoes cv) [] in
                  if areas_por_zona = [] then resultado_geom_vazio
                  else
                    (let zonas = sort (map fst areas_por_zona);
                         area_total = sum_list (map snd areas_por_zona);
                         percentuais =
                           (if area_total \<le> 0 then map (\<lambda>z. (z, 0)) zonas
                            else map (\<lambda>z. (z, (case map_of areas_por_zona z of
                                                   Some a \<Rightarrow> a | None \<Rightarrow> 0) * 100 / area_total))
                                     zonas)
                     in \<lparr>rg_zonas = zonas, rg_areas_por_zona = areas_por_zona,
                         rg_area_total_zoneada = area_total, rg_percentuais = percentuais\<rparr>))))"

section \<open>Boundary classification (testadas.py)\<close>

text \<open>
  A boundary segment is the polyline of two consecutive vertices of a ring. What the
  classifier reads from the two other layers is given with their features: for a lot, its
  \<open>contains\<close> test; for a road, whether it intersects a ray (a pair of points) and its
  distance to a point; for both, the attribute in a given field, \<open>None\<close> when the value is
  \<open>None\<close> or the field is missing (\<open>KeyError\<close>). A spatial index only preselects the
  features that the exact tests then filter, so the loops below run over the features of
  the layer, in the layer's order.
\<close>

type_synonym segmento = "ponto \<times> ponto"

record FeicaoLote =
  fl_valida :: bool
  fl_geom_vazia :: bool
  fl_contem :: "ponto \<Rightarrow> bool"
  fl_atributo :: "string \<Rightarrow> string option"

record FeicaoVia =
  fv_geom_vazia :: bool
  fv_intersecta :: "segmento \<Rightarrow> bool"
  fv_distancia :: "ponto \<Rightarrow> real"
  fv_atributo :: "string \<Rightarrow> string option"

record SegmentoTestada =
  id_segmento :: nat
  geom :: segmento
  comprimento_m :: real
  logradouro :: "string option"
  tipo_limite :: string
  confrontante :: "string option"

record ResultadoTestadas =
  segmentos :: "SegmentoTestada list"
  testadas_por_logradouro :: "(string \<times> real) list"
  confrontantes_por_proprietario :: "(string \<times> real) list"

definition DEFAULT_MAX_DIST_TESTADA_M :: real where
  "DEFAULT_MAX_DIST_TESTADA_M = 20"

text \<open>The accented candidates are written by their UTF-8 bytes.\<close>

definition CAMPOS_NOME_LOGRADOURO :: "string list" where
  "CAMPOS_NOME_LOGRADOURO =
     [''NOME'', ''nome'', ''Name'', ''NAME'', ''nm_logradouro'', ''NM_LOGRADOURO'',
      ''nm_lograd'', ''NM_LOGRAD'', ''TEXTO'', ''texto'']"

definition CAMPOS_NOME_PROPRIETARIO :: "string list" where
  "CAMPOS_NOME_PROPRIETARIO =
     [''proprietario'', ''propriet'' @ [CHR 0xC3, CHR 0xA1] @ ''rio'',
      ''PROPRIETARIO'', ''PROPRIET'' @ [CHR 0xC3, CHR 0x81] @ ''RIO'',
      ''Proprietario'', ''Propriet'' @ [CHR 0xC3, CHR 0xA1] @ ''rio'',
      ''PROPRIET'', ''propriet'']"

text \<open>
  The two field searches: the first candidate among the field names, else a field whose
  lower-cased name contains a fragment. The source runs the second search over a set of
  names; the model takes the first such field in the layer's order.
\<close>

definition achar_campo :: "string list \<Rightarrow> string \<Rightarrow> 'f camada option \<Rightarrow> string option" where
  "achar_campo candidatos fragmento camada =
     (case camada of
        None \<Rightarrow> None
      | Some NaoVetorial \<Rightarrow> None
      | Some (Vetorial cv) \<Rightarrow>
          (case find (\<lambda>candidato. candidato \<in> set (cv_campos cv)) candidatos of
             Some candidato \<Rightarrow> Some candidato
           | None \<Rightarrow> find (\<lambda>nome_campo. contem (lower nome_campo) fragmento) (cv_campos cv)))"

definition achar_campo_nome_logradouro :: "FeicaoVia camada option \<Rightarrow> string option" where
  "achar_campo_nome_logradouro camada_logradouros =
     achar_campo CAMPOS_NOME_LOGRADOURO ''nome'' camada_logradouros"

definition achar_campo_proprietario :: "FeicaoLote camada option \<Rightarrow> string option" where
  "achar_campo_proprietario camada_lotes =
     achar_campo CAMPOS_NOME_PROPRIETARIO ''propriet'' camada_lotes"

definition comprimento :: "segmento \<Rightarrow> real" where
  "comprimento seg =
     (case seg of ((x1, y1), (x2, y2)) \<Rightarrow> sqrt ((x2 - x1) * (x2 - x1) + (y2 - y1) * (y2 - y1)))"

definition ponto_medio :: "segmento \<Rightarrow> ponto" where
  "ponto_medio seg = (case seg of ((x1, y1), (x2, y2)) \<Rightarrow> ((x1 + x2) / 2, (y1 + y2) / 2))"

text \<open>
  \<open>_normal_e_ponto_fora\<close>: the unit normal that leaves the parcel and the probe point one
  unit along it from the middle of the segment; on a tie, the second candidate.
\<close>

definition normal_e_ponto_fora :: "segmento \<Rightarrow> Geometria option \<Rightarrow> (ponto \<times> ponto) option" where
  "normal_e_ponto_fora seg lote_geom =
     (case lote_geom of
        None \<Rightarrow> None
      | Some lote \<Rightarrow>
          if g_vazia lote then None
          else if comprimento seg \<le> 0 then None
          else
            (case seg of ((x1, y1), (x2, y2)) \<Rightarrow>
               let (mx, my) = ponto_medio seg;
                   dx = x2 - x1;
                   dy = y2 - y1;
                   n = sqrt (dx * dx + dy * dy)
               in if n = 0 then None
                  else
                    (let ux = dx / n; uy = dy / n;
                         (nx1, ny1) = (- uy, ux);
                         (nx2, ny2) = (uy, - ux);
                         delta = 1;
                         cand1 = (mx + nx1 * delta, my + ny1 * delta);
                         cand2 = (mx + nx2 * delta, my + ny2 * delta);
                         inside1 = g_contem lote cand1;
                         inside2 = g_contem lote cand2
                     in if inside1 \<and> \<not> inside2 then Some ((nx2, ny2), cand2)
                        else if inside2 \<and> \<not> inside1 then Some ((nx1, ny1), cand1)
                        else Some ((nx2, ny2), cand2))))"

definition ponto_cai_em_algum_lote :: "ponto \<Rightarrow> FeicaoLote camada option \<Rightarrow> bool" where
  "ponto_cai_em_algum_lote pt camada_lotes =
     (case camada_lotes of
        Some (Vetorial cv) \<Rightarrow>
          (\<exists>feat\<in>set (cv_feicoes cv). fl_valida feat \<and> \<not> fl_geom_vazia feat \<and> fl_contem feat pt)
      | _ \<Rightarrow> False)"

definition obter_confrontante_para_ponto ::
  "ponto \<Rightarrow> FeicaoLote camada option \<Rightarrow> string option \<Rightarrow> string option" where
  "obter_confrontante_para_ponto pt camada_lotes campo_proprietario =
     (case (camada_lotes, campo_proprietario) of
        (Some (Vetorial cv), Some campo) \<Rightarrow>
          (case find (\<lambda>feat. fl_valida feat \<and> \<not> fl_geom_vazia feat \<and> fl_contem feat pt
                              \<and> fl_atributo feat campo \<noteq> None) (cv_feicoes cv) of
             Some feat \<Rightarrow> fl_atributo feat campo
           | None \<Rightarrow> None)
      | _ \<Rightarrow> None)"

text \<open>The search for the nearest road that the ray meets: a strictly smaller distance wins.\<close>

fun melhor_via ::
  "segmento \<Rightarrow> ponto \<Rightarrow> FeicaoVia list \<Rightarrow> (FeicaoVia \<times> real) option
     \<Rightarrow> (FeicaoVia \<times> real) option" where
  "melhor_via raio mid [] melhor = melhor"
| "melhor_via raio mid (feat_via # vias) melhor =
     (if fv_geom_vazia feat_via then melhor_via raio mid vias melhor
      else if \<not> fv_intersecta feat_via raio then melhor_via raio mid vias melhor
      else
        (let dist = fv_distancia feat_via mid in
         case melhor of
           None \<Rightarrow> melhor_via raio mid vias (Some (feat_via, dist))
         | Some (_, melhor_dist) \<Rightarrow>
             if dist < melhor_dist then melhor_via raio mid vias (Some (feat_via, dist))
             else melhor_via raio mid vias melhor))"

definition logradouro_do_segmento ::
  "segmento \<Rightarrow> ponto \<Rightarrow> FeicaoVia camada option \<Rightarrow> real \<Rightarrow> string option" where
  "logradouro_do_segmento seg normal camada_logradouros max_dist_m =
     (case (camada_logradouros, achar_campo_nome_logradouro camada_logradouros) of
        (Some (Vetorial cv), Some campo_nome_log) \<Rightarrow>
          (let (mx, my) = ponto_medio seg;
               (nx, ny) = normal;
               raio = ((mx, my), (mx + nx * max_dist_m, my + ny * max_dist_m))
           in case melhor_via raio (mx, my) (cv_feicoes cv) None of
                Some (feat_via, _) \<Rightarrow> fv_atributo feat_via campo_nome_log
              | None \<Rightarrow> None)
      | _ \<Rightarrow> None)"

text \<open>
  The body of the main loop for the segment numbered \<open>idx_seg\<close>: \<open>None\<close> when the segment
  is skipped.
\<close>

definition classificar_segmento ::
  "Geometria option \<Rightarrow> FeicaoLote camada option \<Rightarrow> FeicaoVia camada option \<Rightarrow> real
     \<Rightarrow> nat \<Rightarrow> segmento \<Rightarrow> SegmentoTestada option" where
  "classificar_segmento lote_geom camada_lotes camada_logradouros max_dist_m idx_seg seg =
     (let comp_m = comprimento seg in
      if comp_m \<le> 0 then None
      else
        (let (logradouro_atribuido, tipo, confrontante_atribuido) =
           (case normal_e_ponto_fora seg lote_geom of
              None \<Rightarrow> (None, ''DIVISA'', None)
            | Some (normal, pt_out) \<Rightarrow>
                if ponto_cai_em_algum_lote pt_out camada_lotes then
                  (None, ''DIVISA'',
                   obter_confrontante_para_ponto pt_out camada_lotes
                     (achar_campo_proprietario camada_lotes))
                else
                  (let lg = logradouro_do_segmento seg normal camada_logradouros max_dist_m in
                   if lg \<noteq> None \<and> lg \<noteq> Some [] then (lg, ''TESTADA'', None)
                   else (lg, ''DIVISA'', None)))
         in Some \<lparr>id_segmento = idx_seg, geom = seg, comprimento_m = comp_m,
                  logradouro = logradouro_atribuido, tipo_limite = tipo,
                  confrontante = confrontante_atribuido\<rparr>))"

text \<open>
  \<open>_segmentar_borda_lote\<close>: the pairs of consecutive vertices of every ring. The
  polyline built from two points is a geometry that is not empty, also when the two
  points coincide, so every pair is kept.
\<close>

definition segmentos_do_anel :: "ponto list \<Rightarrow> segmento list" where
  "segmentos_do_anel ring = (if length ring < 2 then [] else zip ring (tl ring))"

definition segmentar_borda_lote :: "Geometria option \<Rightarrow> segmento list" where
  "segmentar_borda_lote lote_geom =
     (case lote_geom of
        None \<Rightarrow> []
      | Some lote \<Rightarrow>
          if g_vazia lote then []
          else (case g_forma lote of
                  MultiPoligono mpol \<Rightarrow> concat (map (\<lambda>poly. concat (map segmentos_do_anel poly)) mpol)
                | Poligono poly \<Rightarrow> concat (map segmentos_do_anel poly)))"

text \<open>The two running sums, dictionaries keyed by street and by neighbour.\<close>

definition somar_em :: "string \<Rightarrow> real \<Rightarrow> (string \<times> real) list \<Rightarrow> (string \<times> real) list" where
  "somar_em chave comp_m d =
     AList.update chave ((case map_of d chave of Some a \<Rightarrow> a | None \<Rightarrow> 0) + comp_m) d"

fun agregar ::
  "SegmentoTestada list \<Rightarrow> (string \<times> real) list \<times> (string \<times> real) list
     \<Rightarrow> (string \<times> real) list \<times> (string \<times> real) list" where
  "agregar [] acc = acc"
| "agregar (s # ss) (testadas, confrontantes) =
     (let testadas = (case logradouro s of
                        Some lg \<Rightarrow> (if lg \<noteq> [] then somar_em lg (comprimento_m s) testadas
                                    else testadas)
                      | None \<Rightarrow> testadas);
          confrontantes = (case confrontante s of
                             Some c \<Rightarrow> (if tipo_limite s = ''DIVISA'' \<and> c \<noteq> []
                                        then somar_em c (comprimento_m s) confrontantes
                                        else confrontantes)
                           | None \<Rightarrow> confrontantes)
      in agregar ss (testadas, confrontantes))"

definition calcular_testadas_e_logradouros ::
  "Geometria option \<Rightarrow> FeicaoLote camada option \<Rightarrow> FeicaoVia camada option \<Rightarrow> real
     \<Rightarrow> ResultadoTestadas" where
  "calcular_testadas_e_logradouros lote_geom camada_lotes camada_logradouros max_dist_m =
     (if (case lote_geom of None \<Rightarrow> True | Some g \<Rightarrow> g_vazia g) then
        \<lparr>segmentos = [], testadas_por_logradouro = [], confrontantes_por_proprietario = []\<rparr>
      else
        (let segmentos_geom = segmentar_borda_lote lote_geom;
             resultado_segmentos =
               List.map_filter
                 (\<lambda>(idx_seg, seg). classificar_segmento lote_geom camada_lotes
                                      camada_logradouros max_dist_m idx_seg seg)
                 (zip [1..<Suc (length segmentos_geom)] segmentos_geom);
             (testadas, confrontantes) = agregar resultado_segmentos ([], [])
         in \<lparr>segmentos = resultado_segmentos, testadas_por_logradouro = testadas,
             confrontantes_por_proprietario = confrontantes\<rparr>))"

text \<open>
  The perimeter of the parcel, which the host computes (\<open>QgsGeometry.length\<close> of a
  polygon): the distances between consecutive vertices, summed over all rings.
\<close>

definition perimetro_anel :: "ponto list \<Rightarrow> real" where
  "perimetro_anel ring = (\<Sum>i<length ring - 1. comprimento (ring ! i, ring ! Suc i))"

definition perimetro :: "Geometria \<Rightarrow> real" where
  "perimetro lote =
     (case g_forma lote of
        MultiPoligono mpol \<Rightarrow> sum_list (map (\<lambda>poly. sum_list (map perimetro_anel poly)) mpol)
      | Poligono poly \<Rightarrow> sum_list (map perimetro_anel poly))"

section \<open>Slope classification (intersecao_inclinacao.py)\<close>

text \<open>
  The raster layer, by what \<open>analisar_inclinacao_terreno\<close> reads from it: validity, the
  pixel size, whether the raster's extent meets the bounding box of the parcel, whether
  the block of pixels could be read, the no-data value if the source declares one, and
  the pixels of the block in the order of the two loops (row by row), each with the
  answer of the parcel's \<open>contains\<close> test on its centre and its value.
\<close>

record CamadaRaster =
  cr_valida :: bool
  cr_x_res :: real
  cr_y_res :: real
  cr_cobre_lote :: bool
  cr_bloco_lido :: bool
  cr_nodata :: "real option"
  cr_pixels :: "(bool \<times> real) list"

text \<open>
  The six bands are numbered 1 to 6 as in \<open>obter_categorias_completas\<close>; the band's label
  is its number here.
\<close>

record Faixa =
  fx_faixa :: nat
  fx_area_m2 :: real
  fx_percentual :: real
  fx_cor :: string
  fx_app :: bool
  fx_min_max_count :: "(real \<times> real \<times> nat) option"

datatype mensagem_inclinacao =
    IncCamadaInvalida
  | IncGeometriaVazia
  | IncRasterNaoCobre
  | IncBlocoNaoLido
  | IncNenhumPixelValido
  | IncErroTecnico
  | IncDadosDeExemplo
  | IncDiferenca real real real
  | IncAreaCoerente real
  | IncAreaAnalisada real
  | IncRasterAnalisado
  | IncResolucao real real
  | IncPixelsValidos nat
  | IncAppPorInclinacao real real

record ResultadoInclinacao =
  inc_faixas :: "Faixa list"
  inc_area_total_m2 :: real
  inc_area_app_inclinacao_m2 :: real
  inc_percentual_app_inclinacao :: real
  inc_mensagens :: "mensagem_inclinacao list"
  inc_tem_app_por_inclinacao :: bool
  inc_estatisticas :: "(string \<times> real) list option"

text \<open>\<open>round(x, 2)\<close>: to two decimals, a tie going to the even neighbour.\<close>

definition arredondar :: "real \<Rightarrow> int" where
  "arredondar x =
     (let f = \<lfloor>x\<rfloor>; d = x - of_int f in
      if d < 1 / 2 then f else if 1 / 2 < d then f + 1 else if even f then f else f + 1)"

definition round2 :: "real \<Rightarrow> real" where
  "round2 x = of_int (arredondar (x * 100)) / 100"

definition classificar_inclinacao :: "real \<Rightarrow> nat" where
  "classificar_inclinacao valor_graus =
     (if valor_graus \<le> 3 then 1
      else if valor_graus \<le> 8 then 2
      else if valor_graus \<le> 15 then 3
      else if valor_graus \<le> 30 then 4
      else if valor_graus \<le> 45 then 5
      else 6)"

text \<open>\<open>obter_categorias_completas\<close>: number, colour, protected or not, bounds in degrees.\<close>

definition obter_categorias_completas :: "(nat \<times> string \<times> bool \<times> real \<times> real) list" where
  "obter_categorias_completas =
     [(1, ''#1a9641'', False, 0, 3),
      (2, ''#fbfdbc'', False, 3, 8),
      (3, ''#fee4a1'', False, 8, 15),
      (4, ''#fec981'', False, 15, 30),
      (5, ''#fdae61'', False, 30, 45),
      (6, ''#d7191c'', True, 45, 90)]"

definition resultado_erro_objeto :: "mensagem_inclinacao \<Rightarrow> ResultadoInclinacao" where
  "resultado_erro_objeto mensagem =
     \<lparr>inc_faixas = [], inc_area_total_m2 = 0, inc_area_app_inclinacao_m2 = 0,
      inc_percentual_app_inclinacao = 0, inc_mensagens = [mensagem],
      inc_tem_app_por_inclinacao = False, inc_estatisticas = Some []\<rparr>"

text \<open>
  The two loops over the block: the counters per band (a function on the band numbers),
  the pixels inside the parcel and the pixels classified.
\<close>

fun contar_pixels ::
  "real option \<Rightarrow> (bool \<times> real) list \<Rightarrow> (nat \<Rightarrow> nat) \<times> nat \<times> nat \<Rightarrow> (nat \<Rightarrow> nat) \<times> nat \<times> nat" where
  "contar_pixels nodata [] acc = acc"
| "contar_pixels nodata ((dentro, valor) # pixels) (contadores, pixels_totais, pixels_validos) =
     (if \<not> dentro then contar_pixels nodata pixels (contadores, pixels_totais, pixels_validos)
      else if (case nodata of Some nd \<Rightarrow> \<bar>valor - nd\<bar> < 1 / 10000 | None \<Rightarrow> False)
        then contar_pixels nodata pixels (contadores, pixels_totais + 1, pixels_validos)
      else if 0 \<le> valor \<and> valor \<le> 90
        then (let cat_id = classificar_inclinacao valor in
              contar_pixels nodata pixels
                (contadores(cat_id := contadores cat_id + 1), pixels_totais + 1,
                 pixels_validos + 1))
      else contar_pixels nodata pixels (contadores, pixels_totais + 1, pixels_validos))"

definition faixas_contadas :: "(nat \<Rightarrow> nat) \<Rightarrow> nat \<Rightarrow> real \<Rightarrow> Faixa list" where
  "faixas_contadas contadores pixels_validos area_pixel_m2 =
     concat (map (\<lambda>(cat_id, cor, app, mn, mx).
                    let count = contadores cat_id in
                    if count > 0 then
                      [\<lparr>fx_faixa = cat_id,
                        fx_area_m2 = round2 (real count * area_pixel_m2),
                        fx_percentual = round2 (real count / real pixels_validos * 100),
                        fx_cor = cor, fx_app = app,
                        fx_min_max_count = Some (mn, mx, count)\<rparr>]
                    else [])
                 obter_categorias_completas)"

text \<open>
  \<open>analisar_inclinacao_terreno\<close>. The whole body is inside \<open>try\<close>, and every exception
  ends in \<open>_resultado_erro_objeto\<close>; the one the arithmetic can raise is the division by
  a pixel size of zero. Of the statistics, the numeric entries are kept (the no-data value
  and the name of the coordinate system are left out).
\<close>

definition analisar_inclinacao_terreno ::
  "Geometria \<Rightarrow> CamadaRaster \<Rightarrow> real option \<Rightarrow> ResultadoInclinacao" where
  "analisar_inclinacao_terreno lote_geom camada_inclinacao area_lote_m2 =
     (if \<not> cr_valida camada_inclinacao then resultado_erro_objeto IncCamadaInvalida
      else if g_vazia lote_geom then resultado_erro_objeto IncGeometriaVazia
      else
        (let x_res = cr_x_res camada_inclinacao;
             y_res = cr_y_res camada_inclinacao;
             area_pixel_m2 = \<bar>x_res * y_res\<bar>
         in
         if \<not> cr_cobre_lote camada_inclinacao then resultado_erro_objeto IncRasterNaoCobre
         else if x_res = 0 \<or> y_res = 0 then resultado_erro_objeto IncErroTecnico
         else if \<not> cr_bloco_lido camada_inclinacao then resultado_erro_objeto IncBlocoNaoLido
         else
           (let (contadores, pixels_totais, pixels_validos) =
                  contar_pixels (cr_nodata camada_inclinacao) (cr_pixels camada_inclinacao)
                    (\<lambda>cat_id. 0, 0, 0)
            in
            if pixels_validos = 0 then resultado_erro_objeto IncNenhumPixelValido
            else
              (let resultados = faixas_contadas contadores pixels_validos area_pixel_m2;
                   area_total_m2 = real pixels_validos * area_pixel_m2;
                   area_app_m2 = real (contadores 6) * area_pixel_m2;
                   mensagens =
                     (case area_lote_m2 of
                        Some area_lote \<Rightarrow>
                          (if area_lote > 0 then
                             (let diferenca_percentual =
                                    \<bar>(area_total_m2 - area_lote) / area_lote * 100\<bar>
                              in if diferenca_percentual > 20
                                 then [IncDiferenca diferenca_percentual area_total_m2 area_lote]
                                 else [IncAreaCoerente area_total_m2])
                           else [IncAreaAnalisada area_total_m2])
                      | None \<Rightarrow> [IncAreaAnalisada area_total_m2]);
                   percentual_app =
                     (if area_total_m2 > 0 then area_app_m2 / area_total_m2 * 100 else 0);
                   mensagens = mensagens @ [IncRasterAnalisado, IncResolucao x_res y_res,
                                            IncPixelsValidos pixels_validos];
                   mensagens = (if area_app_m2 > 0
                                then mensagens @ [IncAppPorInclinacao area_app_m2 percentual_app]
                                else mensagens);
                   estatisticas =
                     [(''pixels_totais'', real pixels_totais),
                      (''pixels_validos'', real pixels_validos),
                      (''resolucao_x'', x_res), (''resolucao_y'', y_res),
                      (''area_pixel_m2'', area_pixel_m2),
                      (''percentual_cobertura'',
                       (if pixels_totais > 0
                        then real pixels_validos / real pixels_totais * 100 else 0))]
               in \<lparr>inc_faixas = resultados,
                   inc_area_total_m2 = round2 area_total_m2,
                   inc_area_app_inclinacao_m2 = round2 area_app_m2,
                   inc_percentual_app_inclinacao = round2 percentual_app,
                   inc_mensagens = mensagens,
                   inc_tem_app_por_inclinacao = (area_app_m2 > 0),
                   inc_estatisticas = Some estatisticas\<rparr>))))"

section \<open>The orchestrator (motor_analise_lote.py)\<close>

record CenarioEdificacao =
  area_lote_m2 :: real
  area_construida_total_m2 :: "real option"
  area_ocupada_projecao_m2 :: "real option"
  area_permeavel_m2 :: "real option"
  altura_maxima_m :: "real option"
  numero_pavimentos :: "int option"

text \<open>
  The results of \<open>intersecao_app\<close> and \<open>intersecao_risco\<close> are passed through untouched;
  their types are parameters.
\<close>

record ('app, 'risco) ResultadoAnaliseLote =
  zoneamento_intersecao :: ResultadoZoneamento
  zoneamento_avaliacao :: "ResultadoAvaliacaoZona option"
  app :: 'app
  risco :: 'risco
  zoneamento_geom :: "ResultadoZoneamentoGeom option"
  zona_resolvida :: "ZonaResolvida option"
  testadas :: "ResultadoTestadas option"
  inclinacao :: "ResultadoInclinacao option"
  detectou_frente_nota_10 :: bool
  detectou_frente_nota_37 :: bool
  nome_via_nota_10 :: "string option"

text \<open>
  What \<open>analisar_lote\<close> takes from outside its arguments: the layers of the registry
  (\<open>obter_camada\<close>), the results of the three basic intersections, and the parsed content
  of the parameter file at \<open>caminho_parametros_zoneamento\<close>.
\<close>

record ('app, 'risco) Ambiente =
  amb_camada_zoneamento :: "FeicaoZona camada option"
  amb_camada_lotes :: "FeicaoLote camada option"
  amb_camada_logradouros :: "FeicaoVia camada option"
  amb_camada_inclinacao :: "CamadaRaster option"
  amb_intersecao_zoneamento :: ResultadoZoneamento
  amb_intersecao_app :: 'app
  amb_intersecao_risco :: 'risco
  amb_parametros_json :: "(string \<times> (string \<times> json_valor) list option) list"

text \<open>
  Reading a name: Python looks it up in the scope of the function, then in the module,
  and raises \<open>NameError\<close> when it is bound in neither. The scope is the map from the names
  in reach to their values.
\<close>

definition ler_nome :: "(string \<rightharpoonup> 'a) \<Rightarrow> string \<Rightarrow> erro + 'a" where
  "ler_nome escopo nome = (case escopo nome of Some v \<Rightarrow> Inr v | None \<Rightarrow> Inl NameError)"

text \<open>
  The Boolean names in reach inside \<open>analisar_lote\<close>: its parameter \<open>nota10_confirmada\<close>.
  The function has no parameter or local called \<open>nota10_ativada\<close> or \<open>nota37_ativada\<close>,
  and the module binds neither.
\<close>

definition escopo_analisar_lote :: "bool \<Rightarrow> (string \<rightharpoonup> bool)" where
  "escopo_analisar_lote nota10_confirmada = [''nota10_confirmada'' \<mapsto> nota10_confirmada]"

text \<open>
  Step 2.3: the frontage names that announce the notes 10 and 37. The two patterns have
  an accented letter, written by its UTF-8 bytes.
\<close>

definition detectar_frentes :: "ResultadoTestadas option \<Rightarrow> bool \<times> bool \<times> string option" where
  "detectar_frentes res_testadas =
     (case res_testadas of
        None \<Rightarrow> (False, False, None)
      | Some rt \<Rightarrow>
          (let nomes = map fst (testadas_por_logradouro rt);
               norm = (\<lambda>nome. strip (lower nome));
               nota10 = filter (\<lambda>nome. contem (norm nome)
                                  (''sebasti'' @ [CHR 0xC3, CHR 0xA3] @ ''o manoel coelho'')) nomes;
               nota37 = filter (\<lambda>nome. contem (norm nome)
                                  (''l'' @ [CHR 0xC3, CHR 0xBA] @ ''cio joaquim mendes'')) nomes
           in (nota10 \<noteq> [], nota37 \<noteq> [], (if nota10 = [] then None else Some (last nota10)))))"

text \<open>
  Step 3.1, the call of the resolver inside \<open>try\<close>: the keyword arguments are evaluated
  first, and any exception leaves \<open>zona_resolvida\<close> at \<open>None\<close>.
\<close>

definition resolver_protegido ::
  "(string \<rightharpoonup> ParametrosZona) \<Rightarrow> ResultadoZoneamento \<Rightarrow> ResultadoZoneamentoGeom
     \<Rightarrow> (string \<rightharpoonup> bool) \<Rightarrow> ZonaResolvida option" where
  "resolver_protegido parametros_por_zona res_zon res_geom escopo =
     (case ler_nome escopo ''nota10_ativada'' of
        Inl e \<Rightarrow> None
      | Inr nota10_ativada \<Rightarrow>
          (case ler_nome escopo ''nota37_ativada'' of
             Inl e \<Rightarrow> None
           | Inr nota37_ativada \<Rightarrow>
               Some (resolver parametros_por_zona res_zon res_geom nota10_ativada nota37_ativada)))"

definition acrescentar :: "mensagem \<Rightarrow> ResultadoZoneamento \<Rightarrow> ResultadoZoneamento" where
  "acrescentar m res_zon = res_zon\<lparr>rz_mensagens := rz_mensagens res_zon @ [m]\<rparr>"

text \<open>Step 3.2: the messages of the resolver go into the zoning result.\<close>

definition integrar_mensagens :: "ZonaResolvida option \<Rightarrow> ResultadoZoneamento \<Rightarrow> ResultadoZoneamento" where
  "integrar_mensagens zona_res res_zon =
     (case zona_res of
        None \<Rightarrow> res_zon
      | Some zr \<Rightarrow>
          (let res_zon = (if zr_notas_ativas zr \<noteq> []
                          then acrescentar (MsgNotasAplicadas (zr_notas_ativas zr)) res_zon
                          else res_zon);
               res_zon = (if zr_motivo zr \<noteq> [] then acrescentar (MsgMotivo (zr_motivo zr)) res_zon
                          else res_zon);
               res_zon = (if zr_tipo_regra zr \<noteq> [] \<and> zr_tipo_regra zr \<noteq> ''NAO_DEFINIDA''
                          then acrescentar (MsgRegimeRegra (zr_tipo_regra zr)) res_zon
                          else res_zon)
           in case zr_zona_principal zr of
                Some z \<Rightarrow> (if z \<noteq> [] then res_zon\<lparr>rz_zona := Some z\<rparr> else res_zon)
              | None \<Rightarrow> res_zon))"

text \<open>
  Step 3.3: the numeric evaluation in the reference zone. The call is not inside a
  \<open>try\<close>: its \<open>ValueError\<close> leaves \<open>analisar_lote\<close>.
\<close>

definition avaliacao_numerica ::
  "ZonaResolvida option \<Rightarrow> CenarioEdificacao \<Rightarrow> ResultadoZoneamento
     \<Rightarrow> erro + (ResultadoAvaliacaoZona option \<times> ResultadoZoneamento)" where
  "avaliacao_numerica zona_res cenario res_zon =
     (case zona_res of
        None \<Rightarrow> Inr (None, acrescentar MsgSemZonaReferencia res_zon)
      | Some zr \<Rightarrow>
          (case zr_zona_principal zr of
             None \<Rightarrow> Inr (None, acrescentar MsgSemZonaReferencia res_zon)
           | Some z \<Rightarrow>
               if z = [] then Inr (None, acrescentar MsgSemZonaReferencia res_zon)
               else
                 (case zr_parametros zr of
                    None \<Rightarrow> Inr (None, acrescentar (MsgParametrosNaoEncontrados z) res_zon)
                  | Some parametros \<Rightarrow>
                      (case avaliar_edificacao_na_zona z parametros (area_lote_m2 cenario)
                              (area_construida_total_m2 cenario)
                              (area_ocupada_projecao_m2 cenario) (area_permeavel_m2 cenario)
                              (altura_maxima_m cenario) (numero_pavimentos cenario) of
                         Inl e \<Rightarrow> Inl e
                       | Inr res_av_zon \<Rightarrow> Inr (Some res_av_zon, res_zon)))))"

text \<open>
  Step 4 without a slope layer: the bands that the source builds from the parcel area
  alone, 40, 25, 15, 10, 7 and 3 per cent of it.
\<close>

definition faixas_exemplo :: "real \<Rightarrow> Faixa list" where
  "faixas_exemplo area_lote =
     map (\<lambda>(cat_id, fracao, percentual, cor, app).
            \<lparr>fx_faixa = cat_id, fx_area_m2 = area_lote * fracao, fx_percentual = percentual,
             fx_cor = cor, fx_app = app, fx_min_max_count = None\<rparr>)
         [(1, 4 / 10, 40, ''#1a9641'', False),
          (2, 25 / 100, 25, ''#fbfdbc'', False),
          (3, 15 / 100, 15, ''#fee4a1'', False),
          (4, 10 / 100, 10, ''#fec981'', False),
          (5, 7 / 100, 7, ''#fdae61'', False),
          (6, 3 / 100, 3, ''#d7191c'', True)]"

definition inclinacao_de_exemplo :: "real \<Rightarrow> ResultadoInclinacao" where
  "inclinacao_de_exemplo area_lote =
     (let area_app_exemplo = area_lote * (3 / 100) in
      \<lparr>inc_faixas = faixas_exemplo area_lote,
       inc_area_total_m2 = area_lote,
       inc_area_app_inclinacao_m2 = round2 area_app_exemplo,
       inc_percentual_app_inclinacao = round2 3,
       inc_mensagens = [IncDadosDeExemplo],
       inc_tem_app_por_inclinacao = (area_app_exemplo > 0),
       inc_estatisticas = None\<rparr>)"

definition analise_inclinacao ::
  "Geometria \<Rightarrow> CamadaRaster option \<Rightarrow> CenarioEdificacao \<Rightarrow> ResultadoZoneamento
     \<Rightarrow> ResultadoInclinacao option \<times> ResultadoZoneamento" where
  "analise_inclinacao geom_lote camada_inclinacao cenario res_zon =
     (case camada_inclinacao of
        Some camada \<Rightarrow>
          (let res_inclinacao =
                 analisar_inclinacao_terreno geom_lote camada (Some (area_lote_m2 cenario))
           in (Some res_inclinacao,
               (if inc_tem_app_por_inclinacao res_inclinacao
                then acrescentar MsgAppPorInclinacao res_zon else res_zon)))
      | None \<Rightarrow> (Some (inclinacao_de_exemplo (area_lote_m2 cenario)), res_zon))"

definition analisar_lote ::
  "Geometria option \<Rightarrow> CenarioEdificacao \<Rightarrow> ('app, 'risco) Ambiente \<Rightarrow> bool \<Rightarrow> real
     \<Rightarrow> erro + ('app, 'risco) ResultadoAnaliseLote" where
  "analisar_lote geom_lote cenario amb nota10_confirmada max_dist_testada_m =
     (case geom_lote of
        None \<Rightarrow> Inl ValueError
      | Some g \<Rightarrow>
          if g_vazia g then Inl ValueError
          else
            (let res_zon = amb_intersecao_zoneamento amb;
                 res_geom = (case amb_camada_zoneamento amb of
                               Some camada \<Rightarrow>
                                 Some (calcular_zoneamento_incidente geom_lote
                                         (amb_camada_zoneamento amb) None)
                             | None \<Rightarrow> None);
                 res_testadas = (case amb_camada_lotes amb of
                                   Some camada \<Rightarrow>
                                     Some (calcular_testadas_e_logradouros geom_lote
                                             (amb_camada_lotes amb) (amb_camada_logradouros amb)
                                             max_dist_testada_m)
                                 | None \<Rightarrow> None);
                 (detectou_10, detectou_37, nome_via_10) = detectar_frentes res_testadas
             in
             case (case res_geom of
                     None \<Rightarrow> Inr None
                   | Some rg \<Rightarrow>
                       (case carregar_parametros_de_arquivo (amb_parametros_json amb) of
                          Inl e \<Rightarrow> Inl e
                        | Inr parametros_por_zona \<Rightarrow>
                            Inr (resolver_protegido parametros_por_zona res_zon rg
                                   (escopo_analisar_lote nota10_confirmada)))) of
               Inl e \<Rightarrow> Inl e
             | Inr zona_res \<Rightarrow>
                 (case avaliacao_numerica zona_res cenario
                         (integrar_mensagens zona_res res_zon) of
                    Inl e \<Rightarrow> Inl e
                  | Inr (res_av_zon, res_zon) \<Rightarrow>
                      (let (res_inclinacao, res_zon) =
                             analise_inclinacao g (amb_camada_inclinacao amb) cenario res_zon
                       in Inr \<lparr>zoneamento_intersecao = res_zon,
                               zoneamento_avaliacao = res_av_zon,
                               app = amb_intersecao_app amb,
                               risco = amb_intersecao_risco amb,
                               zoneamento_geom = res_geom,
                               zona_resolvida = zona_res,
                               testadas = res_testadas,
                               inclinacao = res_inclinacao,
                               detectou_frente_nota_10 = detectou_10,
                               detectou_frente_nota_37 = detectou_37,
                               nome_via_nota_10 = nome_via_10\<rparr>))))"

section \<open>Facts about the Python helpers\<close>

lemma set_sorted_set: "set (sorted_set xs) = set xs"
  by (simp add: sorted_set_def)

lemma sorted_sorted_set: "sorted (sorted_set xs)"
  by (simp add: sorted_set_def)


lemma sorted_set_Nil_iff: "sorted_set xs = [] \<longleftrightarrow> xs = []"
  using set_sorted_set [of xs] by (metis set_empty)


section \<open>The scan for the largest area returns the first maximum\<close>

lemma zona_maior_area_laco_mem:
  "zona_maior_area_laco areas cs m a = Some z \<Longrightarrow> z \<in> set cs \<or> m = Some z"
  by (induction cs arbitrary: m a) (auto simp: Let_def split: if_splits)

lemma zona_maior_area_mem: "zona_maior_area areas cs = Some z \<Longrightarrow> z \<in> set cs"
  using zona_maior_area_laco_mem [of areas cs None "- 1" z]
  by (auto simp: zona_maior_area_def split: if_splits)

lemma zona_maior_area_laco_spec:
  "(zona_maior_area_laco areas cs m a = m \<and> (\<forall>c\<in>set cs. get0 areas c \<le> a)) \<or>
   (\<exists>i<length cs. zona_maior_area_laco areas cs m a = Some (cs ! i) \<and> a < get0 areas (cs ! i)
       \<and> (\<forall>c\<in>set cs. get0 areas c \<le> get0 areas (cs ! i))
       \<and> (\<forall>j<i. get0 areas (cs ! j) < get0 areas (cs ! i)))"
proof (induction cs arbitrary: m a)
  case Nil
  then show ?case by simp
next
  case (Cons cod cs)
  show ?case
  proof (cases "get0 areas cod > a")
    case True
    from Cons.IH [of "Some cod" "get0 areas cod"] show ?thesis
    proof
      assume h: "zona_maior_area_laco areas cs (Some cod) (get0 areas cod) = Some cod \<and>
                 (\<forall>c\<in>set cs. get0 areas c \<le> get0 areas cod)"
      have "0 < length (cod # cs) \<and> zona_maior_area_laco areas (cod # cs) m a = Some ((cod # cs) ! 0)
          \<and> a < get0 areas ((cod # cs) ! 0)
          \<and> (\<forall>c\<in>set (cod # cs). get0 areas c \<le> get0 areas ((cod # cs) ! 0))
          \<and> (\<forall>j<0. get0 areas ((cod # cs) ! j) < get0 areas ((cod # cs) ! 0))"
        using h True by (simp add: Let_def)
      then show ?thesis by blast
    next
      assume "\<exists>i<length cs. zona_maior_area_laco areas cs (Some cod) (get0 areas cod) = Some (cs ! i)
          \<and> get0 areas cod < get0 areas (cs ! i)
          \<and> (\<forall>c\<in>set cs. get0 areas c \<le> get0 areas (cs ! i))
          \<and> (\<forall>j<i. get0 areas (cs ! j) < get0 areas (cs ! i))"
      then obtain i where i: "i < length cs"
          "zona_maior_area_laco areas cs (Some cod) (get0 areas cod) = Some (cs ! i)"
          "get0 areas cod < get0 areas (cs ! i)"
          "\<forall>c\<in>set cs. get0 areas c \<le> get0 areas (cs ! i)"
          "\<forall>j<i. get0 areas (cs ! j) < get0 areas (cs ! i)" by blast
      have "\<forall>j<Suc i. get0 areas ((cod # cs) ! j) < get0 areas (cs ! i)"
        using i(3,5) by (auto simp: less_Suc_eq_0_disj)
      then have "Suc i < length (cod # cs) \<and>
          zona_maior_area_laco areas (cod # cs) m a = Some ((cod # cs) ! Suc i)
          \<and> a < get0 areas ((cod # cs) ! Suc i)
          \<and> (\<forall>c\<in>set (cod # cs). get0 areas c \<le> get0 areas ((cod # cs) ! Suc i))
          \<and> (\<forall>j<Suc i. get0 areas ((cod # cs) ! j) < get0 areas ((cod # cs) ! Suc i))"
        using i True by (auto simp: Let_def)
      then show ?thesis by blast
    qed
  next
    case False
    from Cons.IH [of m a] show ?thesis
    proof
      assume "zona_maior_area_laco areas cs m a = m \<and> (\<forall>c\<in>set cs. get0 areas c \<le> a)"
      then show ?thesis using False by (simp add: Let_def)
    next
      assume "\<exists>i<length cs. zona_maior_area_laco areas cs m a = Some (cs ! i)
          \<and> a < get0 areas (cs ! i)
          \<and> (\<forall>c\<in>set cs. get0 areas c \<le> get0 areas (cs ! i))
          \<and> (\<forall>j<i. get0 areas (cs ! j) < get0 areas (cs ! i))"
      then obtain i where i: "i < length cs"
          "zona_maior_area_laco areas cs m a = Some (cs ! i)"
          "a < get0 areas (cs ! i)"
          "\<forall>c\<in>set cs. get0 areas c \<le> get0 areas (cs ! i)"
          "\<forall>j<i. get0 areas (cs ! j) < get0 areas (cs ! i)" by blast
      have "\<forall>j<Suc i. get0 areas ((cod # cs) ! j) < get0 areas (cs ! i)"
        using i(3,5) False by (auto simp: less_Suc_eq_0_disj)
      then have "Suc i < length (cod # cs) \<and>
          zona_maior_area_laco areas (cod # cs) m a = Some ((cod # cs) ! Suc i)
          \<and> a < get0 areas ((cod # cs) ! Suc i)
          \<and> (\<forall>c\<in>set (cod # cs). get0 areas c \<le> get0 areas ((cod # cs) ! Suc i))
          \<and> (\<forall>j<Suc i. get0 areas ((cod # cs) ! j) < get0 areas ((cod # cs) ! Suc i))"
        using i False by (auto simp: Let_def)
      then show ?thesis by blast
    qed
  qed
qed

text \<open>On a sorted list the first maximum is the least code among the maxima.\<close>

lemma zona_maior_area_sorted:
  assumes "sorted cs" "z \<in> set cs" "- 1 < get0 areas z"
    and "\<forall>c\<in>set cs. get0 areas c \<le> get0 areas z"
    and "\<forall>c\<in>set cs. get0 areas c = get0 areas z \<longrightarrow> z \<le> c"
  shows "zona_maior_area areas cs = Some z"
proof -
  from zona_maior_area_laco_spec [of areas cs None "- 1"] assms(2,3)
  obtain i where i: "i < length cs" "zona_maior_area_laco areas cs None (- 1) = Some (cs ! i)"
      "\<forall>c\<in>set cs. get0 areas c \<le> get0 areas (cs ! i)"
      "\<forall>j<i. get0 areas (cs ! j) < get0 areas (cs ! i)"
    by (metis not_le)
  have eq: "get0 areas (cs ! i) = get0 areas z"
    using i(1,3) assms(2,4) by (meson nth_mem order_antisym)
  obtain k where k: "k < length cs" "cs ! k = z"
    using assms(2) by (auto simp: in_set_conv_nth)
  have "\<not> k < i" using i(4) k eq by auto
  then have "i \<le> k" by simp
  then have "cs ! i \<le> z" using assms(1) k by (auto simp: sorted_iff_nth_mono)
  moreover have "z \<le> cs ! i" using assms(5) eq i(1) by auto
  ultimately have "cs ! i = z" by simp
  with i(2) assms(2) show ?thesis by (auto simp: zona_maior_area_def)
qed

lemma max_area_laco_mem: "max_area_laco m zs \<in> set (m # zs)"
  by (induction zs arbitrary: m) auto

lemma max_area_mem: "max_area zs = Some z \<Longrightarrow> z \<in> set zs"
  using max_area_laco_mem by (auto simp: max_area_def split: list.splits)

lemma max_area_laco_spec:
  "\<exists>i<length (m # zs). max_area_laco m zs = (m # zs) ! i
      \<and> (\<forall>z\<in>set (m # zs). za_area_m2 z \<le> za_area_m2 ((m # zs) ! i))
      \<and> (\<forall>j<i. za_area_m2 ((m # zs) ! j) < za_area_m2 ((m # zs) ! i))"
proof (induction zs arbitrary: m)
  case Nil
  then show ?case by simp
next
  case (Cons z zs)
  show ?case
  proof (cases "za_area_m2 z > za_area_m2 m")
    case True
    from Cons.IH [of z] obtain i where i: "i < length (z # zs)"
        "max_area_laco z zs = (z # zs) ! i"
        "\<forall>y\<in>set (z # zs). za_area_m2 y \<le> za_area_m2 ((z # zs) ! i)"
        "\<forall>j<i. za_area_m2 ((z # zs) ! j) < za_area_m2 ((z # zs) ! i)" by blast
    have m: "za_area_m2 m < za_area_m2 ((z # zs) ! i)"
      using True i(3) by force
    then have "\<forall>j<Suc i. za_area_m2 ((m # z # zs) ! j) < za_area_m2 ((z # zs) ! i)"
      using i(4) by (auto simp: less_Suc_eq_0_disj)
    then have "Suc i < length (m # z # zs) \<and> max_area_laco m (z # zs) = (m # z # zs) ! Suc i
        \<and> (\<forall>y\<in>set (m # z # zs). za_area_m2 y \<le> za_area_m2 ((m # z # zs) ! Suc i))
        \<and> (\<forall>j<Suc i. za_area_m2 ((m # z # zs) ! j) < za_area_m2 ((m # z # zs) ! Suc i))"
      using i m True by auto
    then show ?thesis by blast
  next
    case False
    from Cons.IH [of m] obtain i where i: "i < length (m # zs)"
        "max_area_laco m zs = (m # zs) ! i"
        "\<forall>y\<in>set (m # zs). za_area_m2 y \<le> za_area_m2 ((m # zs) ! i)"
        "\<forall>j<i. za_area_m2 ((m # zs) ! j) < za_area_m2 ((m # zs) ! i)" by blast
    show ?thesis
    proof (cases i)
      case 0
      then have "0 < length (m # z # zs) \<and> max_area_laco m (z # zs) = (m # z # zs) ! 0
        \<and> (\<forall>y\<in>set (m # z # zs). za_area_m2 y \<le> za_area_m2 ((m # z # zs) ! 0))
        \<and> (\<forall>j<0. za_area_m2 ((m # z # zs) ! j) < za_area_m2 ((m # z # zs) ! 0))"
        using i False by auto
      then show ?thesis by blast
    next
      case (Suc k)
      have mk: "za_area_m2 m < za_area_m2 (zs ! k)"
        using i(4) Suc by auto
      have "\<forall>j<Suc (Suc k). za_area_m2 ((m # z # zs) ! j) < za_area_m2 (zs ! k)"
      proof (intro allI impI)
        fix j assume j: "j < Suc (Suc k)"
        show "za_area_m2 ((m # z # zs) ! j) < za_area_m2 (zs ! k)"
        proof (cases j)
          case 0
          then show ?thesis using mk by simp
        next
          case (Suc j')
          show ?thesis
          proof (cases j')
            case 0
            then show ?thesis using Suc mk False by simp
          next
            case (Suc j'')
            with \<open>j = Suc j'\<close> j have "Suc j'' < i" using \<open>i = Suc k\<close> by simp
            with i(4) have "za_area_m2 ((m # zs) ! Suc j'') < za_area_m2 ((m # zs) ! i)" by blast
            then show ?thesis using \<open>j = Suc j'\<close> Suc \<open>i = Suc k\<close> by simp
          qed
        qed
      qed
      then have "Suc (Suc k) < length (m # z # zs)
        \<and> max_area_laco m (z # zs) = (m # z # zs) ! Suc (Suc k)
        \<and> (\<forall>y\<in>set (m # z # zs). za_area_m2 y \<le> za_area_m2 ((m # z # zs) ! Suc (Suc k)))
        \<and> (\<forall>j<Suc (Suc k). za_area_m2 ((m # z # zs) ! j) < za_area_m2 ((m # z # zs) ! Suc (Suc k)))"
        using i Suc False mk by auto
      then show ?thesis by blast
    qed
  qed
qed

lemma max_area_sorted:
  assumes "sorted (map za_codigo zs)" "z \<in> set zs"
    and "\<forall>y\<in>set zs. za_area_m2 y \<le> za_area_m2 z"
    and "\<forall>y\<in>set zs. za_area_m2 y = za_area_m2 z \<longrightarrow> za_codigo z \<le> za_codigo y"
  shows "map_option za_codigo (max_area zs) = Some (za_codigo z)"
proof -
  from assms(2) obtain m ys where zs: "zs = m # ys" by (cases zs) auto
  from max_area_laco_spec [of m ys] obtain i where i: "i < length zs"
      "max_area_laco m ys = zs ! i"
      "\<forall>y\<in>set zs. za_area_m2 y \<le> za_area_m2 (zs ! i)"
      "\<forall>j<i. za_area_m2 (zs ! j) < za_area_m2 (zs ! i)"
    unfolding zs by blast
  have eq: "za_area_m2 (zs ! i) = za_area_m2 z"
    using i(1,3) assms(2,3) by (meson nth_mem order_antisym)
  obtain k where k: "k < length zs" "zs ! k = z"
    using assms(2) by (auto simp: in_set_conv_nth)
  have "\<not> k < i" using i(4) k eq by auto
  then have "i \<le> k" by simp
  then have "map za_codigo zs ! i \<le> map za_codigo zs ! k"
    using assms(1) k(1) by (simp add: sorted_iff_nth_mono del: nth_map)
  then have "za_codigo (zs ! i) \<le> za_codigo z" using k i(1) by simp
  moreover have "za_codigo z \<le> za_codigo (zs ! i)" using assms(4) eq i(1) by auto
  ultimately have "za_codigo (zs ! i) = za_codigo z" by simp
  with i(2) show ?thesis by (simp add: max_area_def zs)
qed

section \<open>The rulebook: reference zone and rule label\<close>

lemma cascata_ref_in:
  "zona_principal (cascata_regras areas zu) = Some z
   \<longrightarrow> z \<in> set (zonas_consideradas (cascata_regras areas zu))"
  unfolding cascata_regras_def Let_def
  apply (simp split: if_split)
  apply (intro conjI impI)
  apply (auto dest!: zona_maior_area_mem dest: hd_in_set)
  done

lemma regra_ref_in:
  "zona_principal (aplicar_regra_sobreposicao zonas areas vias n10 n37) = Some z
   \<longrightarrow> z \<in> set (zonas_consideradas (aplicar_regra_sobreposicao zonas areas vias n10 n37))"
  unfolding aplicar_regra_sobreposicao_def Let_def
  by (simp add: set_sorted_set cascata_ref_in split: if_split)


lemma cascata_especial:
  assumes "sorted zu" "z1 \<in> set zu" "classificar_zona_regra z1 = ''ESPECIAL''"
    and "- 1 < get0 areas z1"
    and "\<forall>z\<in>set zu. classificar_zona_regra z = ''ESPECIAL'' \<longrightarrow> get0 areas z \<le> get0 areas z1"
    and "\<forall>z\<in>set zu. classificar_zona_regra z = ''ESPECIAL'' \<and> get0 areas z = get0 areas z1
           \<longrightarrow> z1 \<le> z"
  shows "zona_principal (cascata_regras areas zu) = Some z1
       \<and> tipo_regra (cascata_regras areas zu) = ''ZONA_ESPECIAL_PREDOMINANTE''"
proof -
  let ?esp = "filter (\<lambda>z. classificar_zona_regra z = ''ESPECIAL'') zu"
  have ne: "?esp \<noteq> []" using assms(2,3) by (auto simp: filter_empty_conv)
  have "sorted ?esp" using assms(1) by (simp add: sorted_wrt_filter)
  then have "zona_maior_area areas ?esp = Some z1"
    by (rule zona_maior_area_sorted) (use assms in auto)
  then show ?thesis
    unfolding cascata_regras_def Let_def using ne by simp
qed

lemma zonas_deduzidas_mem:
  "z \<in> set (zonas_deduzidas vias) \<Longrightarrow> z = ''EU1'' \<or> z = ''SEMIEIXO''"
  by (auto simp: zonas_deduzidas_def zona_por_logradouro_def MAPA_LOGRADOURO_EIXO_def
      MAPA_LOGRADOURO_SEMIEIXO_def Let_def split: option.splits if_splits)

lemma classificar_EU1: "classificar_zona_regra ''EU1'' = ''EIXO''"
  by code_simp

lemma classificar_SEMIEIXO: "classificar_zona_regra ''SEMIEIXO'' = ''EIXO''"
  by code_simp

lemma zonas_deduzidas_nao_especiais:
  "z \<in> set (zonas_deduzidas vias) \<Longrightarrow> classificar_zona_regra z \<noteq> ''ESPECIAL''"
  using zonas_deduzidas_mem [of z vias] classificar_EU1 classificar_SEMIEIXO by auto

text \<open>
  The normalisation drops the accents. A frontage on Rua Lucio Joaquim Mendes, written
  with its acute accent on the u, brings Nota 37; one on Rua Sao Paulo, written with its
  tilde on the a, gives the semi-axis.
\<close>

lemma testadas_acentuadas:
  "normalizar_nome_logradouro (''Rua L'' @ [CHR 0xC3, CHR 0xBA] @ ''cio Joaquim Mendes'')
     = ''RUA LUCIO JOAQUIM MENDES''
   \<and> acesso_lucio_deduzido [''Rua L'' @ [CHR 0xC3, CHR 0xBA] @ ''cio Joaquim Mendes'']
   \<and> zona_principal (aplicar_regra_sobreposicao [''MUQ2''] [''MUQ2'' \<mapsto> 500]
        [''Rua L'' @ [CHR 0xC3, CHR 0xBA] @ ''cio Joaquim Mendes''] False False) = Some ''MUQ3''
   \<and> tipo_regra (aplicar_regra_sobreposicao [''MUQ2''] [''MUQ2'' \<mapsto> 500]
        [''Rua L'' @ [CHR 0xC3, CHR 0xBA] @ ''cio Joaquim Mendes''] False False) = ''NOTA_37_MUQ3''
   \<and> zonas_deduzidas [''Rua S'' @ [CHR 0xC3, CHR 0xA3] @ ''o Paulo''] = [''SEMIEIXO'']"
  by code_simp

section \<open>The resolver: reference zone\<close>

lemma ref_em_especiais: "ref_em info st \<Longrightarrow> ref_em info (passo_especiais info st)"
  by (auto simp: ref_em_def passo_especiais_def Let_def split: option.splits
      dest!: max_area_mem)

lemma ref_em_eixos: "ref_em info st \<Longrightarrow> ref_em info (passo_eixos info st)"
  by (auto simp: ref_em_def passo_eixos_def Let_def split: option.splits
      dest!: max_area_mem)

lemma ref_em_ambientais: "ref_em info st \<Longrightarrow> ref_em info (passo_ambientais info st)"
  by (auto simp: ref_em_def passo_ambientais_def Let_def split: option.splits)

lemma ref_em_macros: "ref_em info st \<Longrightarrow> ref_em info (passo_macros_urbanas info st)"
  by (auto simp: ref_em_def passo_macros_urbanas_def Let_def split: option.splits)

lemma ref_em_ordinarias: "ref_em info st \<Longrightarrow> ref_em info (passo_ordinarias info a st)"
  by (auto simp: ref_em_def passo_ordinarias_def Let_def split: option.splits)

lemma ref_em_simples: "ref_em info st \<Longrightarrow> ref_em info (passo_coexistencia_simples st)"
  by (auto simp: ref_em_def passo_coexistencia_simples_def Let_def split: option.splits)

lemma ref_em_predominante: "ref_em info st \<Longrightarrow> ref_em info (passo_zona_predominante info st)"
  by (auto simp: ref_em_def passo_zona_predominante_def Let_def split: option.splits
      dest!: max_area_mem)

lemma ref_em_notas:
  "(n10 \<longrightarrow> ''ZEOT2'' \<in> za_codigo ` set info) \<Longrightarrow> (n37 \<longrightarrow> ''MUQ3'' \<in> za_codigo ` set info)
   \<Longrightarrow> ref_em info (passo_notas n10 n37)"
  by (auto simp: ref_em_def passo_notas_def Let_def split: option.splits)

lemma za_codigo_zona_aplicada: "za_codigo (zona_aplicada a t n z) = z"
  by (simp add: zona_aplicada_def Let_def)

lemma za_tipo_zona_aplicada: "za_tipo (zona_aplicada a t n z) = classificar_zona z"
  by (simp add: zona_aplicada_def Let_def)

lemma za_area_zona_aplicada: "za_area_m2 (zona_aplicada a t n z) = get0 a z"
  by (simp add: zona_aplicada_def Let_def)

lemma codigos_info: "za_codigo ` zona_aplicada a t n ` S = S"
  by (auto simp: za_codigo_zona_aplicada image_iff)

lemma resolver_sobreposicoes_eq:
  assumes "filter (\<lambda>z. z \<noteq> []) zi \<noteq> []"
  shows "resolver_sobreposicoes zi za rz n10 n37 =
     \<lparr>sb_info_zonas = info_do_resolvedor zi za rz n10 n37,
      sb_notas_ativas = (if n10 then [''10''] else []) @ (if n37 then [''37''] else []),
      sb_tipo_regra = er_tipo (estado_final zi za rz n10 n37),
      sb_resumo = er_resumo (estado_final zi za rz n10 n37),
      sb_observacoes = observacoes_muis_meu (info_do_resolvedor zi za rz n10 n37),
      sb_zona_referencia = er_zona_ref (estado_final zi za rz n10 n37)\<rparr>"
  using assms
  unfolding resolver_sobreposicoes_def estado_final_def info_do_resolvedor_def
    zonas_do_resolvedor_def Let_def
  by simp

lemma codigos_info_do_resolvedor:
  "za_codigo ` set (info_do_resolvedor zi za rz n10 n37) = set (zonas_do_resolvedor zi rz n10 n37)"
  by (simp add: info_do_resolvedor_def codigos_info set_sorted_set)

lemma ref_em_estado_final:
  "ref_em (info_do_resolvedor zi za rz n10 n37) (estado_final zi za rz n10 n37)"
proof -
  have "ref_em (info_do_resolvedor zi za rz n10 n37) (passo_notas n10 n37)"
    by (rule ref_em_notas)
      (simp_all add: codigos_info_do_resolvedor zonas_do_resolvedor_def)
  then show ?thesis
    unfolding estado_final_def Let_def
    by (intro ref_em_especiais ref_em_eixos ref_em_ambientais ref_em_macros
        ref_em_ordinarias ref_em_simples ref_em_predominante)
qed

lemma sobre_ref_in:
  "sb_zona_referencia (resolver_sobreposicoes zi za rz n10 n37) = Some z
   \<Longrightarrow> z \<in> za_codigo ` set (sb_info_zonas (resolver_sobreposicoes zi za rz n10 n37))"
proof (cases "filter (\<lambda>z. z \<noteq> []) zi = []")
  case True
  assume "sb_zona_referencia (resolver_sobreposicoes zi za rz n10 n37) = Some z"
  with True show ?thesis by (simp add: resolver_sobreposicoes_def)
next
  case False
  assume "sb_zona_referencia (resolver_sobreposicoes zi za rz n10 n37) = Some z"
  with ref_em_estado_final [of zi za rz n10 n37] show ?thesis
    by (simp add: resolver_sobreposicoes_eq [OF False] ref_em_def)
qed

lemma resolver_campos:
  "\<exists>zi za. zr_zona_principal (resolver tab rz rg n10 n37)
              = sb_zona_referencia (resolver_sobreposicoes zi za rz n10 n37)
         \<and> map za_codigo (zr_zonas_aplicadas (resolver tab rz rg n10 n37))
              = map za_codigo (sb_info_zonas (resolver_sobreposicoes zi za rz n10 n37))"
proof -
  have c: "(\<lambda>za. za_codigo (case tab (za_codigo za) of
                 None \<Rightarrow> za | Some param \<Rightarrow> za\<lparr>za_parametros := Some param\<rparr>)) = za_codigo"
    by (rule ext) (simp split: option.split)
  show ?thesis
    unfolding resolver_def Let_def
    by (intro exI) (simp add: comp_def c)
qed

lemma resolver_ref_in:
  "zr_zona_principal (resolver tab rz rg n10 n37) = Some z
   \<Longrightarrow> z \<in> za_codigo ` set (zr_zonas_aplicadas (resolver tab rz rg n10 n37))"
proof -
  assume a: "zr_zona_principal (resolver tab rz rg n10 n37) = Some z"
  from resolver_campos [of tab rz rg n10 n37] obtain zi za where
    r: "zr_zona_principal (resolver tab rz rg n10 n37)
          = sb_zona_referencia (resolver_sobreposicoes zi za rz n10 n37)"
       "map za_codigo (zr_zonas_aplicadas (resolver tab rz rg n10 n37))
          = map za_codigo (sb_info_zonas (resolver_sobreposicoes zi za rz n10 n37))"
    by blast
  from a r(1) have "z \<in> za_codigo ` set (sb_info_zonas (resolver_sobreposicoes zi za rz n10 n37))"
    by (simp add: sobre_ref_in)
  then have "z \<in> set (map za_codigo (sb_info_zonas (resolver_sobreposicoes zi za rz n10 n37)))"
    by simp
  then have "z \<in> set (map za_codigo (zr_zonas_aplicadas (resolver tab rz rg n10 n37)))"
    by (simp only: r(2))
  then show ?thesis by simp
qed

lemma classificar_zona_regra_especial:
  "classificar_zona_regra z = ''ESPECIAL'' \<longleftrightarrow> z \<noteq> [] \<and> startswith (strip (upper z)) ''ZE''"
  by (simp add: classificar_zona_regra_def Let_def)


lemma classificar_zona_especial_nao_vazia: "classificar_zona z = ''ESPECIAL'' \<Longrightarrow> z \<noteq> []"
  by (auto simp: classificar_zona_def)

lemma passo_especiais_ref:
  assumes "er_zona_ref st = None"
    and "map_option za_codigo (max_area (filter (\<lambda>z. za_tipo z = ''ESPECIAL'') info)) = Some z"
  shows "er_zona_ref (passo_especiais info st) = Some z"
proof -
  have "filter (\<lambda>z. za_tipo z = ''ESPECIAL'') info \<noteq> []"
    using assms(2) by (auto simp: max_area_def)
  then show ?thesis using assms by (simp add: passo_especiais_def Let_def)
qed

lemma passo_eixos_mantem:
  "er_zona_ref st = Some z \<Longrightarrow> er_zona_ref (passo_eixos info st) = Some z"
  by (simp add: passo_eixos_def Let_def)

lemma passo_ambientais_mantem:
  "er_zona_ref (passo_ambientais info st) = er_zona_ref st"
  by (simp add: passo_ambientais_def Let_def)

lemma passo_macros_urbanas_mantem:
  "er_zona_ref (passo_macros_urbanas info st) = er_zona_ref st"
  by (simp add: passo_macros_urbanas_def Let_def)

lemma passo_ordinarias_mantem:
  "er_zona_ref (passo_ordinarias info a st) = er_zona_ref st"
  by (simp add: passo_ordinarias_def Let_def)

lemma passo_coexistencia_simples_mantem:
  "er_zona_ref (passo_coexistencia_simples st) = er_zona_ref st"
  by (simp add: passo_coexistencia_simples_def)

lemma passo_zona_predominante_mantem:
  "er_zona_ref st = Some z \<Longrightarrow> er_zona_ref (passo_zona_predominante info st) = Some z"
  by (simp add: passo_zona_predominante_def)

lemma max_area_filtro:
  assumes "sorted cs" "z1 \<in> set cs" "classificar_zona z1 = tipo"
    and "\<forall>c\<in>set cs. classificar_zona c = tipo \<longrightarrow> get0 za c \<le> get0 za z1"
    and "\<forall>c\<in>set cs. classificar_zona c = tipo \<and> get0 za c = get0 za z1 \<longrightarrow> z1 \<le> c"
  shows "map_option za_codigo
           (max_area (filter (\<lambda>z. za_tipo z = tipo) (map (zona_aplicada za t n) cs)))
         = Some z1"
proof -
  let ?f = "zona_aplicada za t n"
  let ?zs = "map ?f (filter (\<lambda>c. classificar_zona c = tipo) cs)"
  have fm: "filter (\<lambda>z. za_tipo z = tipo) (map ?f cs) = ?zs"
    by (simp add: filter_map comp_def za_tipo_zona_aplicada)
  have cod: "map za_codigo ?zs = filter (\<lambda>c. classificar_zona c = tipo) cs"
    by (simp add: comp_def za_codigo_zona_aplicada)
  have s: "sorted (map za_codigo ?zs)"
    unfolding cod using assms(1) by (simp add: sorted_wrt_filter)
  have m: "?f z1 \<in> set ?zs" using assms(2,3) by simp
  have "map_option za_codigo (max_area ?zs) = Some (za_codigo (?f z1))"
    using s m
  proof (rule max_area_sorted)
    show "\<forall>y\<in>set ?zs. za_area_m2 y \<le> za_area_m2 (?f z1)"
      using assms(4) by (auto simp: za_area_zona_aplicada)
    show "\<forall>y\<in>set ?zs. za_area_m2 y = za_area_m2 (?f z1) \<longrightarrow> za_codigo (?f z1) \<le> za_codigo y"
      using assms(5) by (auto simp: za_area_zona_aplicada za_codigo_zona_aplicada)
  qed
  then show ?thesis by (simp add: fm za_codigo_zona_aplicada)
qed



section \<open>Claims about the overlap resolution\<close>




text \<open>
  C4 (as amended). With no note flag set, when two Special zones of equal incident area are
  incident and no Special zone has a larger area, the reference zone is the least code
  among the Special zones of that largest area: in the rulebook, when no frontage triggers
  Nota 37, and in the resolver, where the zones listed as axes and as special zones in the
  zoning result count as incident. The areas are those of \<open>ZoneIncidence\<close>, not negative.
\<close>

theorem C4_special_tie_break:
  assumes "\<not> nota10" and "\<not> nota37"
    and "z1 \<in> set zonas" and "z2 \<in> set zonas" and "z1 < z2"
    and "get0 areas z1 = get0 areas z2" and "0 \<le> get0 areas z1"
  shows "(\<not> acesso_lucio_deduzido vias
          \<and> classificar_zona_regra z1 = ''ESPECIAL'' \<and> classificar_zona_regra z2 = ''ESPECIAL''
          \<and> (\<forall>z\<in>set zonas. classificar_zona_regra z = ''ESPECIAL''
                \<longrightarrow> get0 areas z \<le> get0 areas z1 \<and> (get0 areas z = get0 areas z1 \<longrightarrow> z1 \<le> z))
          \<longrightarrow> zona_principal (aplicar_regra_sobreposicao zonas areas vias nota10 nota37)
                = Some z1)
       \<and> (classificar_zona z1 = ''ESPECIAL'' \<and> classificar_zona z2 = ''ESPECIAL''
          \<and> (\<forall>z\<in>set zonas \<union> set (rz_eixos res_zon) \<union> set (rz_especiais res_zon).
                classificar_zona z = ''ESPECIAL''
                \<longrightarrow> get0 areas z \<le> get0 areas z1 \<and> (get0 areas z = get0 areas z1 \<longrightarrow> z1 \<le> z))
          \<longrightarrow> sb_zona_referencia (resolver_sobreposicoes zonas areas res_zon nota10 nota37)
                = Some z1)"
proof (intro conjI impI)
  assume h: "\<not> acesso_lucio_deduzido vias
          \<and> classificar_zona_regra z1 = ''ESPECIAL'' \<and> classificar_zona_regra z2 = ''ESPECIAL''
          \<and> (\<forall>z\<in>set zonas. classificar_zona_regra z = ''ESPECIAL''
                \<longrightarrow> get0 areas z \<le> get0 areas z1 \<and> (get0 areas z = get0 areas z1 \<longrightarrow> z1 \<le> z))"
  have ne: "sorted_set zonas \<noteq> []" using assms(3) by (auto simp: sorted_set_Nil_iff)
  define zu where "zu = (if zonas_deduzidas vias \<noteq> []
                         then sorted_set (sorted_set zonas @ zonas_deduzidas vias)
                         else sorted_set zonas)"
  have r: "aplicar_regra_sobreposicao zonas areas vias nota10 nota37 = cascata_regras areas zu"
    using assms(1,2) h ne by (simp add: aplicar_regra_sobreposicao_def Let_def zu_def)
  have s: "sorted zu" by (simp add: zu_def sorted_sorted_set)
  have set_zu: "set zu \<subseteq> set zonas \<union> set (zonas_deduzidas vias)" "set zonas \<subseteq> set zu"
    by (auto simp: zu_def set_sorted_set)
  have esp: "z \<in> set zonas" if "z \<in> set zu" "classificar_zona_regra z = ''ESPECIAL''" for z
    using that set_zu(1) zonas_deduzidas_nao_especiais [of z vias] by auto
  have "zona_principal (cascata_regras areas zu) = Some z1
      \<and> tipo_regra (cascata_regras areas zu) = ''ZONA_ESPECIAL_PREDOMINANTE''"
    using s
  proof (rule cascata_especial)
    show "z1 \<in> set zu" using assms(3) set_zu(2) by auto
    show "classificar_zona_regra z1 = ''ESPECIAL''" using h by simp
    show "- 1 < get0 areas z1" using assms(7) by simp
    show "\<forall>z\<in>set zu. classificar_zona_regra z = ''ESPECIAL'' \<longrightarrow> get0 areas z \<le> get0 areas z1"
      using h esp by blast
    show "\<forall>z\<in>set zu. classificar_zona_regra z = ''ESPECIAL'' \<and> get0 areas z = get0 areas z1
            \<longrightarrow> z1 \<le> z"
      using h esp by blast
  qed
  then show "zona_principal (aplicar_regra_sobreposicao zonas areas vias nota10 nota37) = Some z1"
    by (simp add: r)
next
  assume h: "classificar_zona z1 = ''ESPECIAL'' \<and> classificar_zona z2 = ''ESPECIAL''
          \<and> (\<forall>z\<in>set zonas \<union> set (rz_eixos res_zon) \<union> set (rz_especiais res_zon).
                classificar_zona z = ''ESPECIAL''
                \<longrightarrow> get0 areas z \<le> get0 areas z1 \<and> (get0 areas z = get0 areas z1 \<longrightarrow> z1 \<le> z))"
  have z1: "z1 \<noteq> []" using h classificar_zona_especial_nao_vazia by blast
  then have ne: "filter (\<lambda>z. z \<noteq> []) zonas \<noteq> []"
    using assms(3) by (auto simp: filter_empty_conv)
  let ?cs = "sorted_set (zonas_do_resolvedor zonas res_zon nota10 nota37)"
  have set_cs: "set ?cs \<subseteq> set zonas \<union> set (rz_eixos res_zon) \<union> set (rz_especiais res_zon)"
      "z1 \<in> set ?cs"
    using assms(1,2,3) z1 by (auto simp: set_sorted_set zonas_do_resolvedor_def)
  have m: "map_option za_codigo
             (max_area (filter (\<lambda>z. za_tipo z = ''ESPECIAL'')
                          (info_do_resolvedor zonas areas res_zon nota10 nota37))) = Some z1"
    unfolding info_do_resolvedor_def
  proof (rule max_area_filtro)
    show "sorted ?cs" by (rule sorted_sorted_set)
    show "z1 \<in> set ?cs" by (rule set_cs(2))
    show "classificar_zona z1 = ''ESPECIAL''" using h by simp
    show "\<forall>c\<in>set ?cs. classificar_zona c = ''ESPECIAL'' \<longrightarrow> get0 areas c \<le> get0 areas z1"
      using h set_cs(1) by blast
    show "\<forall>c\<in>set ?cs. classificar_zona c = ''ESPECIAL'' \<and> get0 areas c = get0 areas z1
            \<longrightarrow> z1 \<le> c"
      using h set_cs(1) by blast
  qed
  have n: "er_zona_ref (passo_notas nota10 nota37) = None"
    using assms(1,2) by (simp add: passo_notas_def)
  have "er_zona_ref (estado_final zonas areas res_zon nota10 nota37) = Some z1"
    unfolding estado_final_def Let_def
    by (intro passo_zona_predominante_mantem passo_eixos_mantem passo_especiais_ref n m
        | simp only: passo_coexistencia_simples_mantem passo_ordinarias_mantem
            passo_macros_urbanas_mantem passo_ambientais_mantem)+
  then show "sb_zona_referencia (resolver_sobreposicoes zonas areas res_zon nota10 nota37) = Some z1"
    by (simp add: resolver_sobreposicoes_eq [OF ne])
qed

theorem C4_special_tie_break_witness:
  "zona_principal (aplicar_regra_sobreposicao [''ZE1'', ''ZE2'']
      [''ZE1'' \<mapsto> 300, ''ZE2'' \<mapsto> 300] [''Rua Manoel Felipe da Silva''] False False)
     = Some ''ZE1''
   \<and> sb_zona_referencia (resolver_sobreposicoes [''ZE1'', ''ZE2'']
      [''ZE1'' \<mapsto> 300, ''ZE2'' \<mapsto> 300]
      \<lparr>rz_zona = None, rz_macrozona = None, rz_eixos = [], rz_especiais = [],
       rz_mensagens = []\<rparr> False False) = Some ''ZE1''"
proof -
  let ?a = "[''ZE1'' \<mapsto> 300::real, ''ZE2'' \<mapsto> 300]"
  let ?rz = "\<lparr>rz_zona = None, rz_macrozona = None, rz_eixos = [], rz_especiais = [],
             rz_mensagens = []\<rparr>"
  let ?v = "[''Rua Manoel Felipe da Silva'']"
  have v: "\<not> acesso_lucio_deduzido ?v" by code_simp
  have lt: "''ZE1'' < ''ZE2''" by code_simp
  have r1: "classificar_zona_regra ''ZE1'' = ''ESPECIAL''" by code_simp
  have r2: "classificar_zona_regra ''ZE2'' = ''ESPECIAL''" by code_simp
  have c1: "classificar_zona ''ZE1'' = ''ESPECIAL''" by code_simp
  have c2: "classificar_zona ''ZE2'' = ''ESPECIAL''" by code_simp
  have le: "''ZE1'' \<le> ''ZE2''" using lt by simp
  show ?thesis
    using C4_special_tie_break [of False False "''ZE1''" "[''ZE1'', ''ZE2'']" "''ZE2''" ?a ?v ?rz]
      v lt le r1 r2 c1 c2
    by (simp add: get0_def)
qed

theorem C4_counterexample:
  "classificar_zona_regra ''ZE1'' = ''ESPECIAL'' \<and> classificar_zona_regra ''ZE2'' = ''ESPECIAL''
   \<and> classificar_zona ''ZE1'' = ''ESPECIAL'' \<and> classificar_zona ''ZE2'' = ''ESPECIAL''
   \<and> ''ZE1'' < ''ZE2''
   \<and> zona_principal (aplicar_regra_sobreposicao [''ZE1'', ''ZE2'', ''ZE3'']
        [''ZE1'' \<mapsto> 300, ''ZE2'' \<mapsto> 300, ''ZE3'' \<mapsto> 500] [] False False) = Some ''ZE3''
   \<and> sb_zona_referencia (resolver_sobreposicoes [''ZE1'', ''ZE2'', ''ZE3'']
        [''ZE1'' \<mapsto> 300, ''ZE2'' \<mapsto> 300, ''ZE3'' \<mapsto> 500]
        \<lparr>rz_zona = None, rz_macrozona = None, rz_eixos = [], rz_especiais = [],
         rz_mensagens = []\<rparr> False False) = Some ''ZE3''"
  by code_simp

text \<open>
  C5. Whatever the incident zones, their areas, the note flags and the frontage names, a
  reference zone that is present is among the zones of the result: among
  \<open>zonas_consideradas\<close> for the rulebook, among the codes of \<open>zonas_aplicadas\<close> for the
  resolver.
\<close>

theorem C5_reference_zone_is_applied:
  "(zona_principal (aplicar_regra_sobreposicao zonas areas vias nota10 nota37) = Some z
      \<longrightarrow> z \<in> set (zonas_consideradas
                     (aplicar_regra_sobreposicao zonas areas vias nota10 nota37)))
   \<and> (zr_zona_principal (resolver tab res_zon res_geom nota10 nota37) = Some z'
      \<longrightarrow> z' \<in> za_codigo ` set (zr_zonas_aplicadas
                                   (resolver tab res_zon res_geom nota10 nota37)))"
  using regra_ref_in [of zonas areas vias nota10 nota37 z]
    resolver_ref_in [of tab res_zon res_geom nota10 nota37 z']
  by blast

theorem C5_reference_zone_is_applied_witness:
  "zona_principal (aplicar_regra_sobreposicao [''MUQ2'', ''EU2'']
      [''MUQ2'' \<mapsto> 400, ''EU2'' \<mapsto> 100] [] True False) = Some ''ZEOT2''
   \<and> ''ZEOT2'' \<in> set (zonas_consideradas (aplicar_regra_sobreposicao [''MUQ2'', ''EU2'']
      [''MUQ2'' \<mapsto> 400, ''EU2'' \<mapsto> 100] [] True False))
   \<and> zr_zona_principal (resolver Map.empty
        \<lparr>rz_zona = Some ''MUQ2'', rz_macrozona = None, rz_eixos = [], rz_especiais = [],
         rz_mensagens = []\<rparr>
        \<lparr>rg_zonas = [''EU2'', ''MUQ2''], rg_areas_por_zona = [(''EU2'', 100), (''MUQ2'', 400)],
         rg_area_total_zoneada = 500, rg_percentuais = [(''EU2'', 20), (''MUQ2'', 80)]\<rparr>
        True False) = Some ''ZEOT2''
   \<and> ''ZEOT2'' \<in> za_codigo ` set (zr_zonas_aplicadas (resolver Map.empty
        \<lparr>rz_zona = Some ''MUQ2'', rz_macrozona = None, rz_eixos = [], rz_especiais = [],
         rz_mensagens = []\<rparr>
        \<lparr>rg_zonas = [''EU2'', ''MUQ2''], rg_areas_por_zona = [(''EU2'', 100), (''MUQ2'', 400)],
         rg_area_total_zoneada = 500, rg_percentuais = [(''EU2'', 20), (''MUQ2'', 80)]\<rparr>
        True False))"
proof -
  let ?rz = "\<lparr>rz_zona = Some ''MUQ2'', rz_macrozona = None, rz_eixos = [], rz_especiais = [],
         rz_mensagens = []\<rparr>"
  let ?rg = "\<lparr>rg_zonas = [''EU2'', ''MUQ2''], rg_areas_por_zona = [(''EU2'', 100), (''MUQ2'', 400)],
         rg_area_total_zoneada = 500, rg_percentuais = [(''EU2'', 20), (''MUQ2'', 80)]\<rparr>"
  have a: "zona_principal (aplicar_regra_sobreposicao [''MUQ2'', ''EU2'']
      [''MUQ2'' \<mapsto> 400, ''EU2'' \<mapsto> 100] [] True False) = Some ''ZEOT2''"
    by code_simp
  have b: "zr_zona_principal (resolver Map.empty ?rz ?rg True False) = Some ''ZEOT2''"
    by code_simp
  from C5_reference_zone_is_applied [of "[''MUQ2'', ''EU2'']" "[''MUQ2'' \<mapsto> 400, ''EU2'' \<mapsto> 100]"
      "[]" True False "''ZEOT2''" Map.empty ?rz ?rg "''ZEOT2''"] a b
  show ?thesis by blast
qed

section \<open>Claims about the compliance evaluation\<close>

lemma bloco_ca_campo:
  "\<forall>p\<in>set (fst (bloco_ca z pz a ac)). campo_da_pendencia p = CampoCA \<and> ac \<noteq> None"
  by (auto simp: bloco_ca_def Let_def split: option.splits if_splits)

lemma bloco_tocup_campo:
  "\<forall>p\<in>set (fst (bloco_tocup z pz a ao)). campo_da_pendencia p = CampoTocup \<and> ao \<noteq> None"
  by (auto simp: bloco_tocup_def Let_def split: option.splits if_splits)

lemma bloco_tperm_campo:
  "\<forall>p\<in>set (fst (bloco_tperm z pz a ap)). campo_da_pendencia p = CampoTperm \<and> ap \<noteq> None"
  by (auto simp: bloco_tperm_def Let_def split: option.splits if_splits)

lemma bloco_npav_campo:
  "\<forall>p\<in>set (fst (bloco_npav z pz np)). campo_da_pendencia p = CampoNpav \<and> np \<noteq> None"
  by (auto simp: bloco_npav_def split: option.splits if_splits)

lemma bloco_gab_campo:
  "\<forall>p\<in>set (fst (bloco_gab z pz alt)). campo_da_pendencia p = CampoGab \<and> alt \<noteq> None"
  by (auto simp: bloco_gab_def split: option.splits if_splits)

lemma pendencia_de_campo_informado:
  assumes "avaliar_edificacao_na_zona z pz a ac ao ap alt np = Inr r"
    and "p \<in> set (av_pendencias r)"
  shows "\<not> campo_omitido ac ao ap alt np (campo_da_pendencia p)"
proof -
  from assms have "p \<in> set (fst (bloco_ca z pz a ac)) \<or> p \<in> set (fst (bloco_tocup z pz a ao))
      \<or> p \<in> set (fst (bloco_tperm z pz a ap)) \<or> p \<in> set (fst (bloco_npav z pz np))
      \<or> p \<in> set (fst (bloco_gab z pz alt))"
    by (auto simp: avaliar_edificacao_na_zona_def Let_def split: if_splits)
  then show ?thesis
    using bloco_ca_campo [of z pz a ac] bloco_tocup_campo [of z pz a ao]
      bloco_tperm_campo [of z pz a ap] bloco_npav_campo [of z pz np]
      bloco_gab_campo [of z pz alt]
    by auto
qed

lemma observacao_de_campo_omitido:
  assumes "avaliar_edificacao_na_zona z pz a ac ao ap alt np = Inr r"
    and "campo_omitido ac ao ap alt np c"
  shows "NaoAvaliado c \<in> set (av_observacoes r)"
  using assms
  by (cases c)
    (auto simp: avaliar_edificacao_na_zona_def Let_def bloco_ca_def bloco_tocup_def
      bloco_tperm_def bloco_npav_def bloco_gab_def split: if_splits)

text \<open>
  C6. With a positive parcel area the evaluation returns a result; its \<open>conforme\<close> flag is
  true exactly when \<open>pendencias\<close> is empty; and each of the five quantities whose scenario
  argument is \<open>None\<close> has its advisory in \<open>observacoes\<close> and no violation in \<open>pendencias\<close>.
\<close>

theorem C6_compliant_iff_no_violation:
  assumes "0 < area_lote"
  shows "\<exists>r. avaliar_edificacao_na_zona zona parametros area_lote ac ao ap alt np = Inr r
       \<and> (av_conforme r \<longleftrightarrow> av_pendencias r = [])
       \<and> (\<forall>c. campo_omitido ac ao ap alt np c
              \<longrightarrow> NaoAvaliado c \<in> set (av_observacoes r)
                \<and> (\<forall>p\<in>set (av_pendencias r). campo_da_pendencia p \<noteq> c))"
proof -
  from assms obtain r where
    r: "avaliar_edificacao_na_zona zona parametros area_lote ac ao ap alt np = Inr r"
    by (auto simp: avaliar_edificacao_na_zona_def Let_def)
  have "av_conforme r \<longleftrightarrow> av_pendencias r = []"
    using r assms by (auto simp: avaliar_edificacao_na_zona_def Let_def)
  moreover have "NaoAvaliado c \<in> set (av_observacoes r)
                \<and> (\<forall>p\<in>set (av_pendencias r). campo_da_pendencia p \<noteq> c)"
    if "campo_omitido ac ao ap alt np c" for c
    using that observacao_de_campo_omitido [OF r that] pendencia_de_campo_informado [OF r]
    by auto
  ultimately show ?thesis using r by blast
qed

theorem C6_compliant_iff_no_violation_witness:
  "(0::real) < 500
   \<and> (\<exists>r. avaliar_edificacao_na_zona ''MUQ2''
              \<lparr>codigo = ''MUQ2'', CA_min = None, CA_bas = Some 1, CA_max = Some 1,
               Tperm = Some (2 / 10), Tocup = Some (6 / 10), Npav_bas = Some 2,
               Npav_max = Some 4, Gab_bas = None, Gab_max = Some 15, extras = []\<rparr>
              500 (Some 600) None None None None = Inr r
          \<and> \<not> av_conforme r
          \<and> av_pendencias r = [PendCASuperior (12 / 10) 1 ''MUQ2'']
          \<and> av_observacoes r = [NaoAvaliado CampoTocup, NaoAvaliado CampoTperm,
                                 NaoAvaliado CampoNpav, NaoAvaliado CampoGab])"
proof -
  let ?pz = "\<lparr>codigo = ''MUQ2'', CA_min = None, CA_bas = Some 1, CA_max = Some 1,
               Tperm = Some (2 / 10), Tocup = Some (6 / 10), Npav_bas = Some 2,
               Npav_max = Some 4, Gab_bas = None, Gab_max = Some 15, extras = []\<rparr>"
  have h: "(0::real) < 500" by simp
  from C6_compliant_iff_no_violation [OF h, of "''MUQ2''" ?pz "Some 600" None None None None]
  obtain r where r: "avaliar_edificacao_na_zona ''MUQ2'' ?pz 500 (Some 600) None None None None
                       = Inr r"
    and c: "av_conforme r \<longleftrightarrow> av_pendencias r = []" by blast
  have p: "av_pendencias r = [PendCASuperior (12 / 10) 1 ''MUQ2'']"
      "av_observacoes r = [NaoAvaliado CampoTocup, NaoAvaliado CampoTperm,
                           NaoAvaliado CampoNpav, NaoAvaliado CampoGab]"
    using r by (auto simp: avaliar_edificacao_na_zona_def Let_def bloco_ca_def bloco_tocup_def
        bloco_tperm_def bloco_npav_def bloco_gab_def)
  with c have "\<not> av_conforme r" by simp
  with r p show ?thesis by auto
qed

section \<open>Claims about the parameter table\<close>
















section \<open>Claims about the zone decomposition\<close>

lemma update_mem:
  "(z, a) \<in> set (AList.update k v al) \<Longrightarrow> (z, a) = (k, v) \<or> (z, a) \<in> set al"
  by (induction al) (auto split: if_splits)

lemma acumular_areas_positivas:
  "\<forall>(z, a)\<in>set areas. 0 < a \<Longrightarrow> \<forall>(z, a)\<in>set (acumular_areas campo feats areas). 0 < a"
proof (induction feats arbitrary: areas)
  case Nil
  then show ?case by simp
next
  case (Cons feat feats)
  show ?case
  proof (cases "fz_geom_vazia feat \<or> \<not> fz_intersecta feat \<or> fz_inter_vazia feat
      \<or> fz_area_inter feat \<le> 0 \<or> strip (fz_atributo feat campo) = []")
    case True
    then show ?thesis using Cons.IH [OF Cons.prems] by (auto simp: Let_def)
  next
    case False
    let ?cod = "strip (fz_atributo feat campo)"
    let ?v = "(case map_of areas ?cod of Some a \<Rightarrow> a | None \<Rightarrow> 0) + fz_area_inter feat"
    have "0 \<le> (case map_of areas ?cod of Some a \<Rightarrow> a | None \<Rightarrow> 0)"
      using Cons.prems by (auto split: option.splits dest!: map_of_SomeD)
    then have v: "0 < ?v" using False by auto
    have "\<forall>(z, a)\<in>set (AList.update ?cod ?v areas). 0 < a"
      using Cons.prems v by (auto dest!: update_mem)
    from Cons.IH [OF this] show ?thesis using False by (simp add: Let_def)
  qed
qed

text \<open>
  C9. The decomposition returns the empty result, not an error, when the zoning layer is
  absent or is not a vector layer or has no zone-code field; the model has no failure
  value, the function has no \<open>raise\<close>. Every area it returns is strictly positive, and the
  zones it lists are the keys of those areas.
\<close>

theorem C9_decomposition_empty_or_positive:
  "(camada = None \<or> camada = Some NaoVetorial \<or> detectar_campo_codigo_zona camada campo = None
      \<longrightarrow> calcular_zoneamento_incidente lote camada campo = resultado_geom_vazio)
   \<and> (\<forall>(z, a)\<in>set (rg_areas_por_zona (calcular_zoneamento_incidente lote camada campo)). 0 < a)
   \<and> set (rg_zonas (calcular_zoneamento_incidente lote camada campo))
       = fst ` set (rg_areas_por_zona (calcular_zoneamento_incidente lote camada campo))"
proof (intro conjI)
  show "camada = None \<or> camada = Some NaoVetorial \<or> detectar_campo_codigo_zona camada campo = None
      \<longrightarrow> calcular_zoneamento_incidente lote camada campo = resultado_geom_vazio"
    by (auto simp: calcular_zoneamento_incidente_def split: option.splits camada.splits)
  have p: "\<forall>(z, a)\<in>set (acumular_areas c fs []). 0 < a" for c fs
    by (rule acumular_areas_positivas) simp
  show "\<forall>(z, a)\<in>set (rg_areas_por_zona (calcular_zoneamento_incidente lote camada campo)). 0 < a"
    using p
    by (simp add: calcular_zoneamento_incidente_def resultado_geom_vazio_def Let_def
        split: option.splits camada.splits)
  show "set (rg_zonas (calcular_zoneamento_incidente lote camada campo))
       = fst ` set (rg_areas_por_zona (calcular_zoneamento_incidente lote camada campo))"
    by (simp add: calcular_zoneamento_incidente_def resultado_geom_vazio_def Let_def
        split: option.splits camada.splits)
qed

theorem C9_decomposition_empty_or_positive_witness:
  "calcular_zoneamento_incidente
     (Some \<lparr>g_vazia = False, g_forma = Poligono [[(0, 0), (10, 0), (10, 10), (0, 10), (0, 0)]],
            g_contem = (\<lambda>p. False)\<rparr>) None None = resultado_geom_vazio
   \<and> rg_areas_por_zona (calcular_zoneamento_incidente
        (Some \<lparr>g_vazia = False, g_forma = Poligono [[(0, 0), (10, 0), (10, 10), (0, 10), (0, 0)]],
               g_contem = (\<lambda>p. False)\<rparr>)
        (Some (Vetorial \<lparr>cv_campos = [''id'', ''ZONA''], cv_feicoes =
           [\<lparr>fz_geom_vazia = False, fz_intersecta = True, fz_inter_vazia = False,
             fz_area_inter = 60, fz_atributo = (\<lambda>c. if c = ''ZONA'' then '' MUQ2 '' else ''7'')\<rparr>,
            \<lparr>fz_geom_vazia = False, fz_intersecta = True, fz_inter_vazia = False,
             fz_area_inter = 0, fz_atributo = (\<lambda>c. if c = ''ZONA'' then ''EU2'' else ''8'')\<rparr>,
            \<lparr>fz_geom_vazia = False, fz_intersecta = True, fz_inter_vazia = False,
             fz_area_inter = 40, fz_atributo = (\<lambda>c. if c = ''ZONA'' then ''MUQ2'' else ''9'')\<rparr>]\<rparr>))
        None) = [(''MUQ2'', 100)]"
proof -
  let ?g = "Some \<lparr>g_vazia = False,
                  g_forma = Poligono [[(0, 0), (10, 0), (10, 10), (0, 10), (0::real, 0::real)]],
                  g_contem = (\<lambda>p. False)\<rparr>"
  have a: "calcular_zoneamento_incidente ?g None None = resultado_geom_vazio"
    using C9_decomposition_empty_or_positive [of None None ?g] by simp
  show ?thesis
    unfolding a by code_simp
qed

section \<open>Claims about the boundary classification\<close>

lemma comprimento_nonneg: "0 \<le> comprimento seg"
  by (cases seg) (auto simp: comprimento_def split: prod.splits)

lemma classificar_segmento_Some:
  assumes "classificar_segmento lote cl cv d i seg = Some s"
  shows "(tipo_limite s = ''TESTADA'' \<or> tipo_limite s = ''DIVISA'')
       \<and> comprimento_m s = comprimento seg \<and> 0 < comprimento seg \<and> id_segmento s = i"
  using assms
  by (auto simp: classificar_segmento_def Let_def split: if_splits option.splits prod.splits)

lemma classificar_segmento_None:
  "classificar_segmento lote cl cv d i seg = None \<longleftrightarrow> comprimento seg \<le> 0"
  by (auto simp: classificar_segmento_def Let_def split: if_splits option.splits prod.splits)

lemma soma_classificados:
  "sum_list (map comprimento_m
     (List.map_filter (\<lambda>(i, seg). classificar_segmento lote cl cv d i seg) ps))
   = sum_list (map (\<lambda>(i, seg). comprimento seg) ps)"
proof (induction ps)
  case Nil
  then show ?case by simp
next
  case (Cons p ps)
  obtain i seg where p: "p = (i, seg)" by (cases p)
  show ?case
  proof (cases "classificar_segmento lote cl cv d i seg")
    case None
    then have "comprimento seg = 0"
      using comprimento_nonneg [of seg] by (simp add: classificar_segmento_None)
    then show ?thesis using None Cons.IH by (simp add: p)
  next
    case (Some s)
    then show ?thesis
      using classificar_segmento_Some [OF Some] Cons.IH by (simp add: p)
  qed
qed

lemma classificados_mem:
  assumes "s \<in> set (List.map_filter (\<lambda>(i, seg). classificar_segmento lote cl cv d i seg) ps)"
  shows "(tipo_limite s = ''TESTADA'' \<or> tipo_limite s = ''DIVISA'') \<and> 0 < comprimento_m s"
proof -
  from assms obtain i seg where "classificar_segmento lote cl cv d i seg = Some s"
    by (auto simp: List.map_filter_def)
  from classificar_segmento_Some [OF this] show ?thesis by auto
qed

lemma soma_segmentos_do_anel:
  "sum_list (map comprimento (segmentos_do_anel ring)) = perimetro_anel ring"
proof (cases "length ring < 2")
  case True
  then have "length ring - 1 = 0" by simp
  then show ?thesis using True by (simp add: segmentos_do_anel_def perimetro_anel_def)
next
  case False
  have l: "length (zip ring (tl ring)) = length ring - 1" by simp
  have "sum_list (map comprimento (zip ring (tl ring)))
      = (\<Sum>i = 0..<length ring - 1. map comprimento (zip ring (tl ring)) ! i)"
    using sum_list_sum_nth [of "map comprimento (zip ring (tl ring))"] by (simp only: length_map l)
  also have "\<dots> = (\<Sum>i = 0..<length ring - 1. comprimento (ring ! i, ring ! Suc i))"
    by (rule sum.cong) (auto simp: nth_tl)
  finally show ?thesis
    using False by (simp add: segmentos_do_anel_def perimetro_anel_def atLeast0LessThan)
qed

lemma soma_segmentar_borda:
  "\<not> g_vazia lote
   \<Longrightarrow> sum_list (map comprimento (segmentar_borda_lote (Some lote))) = perimetro lote"
proof -
  assume a: "\<not> g_vazia lote"
  have r: "sum_list (map comprimento (concat (map segmentos_do_anel poly)))
           = sum_list (map perimetro_anel poly)" for poly
    by (induction poly) (simp_all add: soma_segmentos_do_anel)
  have m: "sum_list (map comprimento
             (concat (map (\<lambda>poly. concat (map segmentos_do_anel poly)) mpol)))
           = sum_list (map (\<lambda>poly. sum_list (map perimetro_anel poly)) mpol)" for mpol
    by (induction mpol) (simp_all add: r)
  show ?thesis
    using a by (simp add: segmentar_borda_lote_def perimetro_def r m split: forma.splits)
qed

lemma soma_zip_indices:
  "sum_list (map (\<lambda>(i, seg). comprimento seg) (zip [1..<Suc (length segs)] segs))
   = sum_list (map comprimento segs)"
proof -
  have "map (\<lambda>(i, seg). comprimento seg) (zip [1..<Suc (length segs)] segs)
      = map comprimento (map snd (zip [1..<Suc (length segs)] segs))"
    by (simp add: case_prod_beta comp_def)
  also have "map snd (zip [1..<Suc (length segs)] segs) = segs"
  proof (rule map_snd_zip)
    show "length [1..<Suc (length segs)] = length segs"
      unfolding length_upt by simp
  qed
  finally show ?thesis by simp
qed

text \<open>
  C8. For a parcel that is not empty, whatever the two layers and the search distance:
  every segment returned is a \<open>TESTADA\<close> or a \<open>DIVISA\<close>, every segment returned has a
  positive length (the others are skipped and the function goes on), and the lengths
  returned add up to the perimeter of the parcel. Lengths are exact reals here, so the
  equality holds without a tolerance.
\<close>

theorem C8_boundary_partition:
  assumes "\<not> g_vazia lote"
  shows "(\<forall>s\<in>set (segmentos (calcular_testadas_e_logradouros (Some lote) cl cv d)).
            (tipo_limite s = ''TESTADA'' \<or> tipo_limite s = ''DIVISA'') \<and> 0 < comprimento_m s)
       \<and> sum_list (map comprimento_m
            (segmentos (calcular_testadas_e_logradouros (Some lote) cl cv d)))
          = perimetro lote"
proof -
  let ?segs = "segmentar_borda_lote (Some lote)"
  let ?rs = "List.map_filter (\<lambda>(i, seg). classificar_segmento (Some lote) cl cv d i seg)
               (zip [1..<Suc (length ?segs)] ?segs)"
  have s: "segmentos (calcular_testadas_e_logradouros (Some lote) cl cv d) = ?rs"
    using assms
    by (simp add: calcular_testadas_e_logradouros_def Let_def split: prod.splits)
  have "sum_list (map comprimento_m ?rs) = perimetro lote"
    by (simp only: soma_classificados soma_zip_indices soma_segmentar_borda [OF assms])
  then show ?thesis
    unfolding s using classificados_mem [of _ "Some lote" cl cv d] by blast
qed

theorem C8_boundary_partition_witness:
  "map tipo_limite (segmentos (calcular_testadas_e_logradouros
      (Some \<lparr>g_vazia = False, g_forma = Poligono [[(0, 0), (3, 0), (3, 0), (3, 4), (0, 0)]],
             g_contem = (\<lambda>p. False)\<rparr>) None None 20))
     = [''DIVISA'', ''DIVISA'', ''DIVISA'']
   \<and> map id_segmento (segmentos (calcular_testadas_e_logradouros
      (Some \<lparr>g_vazia = False, g_forma = Poligono [[(0, 0), (3, 0), (3, 0), (3, 4), (0, 0)]],
             g_contem = (\<lambda>p. False)\<rparr>) None None 20))
     = [1, 3, 4]
   \<and> sum_list (map comprimento_m (segmentos (calcular_testadas_e_logradouros
      (Some \<lparr>g_vazia = False, g_forma = Poligono [[(0, 0), (3, 0), (3, 0), (3, 4), (0, 0)]],
             g_contem = (\<lambda>p. False)\<rparr>) None None 20)))
     = 12"
proof -
  let ?g = "\<lparr>g_vazia = False,
             g_forma = Poligono [[(0, 0), (3, 0), (3, 0), (3, 4), (0::real, 0::real)]],
             g_contem = (\<lambda>p. False)\<rparr>"
  have s9: "sqrt 9 = 3" by (rule real_sqrt_unique) simp_all
  have s16: "sqrt 16 = 4" by (rule real_sqrt_unique) simp_all
  have s25: "sqrt 25 = 5" by (rule real_sqrt_unique) simp_all
  have p: "perimetro ?g = 12"
    by (simp add: perimetro_def perimetro_anel_def comprimento_def lessThan_Suc s9 s16 s25
        numeral_eq_Suc)
  have i: "[1..<5] = [1, 2, 3, 4]" by (simp add: upt_rec)
  have n: "\<not> g_vazia ?g" by simp
  have t: "map tipo_limite (segmentos (calcular_testadas_e_logradouros (Some ?g) None None 20))
             = [''DIVISA'', ''DIVISA'', ''DIVISA'']
     \<and> map id_segmento (segmentos (calcular_testadas_e_logradouros (Some ?g) None None 20))
             = [1, 3, 4]"
    by (simp add: calcular_testadas_e_logradouros_def segmentar_borda_lote_def
        segmentos_do_anel_def classificar_segmento_def comprimento_def Let_def i
        normal_e_ponto_fora_def ponto_medio_def ponto_cai_em_algum_lote_def
        logradouro_do_segmento_def s9 s16 s25 split: prod.splits)
  from C8_boundary_partition [OF n, of None None 20] p t show ?thesis by simp
qed

section \<open>Claims about the orchestrator\<close>

text \<open>
  Step 2.3 lowers the frontage names before the search: a name in capitals, with its
  accented capital, announces Nota 37 as well.
\<close>

lemma frente_em_maiusculas:
  "detectar_frentes
     (Some \<lparr>segmentos = [],
            testadas_por_logradouro =
              [(''RUA L'' @ [CHR 0xC3, CHR 0x9A] @ ''CIO JOAQUIM MENDES'', 20)],
            confrontantes_por_proprietario = []\<rparr>) = (False, True, None)"
  by code_simp

lemma resolver_protegido_None:
  "resolver_protegido tab res_zon rg (escopo_analisar_lote n10) = None"
  by (simp add: resolver_protegido_def ler_nome_def escopo_analisar_lote_def)

text \<open>
  What \<open>analisar_lote\<close> returns on a parcel that is not empty, when the parameter file
  loads (or is not opened, there being no zoning layer).
\<close>

lemma analisar_lote_eq:
  assumes "\<not> g_vazia g"
    and "amb_camada_zoneamento amb = None
         \<or> (\<exists>tab. carregar_parametros_de_arquivo (amb_parametros_json amb) = Inr tab)"
  shows "analisar_lote (Some g) cenario amb n10 d =
     Inr \<lparr>zoneamento_intersecao =
            snd (analise_inclinacao g (amb_camada_inclinacao amb) cenario
                   (acrescentar MsgSemZonaReferencia (amb_intersecao_zoneamento amb))),
          zoneamento_avaliacao = None,
          app = amb_intersecao_app amb,
          risco = amb_intersecao_risco amb,
          zoneamento_geom =
            (case amb_camada_zoneamento amb of
               Some camada \<Rightarrow> Some (calcular_zoneamento_incidente (Some g)
                                      (amb_camada_zoneamento amb) None)
             | None \<Rightarrow> None),
          zona_resolvida = None,
          testadas =
            (case amb_camada_lotes amb of
               Some camada \<Rightarrow> Some (calcular_testadas_e_logradouros (Some g)
                                      (amb_camada_lotes amb) (amb_camada_logradouros amb) d)
             | None \<Rightarrow> None),
          inclinacao =
            fst (analise_inclinacao g (amb_camada_inclinacao amb) cenario
                   (acrescentar MsgSemZonaReferencia (amb_intersecao_zoneamento amb))),
          detectou_frente_nota_10 = fst (detectar_frentes
            (case amb_camada_lotes amb of
               Some camada \<Rightarrow> Some (calcular_testadas_e_logradouros (Some g)
                                      (amb_camada_lotes amb) (amb_camada_logradouros amb) d)
             | None \<Rightarrow> None)),
          detectou_frente_nota_37 = fst (snd (detectar_frentes
            (case amb_camada_lotes amb of
               Some camada \<Rightarrow> Some (calcular_testadas_e_logradouros (Some g)
                                      (amb_camada_lotes amb) (amb_camada_logradouros amb) d)
             | None \<Rightarrow> None))),
          nome_via_nota_10 = snd (snd (detectar_frentes
            (case amb_camada_lotes amb of
               Some camada \<Rightarrow> Some (calcular_testadas_e_logradouros (Some g)
                                      (amb_camada_lotes amb) (amb_camada_logradouros amb) d)
             | None \<Rightarrow> None)))\<rparr>"
proof -
  have z: "(case (case amb_camada_zoneamento amb of
                    Some camada \<Rightarrow> Some (calcular_zoneamento_incidente (Some g)
                                           (amb_camada_zoneamento amb) None)
                  | None \<Rightarrow> None) of
              None \<Rightarrow> Inr None
            | Some rg \<Rightarrow>
                (case carregar_parametros_de_arquivo (amb_parametros_json amb) of
                   Inl e \<Rightarrow> Inl e
                 | Inr parametros_por_zona \<Rightarrow>
                     Inr (resolver_protegido parametros_por_zona (amb_intersecao_zoneamento amb) rg
                            (escopo_analisar_lote n10)))) = Inr None"
    using assms(2) by (auto simp: resolver_protegido_None split: option.splits)
  show ?thesis
    using assms(1)
    unfolding analisar_lote_def Let_def
    by (simp add: z avaliacao_numerica_def integrar_mensagens_def split: prod.splits)
qed

text \<open>
  C1. The claim fails on the code: the call of the resolver reads the names
  \<open>nota10_ativada\<close> and \<open>nota37_ativada\<close>, which the function does not bind, so the
  \<open>try\<close> block ends in its handler and the result carries neither a resolved zoning nor
  a compliance result. The theorem is the run on a parcel inside one \<open>MUQ2\<close> zone of
  500 square metres, with the parameters of \<open>MUQ2\<close> in the table; the last line is what
  the resolver itself returns on the same decomposition.
\<close>

theorem C1_resolver_never_runs:
  "\<exists>r. analisar_lote
          (Some \<lparr>g_vazia = False,
                 g_forma = Poligono [[(0, 0), (25, 0), (25, 20), (0, 20), (0, 0)]],
                 g_contem = (\<lambda>p. False)\<rparr>)
          \<lparr>area_lote_m2 = 500, area_construida_total_m2 = Some 600,
           area_ocupada_projecao_m2 = None, area_permeavel_m2 = None,
           altura_maxima_m = None, numero_pavimentos = None\<rparr>
          \<lparr>amb_camada_zoneamento = Some (Vetorial \<lparr>cv_campos = [''ZONA''], cv_feicoes =
             [\<lparr>fz_geom_vazia = False, fz_intersecta = True, fz_inter_vazia = False,
               fz_area_inter = 500, fz_atributo = (\<lambda>c. ''MUQ2'')\<rparr>]\<rparr>),
           amb_camada_lotes = None, amb_camada_logradouros = None,
           amb_camada_inclinacao = None,
           amb_intersecao_zoneamento = \<lparr>rz_zona = Some ''MUQ2'', rz_macrozona = None,
             rz_eixos = [], rz_especiais = [], rz_mensagens = []\<rparr>,
           amb_intersecao_app = (), amb_intersecao_risco = (),
           amb_parametros_json = [(''MUQ2'', Some [(''CA_max'', JNum 1)])]\<rparr>
          False 20 = Inr r
      \<and> zoneamento_geom r = Some \<lparr>rg_zonas = [''MUQ2''], rg_areas_por_zona = [(''MUQ2'', 500)],
                                   rg_area_total_zoneada = 500,
                                   rg_percentuais = [(''MUQ2'', 100)]\<rparr>
      \<and> zona_resolvida r = None
      \<and> zoneamento_avaliacao r = None
      \<and> zr_zona_principal (resolver Map.empty
            \<lparr>rz_zona = Some ''MUQ2'', rz_macrozona = None,
             rz_eixos = [], rz_especiais = [], rz_mensagens = []\<rparr>
            \<lparr>rg_zonas = [''MUQ2''], rg_areas_por_zona = [(''MUQ2'', 500)],
             rg_area_total_zoneada = 500, rg_percentuais = [(''MUQ2'', 100)]\<rparr>
            False False) = Some ''MUQ2''"
proof -
  let ?g = "\<lparr>g_vazia = False,
             g_forma = Poligono [[(0, 0), (25, 0), (25, 20), (0, 20), (0::real, 0::real)]],
             g_contem = (\<lambda>p. False)\<rparr>"
  let ?cz = "Some (Vetorial \<lparr>cv_campos = [''ZONA''], cv_feicoes =
             [\<lparr>fz_geom_vazia = False, fz_intersecta = True, fz_inter_vazia = False,
               fz_area_inter = 500, fz_atributo = (\<lambda>c. ''MUQ2'')\<rparr>]\<rparr>)"
  have a: "calcular_zoneamento_incidente (Some ?g) ?cz None
      = \<lparr>rg_zonas = [''MUQ2''], rg_areas_por_zona = [(''MUQ2'', 500)],
         rg_area_total_zoneada = 500, rg_percentuais = [(''MUQ2'', 100)]\<rparr>"
    by code_simp
  have b: "\<exists>tab. carregar_parametros_de_arquivo [(''MUQ2'', Some [(''CA_max'', JNum 1)])] = Inr tab"
    by (simp add: carregar_parametros_de_arquivo_def parametros_de_indices_def conv_npav_def)
  have c: "zr_zona_principal (resolver Map.empty
            \<lparr>rz_zona = Some ''MUQ2'', rz_macrozona = None,
             rz_eixos = [], rz_especiais = [], rz_mensagens = []\<rparr>
            \<lparr>rg_zonas = [''MUQ2''], rg_areas_por_zona = [(''MUQ2'', 500)],
             rg_area_total_zoneada = 500, rg_percentuais = [(''MUQ2'', 100)]\<rparr>
            False False) = Some ''MUQ2''"
    by code_simp
  show ?thesis
    by (subst analisar_lote_eq) (simp_all add: a b c)
qed

text \<open>
  C2. The claim fails on the code when the slope layer is missing: \<open>analisar_lote\<close> then
  builds six bands from the parcel area alone. The theorem is the run on a parcel of 500
  square metres with no slope layer registered: the bands of 200, 125, 75, 50, 35 and 15
  square metres, a protected area of 15, and the single message that marks example data.
\<close>

theorem C2_example_bands_without_layer:
  "\<exists>r. analisar_lote
          (Some \<lparr>g_vazia = False,
                 g_forma = Poligono [[(0, 0), (25, 0), (25, 20), (0, 20), (0, 0)]],
                 g_contem = (\<lambda>p. False)\<rparr>)
          \<lparr>area_lote_m2 = 500, area_construida_total_m2 = None,
           area_ocupada_projecao_m2 = None, area_permeavel_m2 = None,
           altura_maxima_m = None, numero_pavimentos = None\<rparr>
          \<lparr>amb_camada_zoneamento = None, amb_camada_lotes = None,
           amb_camada_logradouros = None, amb_camada_inclinacao = None,
           amb_intersecao_zoneamento = \<lparr>rz_zona = None, rz_macrozona = None,
             rz_eixos = [], rz_especiais = [],
             rz_mensagens = [MsgCamadaZoneamentoNaoEncontrada]\<rparr>,
           amb_intersecao_app = (), amb_intersecao_risco = (),
           amb_parametros_json = []\<rparr>
          False 20 = Inr r
      \<and> (\<exists>res. inclinacao r = Some res
            \<and> map (\<lambda>f. (fx_faixa f, fx_area_m2 f, fx_percentual f)) (inc_faixas res)
                = [(1, 200, 40), (2, 125, 25), (3, 75, 15), (4, 50, 10), (5, 35, 7), (6, 15, 3)]
            \<and> inc_area_total_m2 res = 500
            \<and> inc_area_app_inclinacao_m2 res = 15
            \<and> inc_tem_app_por_inclinacao res
            \<and> inc_mensagens res = [IncDadosDeExemplo]
            \<and> (\<forall>m. res \<noteq> resultado_erro_objeto m))"
proof -
  have r: "arredondar 1500 = 1500"
    by (simp add: arredondar_def Let_def)
  show ?thesis
    by (subst analisar_lote_eq)
      (simp_all add: analise_inclinacao_def inclinacao_de_exemplo_def faixas_exemplo_def
        Let_def round2_def r resultado_erro_objeto_def)
qed

text \<open>
  The other cases of the claim hold: an invalid raster, a raster that does not cover the
  parcel and a raster with no valid pixel inside the parcel all end in
  \<open>_resultado_erro_objeto\<close>, with one message and no band.
\<close>

lemma contar_pixels_sem_validos:
  assumes "\<forall>(dentro, valor)\<in>set pixels.
             dentro \<longrightarrow> (\<exists>nd. nodata = Some nd \<and> \<bar>valor - nd\<bar> < 1 / 10000)"
  shows "snd (snd (contar_pixels nodata pixels (cs, t, v))) = v"
  using assms
proof (induction pixels arbitrary: cs t v)
  case Nil
  then show ?case by simp
next
  case (Cons p pixels)
  obtain dentro valor where p: "p = (dentro, valor)" by (cases p)
  from Cons.prems have rest: "\<forall>(dentro, valor)\<in>set pixels.
             dentro \<longrightarrow> (\<exists>nd. nodata = Some nd \<and> \<bar>valor - nd\<bar> < 1 / 10000)" by simp
  from Cons.prems p have h: "dentro \<longrightarrow> (\<exists>nd. nodata = Some nd \<and> \<bar>valor - nd\<bar> < 1 / 10000)"
    by simp
  show ?case
    using h Cons.IH [OF rest] by (auto simp: p)
qed

lemma inclinacao_indisponivel:
  assumes "\<not> cr_valida camada \<or> \<not> cr_cobre_lote camada
         \<or> (\<forall>(dentro, valor)\<in>set (cr_pixels camada).
              dentro \<longrightarrow> (\<exists>nd. cr_nodata camada = Some nd \<and> \<bar>valor - nd\<bar> < 1 / 10000))"
  shows "\<exists>m. analisar_inclinacao_terreno g camada area = resultado_erro_objeto m"
proof (cases "\<not> cr_valida camada \<or> \<not> cr_cobre_lote camada")
  case True
  then show ?thesis by (auto simp: analisar_inclinacao_terreno_def Let_def)
next
  case False
  with assms have "snd (snd (contar_pixels (cr_nodata camada) (cr_pixels camada)
                       (\<lambda>cat_id. 0, 0, 0))) = 0"
    by (intro contar_pixels_sem_validos) auto
  then show ?thesis
    by (auto simp: analisar_inclinacao_terreno_def Let_def split: prod.splits)
qed






end
